theory Spec2Isabelle
  imports Complex_Main
begin

section \<open>Numbers, rectangles and keys\<close>

text \<open>
  The simulation is written in TypeScript; every \<^verbatim>\<open>number\<close> of the source is
  modelled as a \<^typ>\<open>real\<close>. The model therefore describes the arithmetic of the
  source on finite values only: NaN and the infinities of IEEE doubles (and the
  rounding of each operation) have no counterpart here.

  The sprite animator (\<^verbatim>\<open>SpriteAnimator\<close>) is a presentation collaborator. The
  fighter record below keeps the mechanical fields of the class; the animator, and the
  fields that are written only from its frame counter (\<^verbatim>\<open>ranged1Launched\<close>,
  \<^verbatim>\<open>ranged2Launched\<close>, \<^verbatim>\<open>ranged2Hold\<close>, \<^verbatim>\<open>flyHold\<close>,
  \<^verbatim>\<open>laurinAttack1ProjectileLaunched\<close>, \<^verbatim>\<open>_frozen\<close>, \<^verbatim>\<open>shouldRemove\<close>, the
  spawned projectiles) are left out. No field kept here is computed from one left out.
\<close>

record rect =
  rx :: real
  ry :: real
  rw :: real
  rh :: real

record keymap =
  left :: string
  right :: string
  up :: string
  down :: string
  attack1 :: string
  attack2 :: string
  parry :: string
  ranged1 :: string
  ranged2 :: string
  dodge :: string

type_synonym input = "string \<Rightarrow> bool"

section \<open>Fighter (src/qte/fighter.ts)\<close>

record fighter =
  x :: real
  y :: real
  w :: real
  h :: real
  vx :: real
  vy :: real
  facing :: real
  hp :: real
  maxHp :: real
  damagePercent :: real
  stocks :: real
  onGround :: bool
  state :: string
  name :: string
  keys :: keymap
  attacking1 :: bool
  attacking2 :: bool
  parrying :: bool
  ranging1 :: bool
  ranging2 :: bool
  attack1Launched :: bool
  attack2Launched :: bool
  hurt :: bool
  flying :: bool
  flySpeed :: real
  allowGroundCollision :: bool
  attack1Timer :: real
  attack2Timer :: real
  ranged1Timer :: real
  ranged2Timer :: real
  parryTimer :: real
  parryFreezeTimer :: real
  parryCooldown :: real
  stunTimer :: real
  hurtTimer :: real
  parryConsumed :: bool
  parryDurationDefault :: real
  launchedFromHit :: bool
  canvasW :: real
  canvasH :: real
  jumpStartTime :: "real option"

text \<open>The private \<^verbatim>\<open>setState\<close>: the animator's clip follows the state name.\<close>

definition setState :: "string \<Rightarrow> fighter \<Rightarrow> fighter" where
  "setState s f = (if state f = s then f else f\<lparr>state := s\<rparr>)"

text \<open>The constructor: the field initialisers of the class and the options it copies.\<close>

definition newFighter :: "real \<Rightarrow> real \<Rightarrow> string \<Rightarrow> keymap \<Rightarrow> real \<Rightarrow> real \<Rightarrow> fighter" where
  "newFighter x0 y0 nm ks canvasWidth canvasHeight =
     \<lparr>x = x0, y = y0, w = 256, h = 256, vx = 0, vy = 0, facing = 1, hp = 3, maxHp = 3,
      damagePercent = 0, stocks = 3, onGround = False, state = ''idle'', name = nm,
      keys = ks, attacking1 = False, attacking2 = False, parrying = False,
      ranging1 = False, ranging2 = False, attack1Launched = False,
      attack2Launched = False, hurt = False, flying = False, flySpeed = 300,
      allowGroundCollision = True, attack1Timer = 0, attack2Timer = 0, ranged1Timer = 0,
      ranged2Timer = 0, parryTimer = 0, parryFreezeTimer = 0, parryCooldown = 0,
      stunTimer = 0, hurtTimer = 0, parryConsumed = False, parryDurationDefault = 0.25,
      launchedFromHit = False, canvasW = canvasWidth, canvasH = canvasHeight,
      jumpStartTime = None\<rparr>"

text \<open>\<^verbatim>\<open>rect()\<close>: the centred hurtbox, half the sprite in each dimension.\<close>

definition hurtbox :: "fighter \<Rightarrow> rect" where
  "hurtbox f =
     (let hurtW = max 1 (of_int \<lfloor>w f * 0.5\<rfloor>);
          hurtH = max 1 (of_int \<lfloor>h f * 0.5\<rfloor>);
          hurtX = x f + of_int \<lfloor>(w f - hurtW) * 0.5\<rfloor>;
          hurtY = y f + of_int \<lfloor>(h f - hurtH) * 0.5\<rfloor>
      in \<lparr>rx = hurtX, ry = hurtY, rw = hurtW, rh = hurtH\<rparr>)"

text \<open>\<^verbatim>\<open>hitbox()\<close>: present only in the states attack1 and attack2.\<close>

definition hitbox :: "fighter \<Rightarrow> rect option" where
  "hitbox f =
     (if state f = ''attack1'' \<or> state f = ''attack2'' then
        (let aw = 60; ah = 40;
             ax = (if facing f > 0 then x f + w f - 10 else x f - (aw - 10));
             ay = y f + h f * 0.55 - ah * 0.5
         in Some \<lparr>rx = ax, ry = ay, rw = aw, rh = ah\<rparr>)
      else None)"

subsection \<open>takeDamage and receiveHit\<close>

definition takeDamage :: "real \<Rightarrow> fighter \<Rightarrow> fighter" where
  "takeDamage amount f =
     (if hp f \<le> 0 \<or> state f = ''defeat'' then f
      else
        (let f1 = f\<lparr>hp := max 0 (hp f - amount), hurt := True, hurtTimer := 0.3\<rparr>
         in if hp f1 \<le> 0 then f1\<lparr>state := ''defeat'', maxHp := 0\<rparr> else f1))"

text \<open>The local \<^verbatim>\<open>KB\<close> of receiveHit, with \<^verbatim>\<open>scale = 6 * strength\<close> and \<^verbatim>\<open>k = 30\<close>.\<close>

definition knockbackKB :: "real \<Rightarrow> real \<Rightarrow> real \<Rightarrow> real" where
  "knockbackKB baseKB strength dp =
     (let scale = 6 * strength; k = 30
      in baseKB + dp * scale + (dp * dp) / (k + dp))"

text \<open>
  The formula as the specification words it:
  \<^verbatim>\<open>KB = baseKnockback + damagePercent*scale + damagePercent^2/(k + damagePercent)\<close>.
\<close>

definition KB_spec :: "real \<Rightarrow> real \<Rightarrow> real \<Rightarrow> real \<Rightarrow> real" where
  "KB_spec baseKnockback scale k dp = baseKnockback + dp * scale + dp\<^sup>2 / (k + dp)"

definition globalKnockbackMultiplier :: real where
  "globalKnockbackMultiplier = 0.2"

text \<open>
  \<^verbatim>\<open>receiveHit(percentIncrease, baseKB = 120, strength = 1, angleRad?)\<close>. The optional
  angle is an option; the defaults of baseKB and strength are supplied by the caller
  (every call site of the repository passes all four arguments).
\<close>

definition receiveHit :: "real \<Rightarrow> real \<Rightarrow> real \<Rightarrow> real option \<Rightarrow> fighter \<Rightarrow> fighter" where
  "receiveHit percentIncrease baseKB strength angleRad f =
     (if state f = ''defeat'' then f
      else
        (let f1 = f\<lparr>damagePercent := damagePercent f + percentIncrease\<rparr>;
             dp = damagePercent f1;
             KB = knockbackKB baseKB strength dp;
             attackerFromLeft = (case angleRad of Some a \<Rightarrow> cos a < 0 | None \<Rightarrow> False)
         in if dp < 30 then
              (let horizontalFactor = 0.12 * strength;
                   verticalFactor = 0.12 * strength;
                   ang = (case angleRad of Some a \<Rightarrow> a
                          | None \<Rightarrow> (if facing f1 > 0 then pi else 0));
                   appliedVx = cos ang * KB * horizontalFactor * globalKnockbackMultiplier;
                   appliedVy = - sin ang * KB * verticalFactor * globalKnockbackMultiplier
               in f1\<lparr>vx := vx f1 + appliedVx, vy := vy f1 + appliedVy,
                      stunTimer := max (stunTimer f1) (0.25 * strength),
                      hurt := True, hurtTimer := 0.3\<rparr>)
            else
              (let clamped = min (max ((dp - 30) / 70) 0) 1;
                   scaleMultiplier = 1 + clamped * 2;
                   baseJumpVy = - 350;
                   baseHor = 150;
                   appliedVy = baseJumpVy * scaleMultiplier * globalKnockbackMultiplier;
                   dir = (if attackerFromLeft then 1 else - 1);
                   appliedVx = baseHor * scaleMultiplier * dir * globalKnockbackMultiplier
               in f1\<lparr>vx := appliedVx, vy := appliedVy, onGround := False,
                      launchedFromHit := True, hurt := True, hurtTimer := 0.45,
                      stunTimer := max (stunTimer f1) (0.5 * strength)\<rparr>)))"

definition isDefeated :: "fighter \<Rightarrow> bool" where
  "isDefeated f = (hp f \<le> 0)"

text \<open>
  Landing after a launch stops the fighter and ends hurt and stun (the same statements
  in \<^verbatim>\<open>landAt\<close> and in the legacy floor collision of \<^verbatim>\<open>update\<close>).
\<close>

definition landReset :: "fighter \<Rightarrow> fighter" where
  "landReset f =
     (if launchedFromHit f then
        (let f3 = f\<lparr>vx := 0, launchedFromHit := False, hurt := False,
                   hurtTimer := 0, stunTimer := 0\<rparr>
         in if state f3 \<noteq> ''defeat'' \<and> \<not> parrying f3 then setState ''idle'' f3 else f3)
      else f)"

text \<open>\<^verbatim>\<open>landAt(yTop)\<close>: called by the frame loop when the fighter lands on a surface.\<close>

definition landAt :: "real \<Rightarrow> fighter \<Rightarrow> fighter" where
  "landAt yTop f = (landReset (f\<lparr>y := yTop, vy := 0\<rparr>))\<lparr>onGround := True\<rparr>"

subsection \<open>update: one tick of a fighter\<close>

text \<open>
  \<^verbatim>\<open>update(dt, input, projectiles, blasts)\<close> is split into the statements of the
  source, in their order. \<^verbatim>\<open>performance.now()\<close> is the extra argument \<open>now\<close>. A key
  that is absent from the input record reads as false (\<^verbatim>\<open>!!input[k]\<close>).
\<close>

text \<open>The derived movement state: jump in the air, walk when moving, idle otherwise.\<close>

definition restoreState :: "fighter \<Rightarrow> fighter" where
  "restoreState f =
     (if \<not> onGround f then setState ''jump'' f
      else if \<bar>vx f\<bar> > 1 then setState ''walk'' f
      else setState ''idle'' f)"

definition flyStart :: "input \<Rightarrow> fighter \<Rightarrow> fighter" where
  "flyStart inp f =
     (if inp (dodge (keys f)) \<and> \<not> flying f
      then f\<lparr>flying := True, state := ''fly'', vy := 0, onGround := False\<rparr>
      else f)"

definition flySteer :: "input \<Rightarrow> fighter \<Rightarrow> fighter" where
  "flySteer inp f =
     (let vy' = (if inp (up (keys f)) then - flySpeed f
                 else if inp (down (keys f)) then flySpeed f else 0)
      in if inp (left (keys f)) then f\<lparr>vx := - flySpeed f, facing := - 1, vy := vy'\<rparr>
         else if inp (right (keys f)) then f\<lparr>vx := flySpeed f, facing := 1, vy := vy'\<rparr>
         else f\<lparr>vx := 0, vy := vy'\<rparr>)"

definition flyRelease :: "input \<Rightarrow> fighter \<Rightarrow> fighter" where
  "flyRelease inp f =
     (if \<not> inp (dodge (keys f)) then restoreState (f\<lparr>flying := False\<rparr>) else f)"

definition flyMove :: "real \<Rightarrow> input \<Rightarrow> fighter \<Rightarrow> fighter" where
  "flyMove dt inp f =
     (let f1 = flySteer inp f
      in flyRelease inp (f1\<lparr>x := x f1 + vx f1 * dt, y := y f1 + vy f1 * dt\<rparr>))"

text \<open>Walking input is ignored while stunned or launched.\<close>

definition walkInput :: "input \<Rightarrow> fighter \<Rightarrow> fighter" where
  "walkInput inp f =
     (if stunTimer f \<le> 0 \<and> \<not> launchedFromHit f then
        (if inp (left (keys f)) then f\<lparr>vx := - 150, facing := - 1\<rparr>
         else if inp (right (keys f)) then f\<lparr>vx := 150, facing := 1\<rparr>
         else f\<lparr>vx := 0\<rparr>)
      else f)"

text \<open>\<^verbatim>\<open>!this._jumpStartTime\<close>: unset, or the number 0.\<close>

definition jumpTimeUnset :: "real option \<Rightarrow> bool" where
  "jumpTimeUnset t = (case t of None \<Rightarrow> True | Some v \<Rightarrow> v = 0)"

definition jumpStart :: "input \<Rightarrow> real \<Rightarrow> fighter \<Rightarrow> fighter" where
  "jumpStart inp now f =
     (if onGround f \<and> inp (up (keys f)) then
        f\<lparr>jumpStartTime := (if jumpTimeUnset (jumpStartTime f) then Some now
                             else jumpStartTime f),
          vy := - 350, onGround := False\<rparr>
      else f)"

text \<open>A jump released within 100 ms is cut short.\<close>

definition jumpRelease :: "input \<Rightarrow> real \<Rightarrow> fighter \<Rightarrow> fighter" where
  "jumpRelease inp now f =
     (if \<not> inp (up (keys f)) \<and> \<not> jumpTimeUnset (jumpStartTime f) then
        (let jumpDuration = now - (case jumpStartTime f of Some t \<Rightarrow> t | None \<Rightarrow> 0)
         in if jumpDuration < 100 \<and> vy f < 0 then f\<lparr>vy := - 175, jumpStartTime := None\<rparr>
            else f\<lparr>jumpStartTime := None\<rparr>)
      else f)"

text \<open>Gravity, then the position from the new velocity.\<close>

definition integrate :: "real \<Rightarrow> fighter \<Rightarrow> fighter" where
  "integrate dt f =
     f\<lparr>vy := vy f + 900 * dt, x := x f + vx f * dt, y := y f + (vy f + 900 * dt) * dt\<rparr>"

definition groundMove :: "real \<Rightarrow> input \<Rightarrow> real \<Rightarrow> fighter \<Rightarrow> fighter" where
  "groundMove dt inp now f =
     integrate dt (jumpRelease inp now (jumpStart inp now (walkInput inp f)))"

definition groundFriction :: "real \<Rightarrow> fighter \<Rightarrow> fighter" where
  "groundFriction dt f =
     (if onGround f \<and> \<not> launchedFromHit f then
        (if \<bar>vx f\<bar> > 0.001 then
           (let dec = sgn (vx f) * 1200 * dt
            in if \<bar>dec\<bar> \<ge> \<bar>vx f\<bar> then f\<lparr>vx := 0\<rparr> else f\<lparr>vx := vx f - dec\<rparr>)
         else f\<lparr>vx := 0\<rparr>)
      else f)"

text \<open>The legacy floor at \<^verbatim>\<open>canvasH - 40\<close>, behind \<^verbatim>\<open>allowGroundCollision\<close>.\<close>

definition groundCollision :: "fighter \<Rightarrow> fighter" where
  "groundCollision f =
     (if allowGroundCollision f \<and> y f + h f \<ge> canvasH f - 40
      then (landReset (f\<lparr>y := canvasH f - 40 - h f, vy := 0\<rparr>))\<lparr>onGround := True\<rparr>
      else f)"

text \<open>Parry: start, window, cooldown.\<close>

definition parryGuard :: "input \<Rightarrow> fighter \<Rightarrow> bool" where
  "parryGuard inp f =
     (inp (parry (keys f)) \<and> \<not> parrying f \<and> \<not> attacking1 f \<and> \<not> attacking2 f
      \<and> \<not> ranging1 f \<and> \<not> ranging2 f \<and> \<not> hurt f \<and> parryCooldown f \<le> 0)"

definition parryStart :: "input \<Rightarrow> fighter \<Rightarrow> fighter" where
  "parryStart inp f =
     (if parryGuard inp f
      then (setState ''parry'' (f\<lparr>parrying := True\<rparr>))
             \<lparr>parryTimer := parryDurationDefault f, parryConsumed := False, parryCooldown := 3\<rparr>
      else f)"

definition parryTick :: "real \<Rightarrow> fighter \<Rightarrow> fighter" where
  "parryTick dt f =
     (if parrying f then
        (if parryTimer f - dt \<le> 0
         then setState ''idle'' (f\<lparr>parryTimer := parryTimer f - dt, parrying := False\<rparr>)
         else f\<lparr>parryTimer := parryTimer f - dt\<rparr>)
      else f)"

definition parryCooldownTick :: "real \<Rightarrow> fighter \<Rightarrow> fighter" where
  "parryCooldownTick dt f =
     (if parryCooldown f > 0 then f\<lparr>parryCooldown := max 0 (parryCooldown f - dt)\<rparr> else f)"

definition parryPhase :: "real \<Rightarrow> input \<Rightarrow> fighter \<Rightarrow> fighter" where
  "parryPhase dt inp f = parryCooldownTick dt (parryTick dt (parryStart inp f))"

text \<open>Attack1: a new attack clears its launched flag; the attack lasts 0.35 s.\<close>

definition attack1Guard :: "input \<Rightarrow> fighter \<Rightarrow> bool" where
  "attack1Guard inp f = (inp (attack1 (keys f)) \<and> \<not> attacking1 f \<and> \<not> parrying f)"

definition attack1Start :: "input \<Rightarrow> fighter \<Rightarrow> fighter" where
  "attack1Start inp f =
     (if attack1Guard inp f
      then f\<lparr>attacking1 := True, state := ''attack1'', attack1Timer := 0.35,
             attack1Launched := False\<rparr>
      else f)"

definition attack1Tick :: "real \<Rightarrow> fighter \<Rightarrow> fighter" where
  "attack1Tick dt f =
     (if attacking1 f then
        (if attack1Timer f - dt \<le> 0
         then f\<lparr>attack1Timer := attack1Timer f - dt, attacking1 := False\<rparr>
         else f\<lparr>attack1Timer := attack1Timer f - dt\<rparr>)
      else f)"

text \<open>
  Attack2: the branch for the character granny and the default branch set the same
  mechanical fields; they differ in the animator only.
\<close>

definition attack2Guard :: "input \<Rightarrow> fighter \<Rightarrow> bool" where
  "attack2Guard inp f = (inp (attack2 (keys f)) \<and> \<not> attacking2 f \<and> \<not> parrying f)"

definition attack2Start :: "input \<Rightarrow> fighter \<Rightarrow> fighter" where
  "attack2Start inp f =
     (if attack2Guard inp f
      then f\<lparr>attacking2 := True, state := ''attack2'', attack2Timer := 0.35,
             attack2Launched := False\<rparr>
      else f)"

definition attack2Tick :: "real \<Rightarrow> fighter \<Rightarrow> fighter" where
  "attack2Tick dt f =
     (if attacking2 f then
        (if attack2Timer f - dt \<le> 0
         then f\<lparr>attack2Timer := attack2Timer f - dt, attacking2 := False\<rparr>
         else f\<lparr>attack2Timer := attack2Timer f - dt\<rparr>)
      else f)"

definition ranged1Start :: "input \<Rightarrow> fighter \<Rightarrow> fighter" where
  "ranged1Start inp f =
     (if inp (ranged1 (keys f)) \<and> \<not> ranging1 f \<and> \<not> parrying f
      then f\<lparr>ranging1 := True, state := ''ranged1'', ranged1Timer := 0.4\<rparr>
      else f)"

definition ranged1Tick :: "real \<Rightarrow> fighter \<Rightarrow> fighter" where
  "ranged1Tick dt f =
     (if ranging1 f then
        (if ranged1Timer f - dt \<le> 0
         then f\<lparr>ranged1Timer := ranged1Timer f - dt, ranging1 := False\<rparr>
         else f\<lparr>ranged1Timer := ranged1Timer f - dt\<rparr>)
      else f)"

text \<open>Ranged2 stays active while its key is held; its timer is set but never counted down.\<close>

definition ranged2Start :: "input \<Rightarrow> fighter \<Rightarrow> fighter" where
  "ranged2Start inp f =
     (if inp (ranged2 (keys f)) \<and> \<not> ranging2 f \<and> \<not> parrying f
      then f\<lparr>ranging2 := True, state := ''ranged2'', ranged2Timer := 0.4\<rparr>
      else f)"

definition ranged2Tick :: "input \<Rightarrow> fighter \<Rightarrow> fighter" where
  "ranged2Tick inp f =
     (if ranging2 f then (if inp (ranged2 (keys f)) then f else f\<lparr>ranging2 := False\<rparr>)
      else f)"

text \<open>All action blocks are skipped while flying.\<close>

definition actions :: "real \<Rightarrow> input \<Rightarrow> fighter \<Rightarrow> fighter" where
  "actions dt inp f =
     (if \<not> flying f then
        ranged2Tick inp (ranged2Start inp
          (ranged1Tick dt (ranged1Start inp
            (attack2Tick dt (attack2Start inp
              (attack1Tick dt (attack1Start inp (parryPhase dt inp f))))))))
      else f)"

definition hurtPhase :: "real \<Rightarrow> fighter \<Rightarrow> fighter" where
  "hurtPhase dt f =
     (if hurt f then
        (if hurtTimer f - dt \<le> 0 then
           (let g1 = f\<lparr>hurtTimer := hurtTimer f - dt, hurt := False\<rparr>
            in if state g1 \<noteq> ''defeat'' \<and> \<not> parrying g1 then restoreState g1 else g1)
         else f\<lparr>hurtTimer := hurtTimer f - dt\<rparr>)
      else f)"

definition fallbackPhase :: "fighter \<Rightarrow> fighter" where
  "fallbackPhase f =
     (if \<not> flying f \<and> \<not> attacking1 f \<and> \<not> attacking2 f \<and> \<not> ranging1 f \<and> \<not> ranging2 f
         \<and> \<not> hurt f \<and> \<not> parrying f \<and> state f \<noteq> ''defeat''
      then restoreState f else f)"

text \<open>Movement and gravity, friction and the legacy floor: everything before the actions.\<close>

definition movement :: "real \<Rightarrow> input \<Rightarrow> real \<Rightarrow> fighter \<Rightarrow> fighter" where
  "movement dt inp now f =
     (let f1 = flyStart inp f
      in groundCollision (groundFriction dt
           (if flying f1 then flyMove dt inp f1 else groundMove dt inp now f1)))"

definition update :: "real \<Rightarrow> input \<Rightarrow> real \<Rightarrow> fighter \<Rightarrow> fighter" where
  "update dt inp now f = fallbackPhase (hurtPhase dt (actions dt inp (movement dt inp now f)))"

text \<open>
  Whether this call of update begins a new parry, attack1 or attack2: the guard of the
  source, read at the point of the source where it is tested.
\<close>

definition startsParry :: "real \<Rightarrow> input \<Rightarrow> real \<Rightarrow> fighter \<Rightarrow> bool" where
  "startsParry dt inp now f =
     (let g = movement dt inp now f in \<not> flying g \<and> parryGuard inp g)"



section \<open>Projectiles and the combat pass of the frame loop\<close>

text \<open>
  A projectile refers to the fighter that fired it. The loop compares that reference
  with \<^verbatim>\<open>p1\<close> and \<^verbatim>\<open>p2\<close> and writes through it, so the owner is an address: one
  of the two combatants, or another fighter object (the third NPC, or a fighter that
  has since been replaced), kept in a store indexed by a number.
\<close>

datatype owner = OwnerP1 | OwnerP2 | OwnerOther nat

record projectile =
  pr_x :: real
  pr_y :: real
  pr_vx :: real
  pr_vy :: real
  pr_alive :: bool
  pr_age :: real
  pr_lifespan :: real
  pr_gravity :: real
  pr_owner :: owner
  displayW :: real
  displayH :: real
  applyKnockbackOnHit :: bool

definition projRect :: "projectile \<Rightarrow> rect" where
  "projRect pr = \<lparr>rx = pr_x pr, ry = pr_y pr, rw = displayW pr, rh = displayH pr\<rparr>"

definition projUpdate :: "real \<Rightarrow> projectile \<Rightarrow> projectile" where
  "projUpdate dt pr =
     (let p0 = pr\<lparr>pr_age := pr_age pr + dt\<rparr>;
          p1 = (if pr_gravity p0 \<noteq> 0 then p0\<lparr>pr_vy := pr_vy p0 + pr_gravity p0 * dt\<rparr> else p0);
          p2 = p1\<lparr>pr_x := pr_x p1 + pr_vx p1 * dt, pr_y := pr_y p1 + pr_vy p1 * dt\<rparr>
      in if pr_age p2 \<ge> pr_lifespan p2 then p2\<lparr>pr_alive := False\<rparr> else p2)"

definition aabb :: "rect \<Rightarrow> rect \<Rightarrow> bool" where
  "aabb a b = (\<not> (rx a + rw a < rx b \<or> rx b + rw b < rx a
                  \<or> ry a + rh a < ry b \<or> ry b + rh b < ry a))"

text \<open>
  The state the combat pass works on: the two combatants, the other fighter objects,
  the live projectiles, and whether \<^verbatim>\<open>npcController\<close> is set (the fixed-HP matchup).
\<close>

record world =
  p1 :: fighter
  p2 :: fighter
  others :: "nat \<Rightarrow> fighter"
  projectiles :: "projectile list"
  npcController :: bool

definition getFighter :: "world \<Rightarrow> owner \<Rightarrow> fighter" where
  "getFighter wd who = (case who of OwnerP1 \<Rightarrow> p1 wd | OwnerP2 \<Rightarrow> p2 wd
                        | OwnerOther i \<Rightarrow> others wd i)"

definition setFighter :: "world \<Rightarrow> owner \<Rightarrow> fighter \<Rightarrow> world" where
  "setFighter wd who f = (case who of OwnerP1 \<Rightarrow> wd\<lparr>p1 := f\<rparr> | OwnerP2 \<Rightarrow> wd\<lparr>p2 := f\<rparr>
                          | OwnerOther i \<Rightarrow> wd\<lparr>others := (others wd)(i := f)\<rparr>)"

subsection \<open>Melee\<close>

text \<open>\<^verbatim>\<open>(p as any)[launchFlag]\<close> with launchFlag chosen by \<^verbatim>\<open>attacking1\<close>.\<close>

definition launchFlag :: "fighter \<Rightarrow> bool" where
  "launchFlag a = (if attacking1 a then attack1Launched a else attack2Launched a)"

definition setLaunchFlag :: "fighter \<Rightarrow> fighter" where
  "setLaunchFlag a = (if attacking1 a then a\<lparr>attack1Launched := True\<rparr>
                      else a\<lparr>attack2Launched := True\<rparr>)"

text \<open>\<^verbatim>\<open>(p.maxHp || 1)\<close>: a zero maxHp counts as 1.\<close>

definition maxHpOr1 :: "fighter \<Rightarrow> real" where
  "maxHpOr1 d = (if maxHp d = 0 then 1 else maxHp d)"

text \<open>
  The three nested guards under which the loop resolves a melee attack of \<open>a\<close> on
  \<open>d\<close>; \<open>hb\<close> is the attacker's hitbox as read at the start of the pass.
\<close>

definition meleeResolves :: "rect option \<Rightarrow> fighter \<Rightarrow> fighter \<Rightarrow> bool" where
  "meleeResolves hb a d =
     (case hb of None \<Rightarrow> False
      | Some r \<Rightarrow> aabb r (hurtbox d) \<and> (attacking1 a \<or> attacking2 a) \<and> \<not> launchFlag a)"

text \<open>
  One direction of the melee resolution (the loop has it twice, P1 on P2 and then P2
  on P1, the same code with the roles exchanged). The result is the attacker and the
  defender after the block.
\<close>

definition meleeBlock :: "bool \<Rightarrow> rect option \<Rightarrow> fighter \<Rightarrow> fighter \<Rightarrow> fighter \<times> fighter" where
  "meleeBlock isSingleplayer hb a d =
     (if meleeResolves hb a d then
        (let a1 = setLaunchFlag a
         in if parrying d \<and> \<not> parryConsumed d then
              (let d1 = d\<lparr>parryConsumed := True, parryFreezeTimer := 0.15\<rparr>
               in if ranging1 a1 \<or> ranging2 a1 then (a1, d1)
                  else (receiveHit 20 120 1.0 (Some (if x d1 < x a1 then pi else 0)) a1, d1))
            else if \<not> parrying d \<or> parryConsumed d then
              (if isSingleplayer then (a1, takeDamage (of_int \<lceil>maxHpOr1 d / 3\<rceil>) d)
               else (a1, receiveHit 30 140 0.6 (Some (if x a1 < x d then pi else 0)) d))
            else (a1, d))
      else (a, d))"

text \<open>P1 on P2 (lines 2306 to 2340), then P2 on P1; both hitboxes are read first.\<close>

definition meleeP1 :: "world \<Rightarrow> world" where
  "meleeP1 wd = (let (a, d) = meleeBlock (npcController wd) (hitbox (p1 wd)) (p1 wd) (p2 wd)
                 in wd\<lparr>p1 := a, p2 := d\<rparr>)"

definition meleePass :: "world \<Rightarrow> world" where
  "meleePass wd =
     (let h1 = hitbox (p1 wd); h2 = hitbox (p2 wd);
          (a, d) = meleeBlock (npcController wd) h1 (p1 wd) (p2 wd);
          w1 = wd\<lparr>p1 := a, p2 := d\<rparr>;
          (a2, d2) = meleeBlock (npcController w1) h2 (p2 w1) (p1 w1)
      in w1\<lparr>p1 := d2, p2 := a2\<rparr>)"

subsection \<open>Projectiles\<close>

text \<open>
  A projectile against the combatant \<open>who\<close> (the loop has the block once for P1 and
  once for P2). A parried projectile stuns its owner through the owner reference.
\<close>

definition projectileVs :: "owner \<Rightarrow> projectile \<Rightarrow> world \<Rightarrow> projectile \<times> world" where
  "projectileVs who pr wd =
     (let d = getFighter wd who
      in if pr_owner pr \<noteq> who \<and> aabb (projRect pr) (hurtbox d) then
           (if parrying d \<and> \<not> parryConsumed d then
              (let w1 = setFighter wd who (d\<lparr>parryConsumed := True, parryFreezeTimer := 0.15\<rparr>);
                   w2 = setFighter w1 (pr_owner pr)
                          ((getFighter w1 (pr_owner pr))\<lparr>stunTimer := 1.2\<rparr>)
               in (pr\<lparr>pr_alive := False\<rparr>, w2))
            else if \<not> parrying d \<or> parryConsumed d then
              (let hpDamage = max 1 (of_int \<lceil>maxHpOr1 d / 12\<rceil>);
                   d1 = takeDamage hpDamage d;
                   d2 = (if applyKnockbackOnHit pr
                         then receiveHit 8 90 0.9 (Some (if pr_vx pr < 0 then pi else 0)) d1
                         else d1\<lparr>damagePercent := damagePercent d1 + 8\<rparr>)
               in (pr\<lparr>pr_alive := False\<rparr>, setFighter wd who d2))
            else (pr, wd))
         else (pr, wd))"

text \<open>
  One iteration of the loop over the projectiles. \<open>solid\<close> is the solidity query of
  the stage; a projectile whose bottom centre is on solid ground dies there.
\<close>

definition projectileStep :: "(real \<Rightarrow> real \<Rightarrow> bool) \<Rightarrow> projectile \<Rightarrow> world \<Rightarrow> projectile \<times> world" where
  "projectileStep solid pr wd =
     (if \<not> pr_alive pr then (pr, wd)
      else
        (let r = projRect pr; centerX = rx r + rw r * 0.5; bottomY = ry r + rh r
         in if solid centerX bottomY then (pr\<lparr>pr_alive := False\<rparr>, wd)
            else (let (pr1, w1) = projectileVs OwnerP1 pr wd
                  in projectileVs OwnerP2 pr1 w1)))"

fun projectileLoop :: "(real \<Rightarrow> real \<Rightarrow> bool) \<Rightarrow> projectile list \<Rightarrow> world \<Rightarrow> projectile list \<times> world" where
  "projectileLoop solid [] wd = ([], wd)"
| "projectileLoop solid (pr # prs) wd =
     (let (pr1, w1) = projectileStep solid pr wd;
          (prs1, w2) = projectileLoop solid prs w1
      in (pr1 # prs1, w2))"

definition projectilePass :: "(real \<Rightarrow> real \<Rightarrow> bool) \<Rightarrow> world \<Rightarrow> world" where
  "projectilePass solid wd =
     (let (prs, w1) = projectileLoop solid (projectiles wd) wd in w1\<lparr>projectiles := prs\<rparr>)"

subsection \<open>Defeat, fall-out and the events of a frame\<close>

definition autoDefeat :: "fighter \<Rightarrow> fighter" where
  "autoDefeat f =
     (if isDefeated f \<and> state f \<noteq> ''defeat''
      then f\<lparr>state := ''defeat'', attacking1 := False, attacking2 := False, parrying := False,
             ranging1 := False, ranging2 := False, vx := 0, vy := 0\<rparr>
      else f)"

text \<open>The whole collision section of the loop, run when both combatants exist.\<close>

definition combatPass :: "(real \<Rightarrow> real \<Rightarrow> bool) \<Rightarrow> world \<Rightarrow> world" where
  "combatPass solid wd =
     (let w1 = projectilePass solid (meleePass wd)
      in w1\<lparr>p1 := autoDefeat (p1 w1), p2 := autoDefeat (p2 w1)\<rparr>)"

text \<open>
  The stage collision of the loop moves a fighter apart from landAt: the hover fix, the
  emergency teleport, the drop-through, the loss of support and the section change write
  position, velocity and the grounded flag directly. Any such write is covered by one
  that sets all five fields.
\<close>

definition stageWrite :: "real \<Rightarrow> real \<Rightarrow> real \<Rightarrow> real \<Rightarrow> bool \<Rightarrow> fighter \<Rightarrow> fighter" where
  "stageWrite nx ny nvx nvy grounded f =
     f\<lparr>x := nx, y := ny, vx := nvx, vy := nvy, onGround := grounded\<rparr>"

text \<open>
  P1 below the fall threshold: a stock is lost; with no stock left P1 is defeated,
  otherwise P1 respawns at the position \<open>(sx, sy)\<close> chosen by the level (a spawn point
  or the main platform) with percent, launch, hurt and stun cleared.
\<close>

definition fallOutP1 :: "real \<Rightarrow> real \<Rightarrow> fighter \<Rightarrow> fighter" where
  "fallOutP1 sx sy f =
     (let f1 = f\<lparr>stocks := max 0 (stocks f - 1)\<rparr>
      in if stocks f1 \<le> 0 then
           f1\<lparr>state := ''defeat'', attacking1 := False, attacking2 := False, parrying := False,
              ranging1 := False, ranging2 := False, vx := 0, vy := 0\<rparr>
         else
           f1\<lparr>x := sx, y := sy, vx := 0, vy := 0, damagePercent := 0,
              launchedFromHit := False, hurt := False, hurtTimer := 0, stunTimer := 0\<rparr>)"

text \<open>
  The fallback branch of the agent controller (simpleAi.ts, lines 333 and 338) does not
  only press the parry key: it writes the parry into the fighter it controls.
\<close>

definition aiForceParry :: "fighter \<Rightarrow> fighter" where
  "aiForceParry f =
     f\<lparr>parrying := True,
       parryTimer := (if parryDurationDefault f = 0 then 0.25 else parryDurationDefault f) * 0.6,
       parryConsumed := False\<rparr>"

text \<open>
  What the frame loop does to the two combatants, one event per call: the update of a
  fighter, a projectile entering play, the projectiles moving (dead ones are removed),
  the combat pass, a landing, a write of the stage collision, and P1 falling out (when P1 respawns, the level may also
  put P2 back on its spawn point), and the agent controller forcing a parry of P2.
  A frame is a sequence of events.
\<close>

datatype event =
    UpdateP1 real input real
  | UpdateP2 real input real
  | Spawn projectile
  | MoveProjectiles real
  | Combat "real \<Rightarrow> real \<Rightarrow> bool"
  | LandP1 real
  | LandP2 real
  | StageP1 real real real real bool
  | StageP2 real real real real bool
  | FallOutP1 real real "(real \<times> real) option"
  | AiParryP2

fun step :: "event \<Rightarrow> world \<Rightarrow> world" where
  "step (UpdateP1 dt inp now) wd = wd\<lparr>p1 := update dt inp now (p1 wd)\<rparr>"
| "step (UpdateP2 dt inp now) wd = wd\<lparr>p2 := update dt inp now (p2 wd)\<rparr>"
| "step (Spawn pr) wd = wd\<lparr>projectiles := projectiles wd @ [pr]\<rparr>"
| "step (MoveProjectiles dt) wd =
     wd\<lparr>projectiles := filter pr_alive (map (projUpdate dt) (projectiles wd))\<rparr>"
| "step (Combat solid) wd = combatPass solid wd"
| "step (LandP1 yTop) wd = wd\<lparr>p1 := landAt yTop (p1 wd)\<rparr>"
| "step (LandP2 yTop) wd = wd\<lparr>p2 := landAt yTop (p2 wd)\<rparr>"
| "step (StageP1 nx ny nvx nvy grounded) wd = wd\<lparr>p1 := stageWrite nx ny nvx nvy grounded (p1 wd)\<rparr>"
| "step (StageP2 nx ny nvx nvy grounded) wd = wd\<lparr>p2 := stageWrite nx ny nvx nvy grounded (p2 wd)\<rparr>"
| "step (FallOutP1 sx sy npcSpawn) wd =
     (let w1 = wd\<lparr>p1 := fallOutP1 sx sy (p1 wd)\<rparr>
      in if stocks (p1 w1) \<le> 0 then w1
         else (case npcSpawn of None \<Rightarrow> w1
               | Some (cx, cy) \<Rightarrow>
                   w1\<lparr>p2 := (p2 w1)\<lparr>x := cx, y := cy, vx := 0, vy := 0, facing := - 1\<rparr>\<rparr>))"

| "step AiParryP2 wd = wd\<lparr>p2 := aiForceParry (p2 wd)\<rparr>"

fun run :: "event list \<Rightarrow> world \<Rightarrow> world" where
  "run [] wd = wd"
| "run (e # es) wd = run es (step e wd)"

section \<open>Attack instances and parry activations along a trace\<close>

datatype side = SideP1 | SideP2

definition fighterOf :: "side \<Rightarrow> world \<Rightarrow> fighter" where
  "fighterOf sd wd = (case sd of SideP1 \<Rightarrow> p1 wd | SideP2 \<Rightarrow> p2 wd)"





text \<open>
  What the melee block of a side sees when the pass reaches it: the hitbox read at the
  start of the pass, and attacker and defender as they are then (for P2 attacking,
  after the block of P1 has run).
\<close>

definition meleeView :: "side \<Rightarrow> world \<Rightarrow> rect option \<times> fighter \<times> fighter" where
  "meleeView sd wd =
     (case sd of SideP1 \<Rightarrow> (hitbox (p1 wd), p1 wd, p2 wd)
      | SideP2 \<Rightarrow> (hitbox (p2 wd), p2 (meleeP1 wd), p1 (meleeP1 wd)))"




text \<open>A hit that reaches a defender whose parry is active and not yet consumed.\<close>

definition parryReady :: "fighter \<Rightarrow> bool" where
  "parryReady d = (parrying d \<and> \<not> parryConsumed d)"

definition ownerOf :: "side \<Rightarrow> owner" where
  "ownerOf sd = (case sd of SideP1 \<Rightarrow> OwnerP1 | SideP2 \<Rightarrow> OwnerP2)"

definition otherSide :: "side \<Rightarrow> side" where
  "otherSide sd = (case sd of SideP1 \<Rightarrow> SideP2 | SideP2 \<Rightarrow> SideP1)"

text \<open>The melee attack on side \<open>sd\<close> is taken by its parry in this pass.\<close>

definition meleeParried :: "side \<Rightarrow> world \<Rightarrow> bool" where
  "meleeParried sd wd =
     (case meleeView (otherSide sd) wd of (hb, a, d) \<Rightarrow> meleeResolves hb a d \<and> parryReady d)"

text \<open>The projectile reaches \<open>who\<close> and is taken by the parry.\<close>

definition projParried :: "owner \<Rightarrow> projectile \<Rightarrow> world \<Rightarrow> bool" where
  "projParried who pr wd =
     (pr_owner pr \<noteq> who \<and> aabb (projRect pr) (hurtbox (getFighter wd who))
      \<and> parryReady (getFighter wd who))"

definition stepParries :: "side \<Rightarrow> (real \<Rightarrow> real \<Rightarrow> bool) \<Rightarrow> projectile \<Rightarrow> world \<Rightarrow> nat" where
  "stepParries sd solid pr wd =
     (if \<not> pr_alive pr then 0
      else if solid (rx (projRect pr) + rw (projRect pr) * 0.5) (ry (projRect pr) + rh (projRect pr))
      then 0
      else (case sd of
              SideP1 \<Rightarrow> (if projParried OwnerP1 pr wd then 1 else 0)
            | SideP2 \<Rightarrow> (case projectileVs OwnerP1 pr wd of
                           (pr1, w1) \<Rightarrow> (if projParried OwnerP2 pr1 w1 then 1 else 0))))"

fun loopParries :: "side \<Rightarrow> (real \<Rightarrow> real \<Rightarrow> bool) \<Rightarrow> projectile list \<Rightarrow> world \<Rightarrow> nat" where
  "loopParries sd solid [] wd = 0"
| "loopParries sd solid (pr # prs) wd =
     stepParries sd solid pr wd + loopParries sd solid prs (snd (projectileStep solid pr wd))"

text \<open>How many hits on side \<open>sd\<close> a trace sees negated or reflected by a parry.\<close>

fun neutralised :: "side \<Rightarrow> event list \<Rightarrow> world \<Rightarrow> nat" where
  "neutralised sd [] wd = 0"
| "neutralised sd (e # es) wd =
     (case e of
        Combat solid \<Rightarrow> (if meleeParried sd wd then 1 else 0)
                        + loopParries sd solid (projectiles (meleePass wd)) (meleePass wd)
      | _ \<Rightarrow> 0)
     + neutralised sd es (step e wd)"

text \<open>
  The trace stays within one parry activation of side \<open>sd\<close>: no update of that side
  starts a parry, and the agent controller does not force one.
\<close>

fun sameParry :: "side \<Rightarrow> event list \<Rightarrow> world \<Rightarrow> bool" where
  "sameParry sd [] wd = True"
| "sameParry sd (e # es) wd =
     ((case (e, sd) of
         (UpdateP1 dt inp now, SideP1) \<Rightarrow> \<not> startsParry dt inp now (p1 wd)
       | (UpdateP2 dt inp now, SideP2) \<Rightarrow> \<not> startsParry dt inp now (p2 wd)
       | (AiParryP2, SideP2) \<Rightarrow> False
       | _ \<Rightarrow> True)
      \<and> sameParry sd es (step e wd))"

section \<open>Call sequences and traces\<close>

text \<open>A sequence of receiveHit calls on one fighter, each with its four arguments.\<close>

fun receiveHits :: "(real \<times> real \<times> real \<times> real option) list \<Rightarrow> fighter \<Rightarrow> fighter" where
  "receiveHits [] f = f"
| "receiveHits ((pct, baseKB, strength, angleRad) # hits) f =
     receiveHits hits (receiveHit pct baseKB strength angleRad f)"

text \<open>A trace in which P1 never falls out of the stage.\<close>

fun noFallOut :: "event list \<Rightarrow> bool" where
  "noFallOut [] = True"
| "noFallOut (e # es) = ((case e of FallOutP1 sx sy npcSpawn \<Rightarrow> False | _ \<Rightarrow> True) \<and> noFallOut es)"

text \<open>A trace in which the agent controller forces no parry.\<close>

fun noForcedParry :: "event list \<Rightarrow> bool" where
  "noForcedParry [] = True"
| "noForcedParry (e # es) = ((case e of AiParryP2 \<Rightarrow> False | _ \<Rightarrow> True) \<and> noForcedParry es)"


text \<open>The calls a fighter object receives, for states reachable from the constructor.\<close>

datatype call =
    CallUpdate real input real
  | CallReceiveHit real real real "real option"
  | CallTakeDamage real
  | CallLandAt real

fun invoke :: "call \<Rightarrow> fighter \<Rightarrow> fighter" where
  "invoke (CallUpdate dt inp now) f = update dt inp now f"
| "invoke (CallReceiveHit pct baseKB strength angleRad) f = receiveHit pct baseKB strength angleRad f"
| "invoke (CallTakeDamage amount) f = takeDamage amount f"
| "invoke (CallLandAt yTop) f = landAt yTop f"

fun invokeAll :: "call list \<Rightarrow> fighter \<Rightarrow> fighter" where
  "invokeAll [] f = f"
| "invokeAll (c # cs) f = invokeAll cs (invoke c f)"

text \<open>A parry excludes a melee or ranged attack.\<close>

definition parryExclusive :: "fighter \<Rightarrow> bool" where
  "parryExclusive f =
     (\<not> (parrying f \<and> (attacking1 f \<or> attacking2 f \<or> ranging1 f \<or> ranging2 f)))"

section \<open>The collision surface (isSolidAtCanvasPoint of the frame loop)\<close>

subsection \<open>The numbers of the query\<close>

text \<open>
  The query divides by the canvas size, and the canvas size is the size of the window,
  which can be zero. The numbers of its body are therefore modelled with the values
  that a division by zero produces: a finite number, the two infinities, and NaN.
  Arithmetic on finite numbers is exact: the rounding of doubles, which can move a
  sampled coordinate by one pixel before it is clamped, and their overflow are not
  modelled. Zero has one sign: every divisor of the body is a size or a ratio of two
  sizes, sizes are non-negative integers, and so no divisor is the negative zero; a
  zero that is a coordinate reads the same pixel with either sign.
\<close>

datatype jsnum = Num real | PosInf | NegInf | NaN

definition jsOfNat :: "nat \<Rightarrow> jsnum" where
  "jsOfNat n = Num (real n)"

definition jsSignedInf :: "bool \<Rightarrow> jsnum" where
  "jsSignedInf positive = (if positive then PosInf else NegInf)"

definition jsNeg :: "jsnum \<Rightarrow> jsnum" where
  "jsNeg a = (case a of Num r \<Rightarrow> Num (- r) | PosInf \<Rightarrow> NegInf | NegInf \<Rightarrow> PosInf | NaN \<Rightarrow> NaN)"

text \<open>\<^verbatim>\<open>a + b\<close> and \<^verbatim>\<open>a - b\<close>: opposite infinities give NaN.\<close>

definition jsAdd :: "jsnum \<Rightarrow> jsnum \<Rightarrow> jsnum" where
  "jsAdd a b =
     (case (a, b) of
        (NaN, _) \<Rightarrow> NaN
      | (_, NaN) \<Rightarrow> NaN
      | (Num r, Num s) \<Rightarrow> Num (r + s)
      | (PosInf, NegInf) \<Rightarrow> NaN
      | (NegInf, PosInf) \<Rightarrow> NaN
      | (PosInf, _) \<Rightarrow> PosInf
      | (NegInf, _) \<Rightarrow> NegInf
      | (Num r, v) \<Rightarrow> v)"

definition jsSub :: "jsnum \<Rightarrow> jsnum \<Rightarrow> jsnum" where
  "jsSub a b = jsAdd a (jsNeg b)"

text \<open>\<^verbatim>\<open>a * b\<close>: zero times an infinity is NaN.\<close>

definition jsMul :: "jsnum \<Rightarrow> jsnum \<Rightarrow> jsnum" where
  "jsMul a b =
     (case (a, b) of
        (NaN, _) \<Rightarrow> NaN
      | (_, NaN) \<Rightarrow> NaN
      | (Num r, Num s) \<Rightarrow> Num (r * s)
      | (Num r, PosInf) \<Rightarrow> (if r = 0 then NaN else jsSignedInf (0 < r))
      | (Num r, NegInf) \<Rightarrow> (if r = 0 then NaN else jsSignedInf (r < 0))
      | (PosInf, Num s) \<Rightarrow> (if s = 0 then NaN else jsSignedInf (0 < s))
      | (NegInf, Num s) \<Rightarrow> (if s = 0 then NaN else jsSignedInf (s < 0))
      | (PosInf, PosInf) \<Rightarrow> PosInf
      | (NegInf, NegInf) \<Rightarrow> PosInf
      | (PosInf, NegInf) \<Rightarrow> NegInf
      | (NegInf, PosInf) \<Rightarrow> NegInf)"

text \<open>
  \<^verbatim>\<open>a / b\<close>: a finite number divided by zero is an infinity of its sign, zero divided
  by zero is NaN, a finite number divided by an infinity is zero, an infinity divided
  by an infinity is NaN.
\<close>

definition jsDiv :: "jsnum \<Rightarrow> jsnum \<Rightarrow> jsnum" where
  "jsDiv a b =
     (case (a, b) of
        (NaN, _) \<Rightarrow> NaN
      | (_, NaN) \<Rightarrow> NaN
      | (Num r, Num s) \<Rightarrow>
          (if s \<noteq> 0 then Num (r / s)
           else if r = 0 then NaN
           else jsSignedInf (0 < r))
      | (Num r, _) \<Rightarrow> Num 0
      | (PosInf, Num s) \<Rightarrow> jsSignedInf (0 \<le> s)
      | (NegInf, Num s) \<Rightarrow> jsSignedInf (s < 0)
      | (_, _) \<Rightarrow> NaN)"

text \<open>\<^verbatim>\<open>Math.floor\<close> and \<^verbatim>\<open>Math.round\<close> (to the nearest integer, a half upwards).\<close>

definition jsFloor :: "jsnum \<Rightarrow> jsnum" where
  "jsFloor a = (case a of Num r \<Rightarrow> Num (of_int \<lfloor>r\<rfloor>) | v \<Rightarrow> v)"

definition jsRound :: "jsnum \<Rightarrow> jsnum" where
  "jsRound a = (case a of Num r \<Rightarrow> Num (of_int \<lfloor>r + 1 / 2\<rfloor>) | v \<Rightarrow> v)"

text \<open>\<^verbatim>\<open>Math.min\<close> and \<^verbatim>\<open>Math.max\<close>: NaN if an argument is NaN.\<close>

definition jsMin :: "jsnum \<Rightarrow> jsnum \<Rightarrow> jsnum" where
  "jsMin a b =
     (case (a, b) of
        (NaN, _) \<Rightarrow> NaN
      | (_, NaN) \<Rightarrow> NaN
      | (NegInf, _) \<Rightarrow> NegInf
      | (_, NegInf) \<Rightarrow> NegInf
      | (PosInf, v) \<Rightarrow> v
      | (v, PosInf) \<Rightarrow> v
      | (Num r, Num s) \<Rightarrow> Num (min r s))"

definition jsMax :: "jsnum \<Rightarrow> jsnum \<Rightarrow> jsnum" where
  "jsMax a b =
     (case (a, b) of
        (NaN, _) \<Rightarrow> NaN
      | (_, NaN) \<Rightarrow> NaN
      | (PosInf, _) \<Rightarrow> PosInf
      | (_, PosInf) \<Rightarrow> PosInf
      | (NegInf, v) \<Rightarrow> v
      | (v, NegInf) \<Rightarrow> v
      | (Num r, Num s) \<Rightarrow> Num (max r s))"

text \<open>\<^verbatim>\<open>a > b\<close>: false if an argument is NaN.\<close>

definition jsGt :: "jsnum \<Rightarrow> jsnum \<Rightarrow> bool" where
  "jsGt a b =
     (case (a, b) of
        (NaN, _) \<Rightarrow> False
      | (_, NaN) \<Rightarrow> False
      | (Num r, Num s) \<Rightarrow> r > s
      | (PosInf, PosInf) \<Rightarrow> False
      | (PosInf, _) \<Rightarrow> True
      | (NegInf, _) \<Rightarrow> False
      | (Num r, NegInf) \<Rightarrow> True
      | (Num r, PosInf) \<Rightarrow> False)"

subsection \<open>The query\<close>

text \<open>
  The query reads the 2D context of the heatmap canvas, the heatmap canvas, the stage
  image and the canvas size (\<^verbatim>\<open>window.innerWidth\<close> and \<^verbatim>\<open>window.innerHeight\<close>). Each of
  the three objects may be missing. Sizes are the non-negative integers of the DOM.
  \<^verbatim>\<open>getImageData\<close> is called with the two coordinates the body has computed, whatever
  they are; it may throw, and a call that returns gives the four bytes of the pixel.
\<close>

datatype domError = IndexSizeError | InvalidStateError | SecurityError | TypeError

record pixel =
  red :: nat
  green :: nat
  blue :: nat
  alpha :: nat

record stage =
  heatmapCtx :: "(jsnum \<Rightarrow> jsnum \<Rightarrow> domError + pixel) option"
  heatmapCanvas :: "(nat \<times> nat) option"
  stageImg :: "(nat \<times> nat) option"
  WIDTH :: nat
  HEIGHT :: nat

text \<open>The guard of the query: context, canvas of positive width, image of positive width.\<close>

definition heatmapReady :: "stage \<Rightarrow> bool" where
  "heatmapReady st =
     (case (heatmapCtx st, heatmapCanvas st, stageImg st) of
        (Some ctx, Some (cw, ch), Some (imgW, imgH)) \<Rightarrow> cw > 0 \<and> imgW > 0
      | _ \<Rightarrow> False)"

text \<open>The window of the stage image shown on the canvas: (sx, sy, sw, sh).\<close>

definition cropWindow :: "nat \<Rightarrow> nat \<Rightarrow> nat \<Rightarrow> nat \<Rightarrow> jsnum \<times> jsnum \<times> jsnum \<times> jsnum" where
  "cropWindow cvW cvH imgW imgH =
     (let canvasRatio = jsDiv (jsOfNat cvW) (jsOfNat cvH);
          imgRatio = jsDiv (jsOfNat imgW) (jsOfNat imgH)
      in if jsGt imgRatio canvasRatio then
           (let sw = jsRound (jsMul (jsOfNat imgH) canvasRatio)
            in (jsRound (jsMul (jsSub (jsOfNat imgW) sw) (Num 0.5)), Num 0, sw, jsOfNat imgH))
         else
           (let sh = jsRound (jsDiv (jsOfNat imgW) canvasRatio)
            in (Num 0, jsRound (jsMul (jsSub (jsOfNat imgH) sh) (Num 0.5)), jsOfNat imgW, sh)))"

text \<open>
  The two coordinates that a canvas point is sampled at, as they are passed to
  \<^verbatim>\<open>getImageData\<close>: the point is clamped into the canvas, mapped through the crop
  window, and clamped into the heatmap.
\<close>

definition sampleCoords :: "stage \<Rightarrow> nat \<times> nat \<Rightarrow> nat \<times> nat \<Rightarrow> jsnum \<Rightarrow> jsnum \<Rightarrow> jsnum \<times> jsnum" where
  "sampleCoords st cv img canvasX canvasY =
     (case (cv, img) of ((cw, ch), (imgW, imgH)) \<Rightarrow>
        (let safeCanvasX = jsMax (Num 0) (jsMin (jsSub (jsOfNat (WIDTH st)) (Num 1)) (jsFloor canvasX));
             safeCanvasY = jsMax (Num 0) (jsMin (jsSub (jsOfNat (HEIGHT st)) (Num 1)) (jsFloor canvasY))
         in case cropWindow (WIDTH st) (HEIGHT st) imgW imgH of (sx, sy, sw, sh) \<Rightarrow>
              (let srcX = jsFloor (jsAdd sx (jsMul (jsDiv safeCanvasX (jsOfNat (WIDTH st))) sw));
                   srcY = jsFloor (jsAdd sy (jsMul (jsDiv safeCanvasY (jsOfNat (HEIGHT st))) sh))
               in (jsMax (Num 0) (jsMin (jsSub (jsOfNat cw) (Num 1)) srcX),
                   jsMax (Num 0) (jsMin (jsSub (jsOfNat ch) (Num 1)) srcY)))))"

text \<open>The body of the try block: an exception of getImageData, or the answer.\<close>

definition isSolidBody :: "stage \<Rightarrow> jsnum \<Rightarrow> jsnum \<Rightarrow> domError + bool" where
  "isSolidBody st canvasX canvasY =
     (case (heatmapCtx st, heatmapCanvas st, stageImg st) of
        (Some getImageData, Some cv, Some img) \<Rightarrow>
          (if \<not> (fst cv > 0 \<and> fst img > 0) then Inr False
           else (case sampleCoords st cv img canvasX canvasY of (clampedSrcX, clampedSrcY) \<Rightarrow>
                   (case getImageData clampedSrcX clampedSrcY of
                      Inl e \<Rightarrow> Inl e
                    | Inr d \<Rightarrow> Inr (alpha d > 128))))
      | _ \<Rightarrow> Inr False)"

text \<open>\<^verbatim>\<open>try { ... } catch (e) { return false; }\<close>\<close>

definition isSolidAtCanvasPoint :: "stage \<Rightarrow> jsnum \<Rightarrow> jsnum \<Rightarrow> bool" where
  "isSolidAtCanvasPoint st canvasX canvasY =
     (case isSolidBody st canvasX canvasY of Inl e \<Rightarrow> False | Inr b \<Rightarrow> b)"

text \<open>
  A coordinate that names a pixel of a buffer \<open>n\<close> pixels wide (or high): an integer
  from 0 to \<open>n - 1\<close> (0 for an empty buffer, which the clamp of the body yields there).
\<close>

definition pixelIndex :: "nat \<Rightarrow> jsnum \<Rightarrow> bool" where
  "pixelIndex n v =
     (case v of Num r \<Rightarrow> r = of_int \<lfloor>r\<rfloor> \<and> 0 \<le> r \<and> r \<le> max 0 (real n - 1) | _ \<Rightarrow> False)"

section \<open>The agent controller (src/qte/simpleAi.ts)\<close>

text \<open>
  The keys of the controller are optional; \<^verbatim>\<open>if (this.keys.left)\<close> holds for a key
  that is present and not the empty string. The merged input is a record from key
  codes to booleans, written in place; a key never written reads as false.
\<close>

record keysMap =
  k_left :: "string option"
  k_right :: "string option"
  k_up :: "string option"
  k_attack1 :: "string option"
  k_parry :: "string option"

type_synonym merged = "string \<rightharpoonup> bool"

definition truthyKey :: "string option \<Rightarrow> bool" where
  "truthyKey k = (case k of None \<Rightarrow> False | Some s \<Rightarrow> s \<noteq> [])"

text \<open>\<^verbatim>\<open>if (this.keys.k) mergedInput[this.keys.k] = v\<close>\<close>

definition setKey :: "string option \<Rightarrow> bool \<Rightarrow> merged \<Rightarrow> merged" where
  "setKey k v m = (case k of None \<Rightarrow> m | Some s \<Rightarrow> (if s \<noteq> [] then m(s \<mapsto> v) else m))"

definition pressed :: "merged \<Rightarrow> string \<Rightarrow> bool" where
  "pressed m k = (m k = Some True)"

text \<open>
  The fields of the class that update reads or writes. The fields it never reads
  (\<^verbatim>\<open>patrolMinX\<close>, \<^verbatim>\<open>patrolMaxX\<close>, \<^verbatim>\<open>patrolDirection\<close>, \<^verbatim>\<open>forcedFlipAfter\<close>,
  \<^verbatim>\<open>noGroundTimer\<close>) and the time stamps of its log lines are left out.
\<close>

record simpleAi =
  ai_keys :: keysMap
  isSolidAt :: "(real \<Rightarrow> real \<Rightarrow> bool) option"
  ai_canvasW :: real
  ai_canvasH :: real
  edgeLookahead :: real
  lastJump :: real
  attackCooldown :: real
  ai_parryCooldown :: real
  aggroRange :: real
  attackRange :: real
  spawnX :: "real option"
  spawnClamp :: real
  simplePatrol :: bool
  patrolDistance :: real
  patrolTargetX :: "real option"
  returningToSpawn :: bool
  isAggro :: bool

text \<open>The field initialisers of the class; the constructor overwrites them from its options.\<close>

definition defaultAi :: "keysMap \<Rightarrow> simpleAi" where
  "defaultAi ks =
     \<lparr>ai_keys = ks, isSolidAt = None, ai_canvasW = 800, ai_canvasH = 600, edgeLookahead = 48,
      lastJump = 0, attackCooldown = 0, ai_parryCooldown = 0, aggroRange = 300,
      attackRange = 90, spawnX = None, spawnClamp = 300, simplePatrol = False,
      patrolDistance = 150, patrolTargetX = None, returningToSpawn = False, isAggro = False\<rparr>"

text \<open>What the behaviour of the registry returns in this call, if one is attached.\<close>

datatype behaviorResult = NoBehavior | BehaviorThrows | BehaviorIntent merged

definition resetKeys :: "simpleAi \<Rightarrow> merged \<Rightarrow> merged" where
  "resetKeys ai m =
     setKey (k_parry (ai_keys ai)) False (setKey (k_attack1 (ai_keys ai)) False
       (setKey (k_up (ai_keys ai)) False (setKey (k_right (ai_keys ai)) False
         (setKey (k_left (ai_keys ai)) False m))))"

text \<open>Line of sight: the solidity predicate is sampled every 20 px between the two actors.\<close>

definition isPlayerInSight :: "simpleAi \<Rightarrow> fighter \<Rightarrow> fighter \<Rightarrow> bool" where
  "isPlayerInSight ai pl npc =
     (case isSolidAt ai of None \<Rightarrow> True
      | Some solid \<Rightarrow>
          (let npcX = x npc; npcY = y npc; playerX = x pl; playerY = y pl;
               distance = \<bar>playerX - npcX\<bar>;
               steps = max 1 \<lfloor>distance / 20\<rfloor>
           in list_all
                (\<lambda>i. \<not> solid (of_int \<lfloor>npcX + (playerX - npcX) * (of_int i / of_int steps)\<rfloor>)
                              (of_int \<lfloor>npcY + (playerY - npcY) * (of_int i / of_int steps)\<rfloor>))
                [1..steps - 1]))"

text \<open>Simple patrol with aggro (the branch taken when simplePatrol is set and spawnX is known).\<close>

definition chase :: "simpleAi \<Rightarrow> real \<Rightarrow> real \<Rightarrow> merged \<Rightarrow> merged" where
  "chase ai currentX goalX m =
     (if currentX < goalX - 5 then setKey (k_right (ai_keys ai)) True m
      else if currentX > goalX + 5 then setKey (k_left (ai_keys ai)) True m
      else m)"

definition aggroMode :: "simpleAi \<Rightarrow> merged \<Rightarrow> fighter \<Rightarrow> fighter \<Rightarrow> simpleAi \<times> merged" where
  "aggroMode ai m npc pl =
     (let currentX = x npc; playerX = x pl;
          distanceToPlayer = \<bar>currentX - playerX\<bar>;
          ai1 = ai\<lparr>isAggro := True\<rparr>;
          m1 = chase ai1 currentX playerX m
      in if distanceToPlayer \<le> attackRange ai1 \<and> attackCooldown ai1 \<le> 0
            \<and> truthyKey (k_attack1 (ai_keys ai1))
         then (ai1\<lparr>attackCooldown := 1.0\<rparr>, setKey (k_attack1 (ai_keys ai1)) True m1)
         else (ai1, m1))"

definition patrolMode :: "simpleAi \<Rightarrow> real \<Rightarrow> merged \<Rightarrow> fighter \<Rightarrow> simpleAi \<times> merged" where
  "patrolMode ai sx m npc =
     (let currentX = x npc;
          ai1 = ai\<lparr>isAggro := False\<rparr>;
          ai2 = (case patrolTargetX ai1 of
                   None \<Rightarrow> ai1\<lparr>patrolTargetX := Some (sx + patrolDistance ai1),
                                returningToSpawn := False\<rparr>
                 | Some t \<Rightarrow> ai1);
          target = (case patrolTargetX ai2 of Some t \<Rightarrow> t | None \<Rightarrow> sx + patrolDistance ai1);
          targetReached = (\<bar>currentX - target\<bar> < 10);
          ai3 = (if targetReached then
                   (if returningToSpawn ai2
                    then ai2\<lparr>patrolTargetX := Some (sx + patrolDistance ai2),
                              returningToSpawn := False\<rparr>
                    else ai2\<lparr>patrolTargetX := Some sx, returningToSpawn := True\<rparr>)
                 else ai2)
      in (ai3, (case patrolTargetX ai3 of None \<Rightarrow> m | Some t \<Rightarrow> chase ai3 currentX t m)))"

definition simplePatrolUpdate :: "simpleAi \<Rightarrow> real \<Rightarrow> merged \<Rightarrow> fighter \<Rightarrow> fighter \<Rightarrow> simpleAi \<times> merged" where
  "simplePatrolUpdate ai sx m npc pl =
     (let m0 = resetKeys ai m;
          distanceToPlayer = \<bar>x npc - x pl\<bar>;
          playerInRange = (distanceToPlayer \<le> aggroRange ai);
          playerInSight = isPlayerInSight ai pl npc
      in if playerInRange \<and> playerInSight then aggroMode ai m0 npc pl
         else patrolMode ai sx m0 npc)"

text \<open>The safety layer over a behaviour's intent: spawn clamp, then the edge check.\<close>

definition disallowMoveBeyondSpawn :: "simpleAi \<Rightarrow> fighter \<Rightarrow> int \<Rightarrow> bool" where
  "disallowMoveBeyondSpawn ai npc dir =
     (case spawnX ai of None \<Rightarrow> False
      | Some sx \<Rightarrow> (if dir = 1 then x npc \<ge> sx + spawnClamp ai
                    else x npc \<le> sx - spawnClamp ai))"

definition footY :: "fighter \<Rightarrow> real" where
  "footY npc = of_int \<lfloor>y npc + h npc + 2\<rfloor>"

definition aheadX :: "fighter \<Rightarrow> real \<Rightarrow> real" where
  "aheadX npc offset = of_int \<lfloor>x npc + w npc * 0.5 + offset\<rfloor>"

text \<open>\<^verbatim>\<open>this.keys.left || 'left'\<close>\<close>

definition keyOr :: "string option \<Rightarrow> string \<Rightarrow> string" where
  "keyOr k dflt = (case k of None \<Rightarrow> dflt | Some s \<Rightarrow> (if s \<noteq> [] then s else dflt))"

definition leftKey :: "simpleAi \<Rightarrow> string" where
  "leftKey ai = keyOr (k_left (ai_keys ai)) ''left''"

definition rightKey :: "simpleAi \<Rightarrow> string" where
  "rightKey ai = keyOr (k_right (ai_keys ai)) ''right''"

definition filterMove :: "simpleAi \<Rightarrow> fighter \<Rightarrow> string \<Rightarrow> int \<Rightarrow> merged \<Rightarrow> merged" where
  "filterMove ai npc key dir safeIntent =
     (if pressed safeIntent key then
        (if disallowMoveBeyondSpawn ai npc dir then safeIntent(key \<mapsto> False)
         else (case isSolidAt ai of
                 Some solid \<Rightarrow>
                   (if onGround npc \<and> \<not> solid (aheadX npc (of_int dir * edgeLookahead ai)) (footY npc)
                    then safeIntent(key \<mapsto> False) else safeIntent)
               | None \<Rightarrow> safeIntent))
      else safeIntent)"

definition filterIntent :: "simpleAi \<Rightarrow> fighter \<Rightarrow> merged \<Rightarrow> merged" where
  "filterIntent ai npc intent =
     filterMove ai npc (rightKey ai) 1 (filterMove ai npc (leftKey ai) (- 1) intent)"

definition mergeBehavior :: "simpleAi \<Rightarrow> fighter \<Rightarrow> behaviorResult \<Rightarrow> merged \<Rightarrow> merged" where
  "mergeBehavior ai npc br m =
     (case br of BehaviorIntent intent \<Rightarrow> m ++ filterIntent ai npc intent | _ \<Rightarrow> m)"

text \<open>The fallback heuristics that run after the behaviour has been merged.\<close>

definition tickCooldowns :: "real \<Rightarrow> simpleAi \<Rightarrow> simpleAi" where
  "tickCooldowns dt ai =
     (let a1 = ai\<lparr>lastJump := lastJump ai + dt\<rparr>;
          a2 = (if attackCooldown a1 > 0 then a1\<lparr>attackCooldown := attackCooldown a1 - dt\<rparr> else a1)
      in if ai_parryCooldown a2 > 0 then a2\<lparr>ai_parryCooldown := ai_parryCooldown a2 - dt\<rparr> else a2)"

definition npcCanvasW :: "real \<Rightarrow> fighter \<Rightarrow> real" where
  "npcCanvasW dflt npc = (if canvasW npc \<noteq> 0 then canvasW npc else dflt)"

definition edgeAvoid :: "simpleAi \<Rightarrow> fighter \<Rightarrow> merged \<Rightarrow> merged" where
  "edgeAvoid ai npc m =
     (let cvW = npcCanvasW (if ai_canvasW ai \<noteq> 0 then ai_canvasW ai else 800) npc;
          edgeMargin = 140
      in if x npc < edgeMargin \<and> truthyKey (k_right (ai_keys ai))
         then setKey (k_right (ai_keys ai)) True m
         else if x npc + w npc > cvW - edgeMargin \<and> truthyKey (k_left (ai_keys ai))
         then setKey (k_left (ai_keys ai)) True m
         else m)"

definition threatNear :: "owner \<Rightarrow> fighter \<Rightarrow> projectile list \<Rightarrow> bool" where
  "threatNear self npc prs =
     list_ex (\<lambda>pr. pr_alive pr \<and> pr_owner pr \<noteq> self \<and> \<bar>pr_x pr - x npc\<bar> < 140) prs"

definition parryLogic :: "simpleAi \<Rightarrow> owner \<Rightarrow> fighter \<Rightarrow> fighter \<Rightarrow> projectile list \<Rightarrow> merged
    \<Rightarrow> simpleAi \<times> merged \<times> fighter" where
  "parryLogic ai self npc pl prs m =
     (let threat = threatNear self npc prs;
          oppAttacking = (attacking1 pl \<or> attacking2 pl);
          dist = \<bar>x pl - x npc\<bar>;
          fighterParryCooldown = parryCooldown npc
      in if fighterParryCooldown \<le> 0 then
           (if threat \<and> truthyKey (k_parry (ai_keys ai))
            then (ai\<lparr>ai_parryCooldown := 0.1\<rparr>, setKey (k_parry (ai_keys ai)) True m,
                  aiForceParry npc)
            else if oppAttacking \<and> dist < 180 \<and> truthyKey (k_parry (ai_keys ai))
            then (ai\<lparr>ai_parryCooldown := 0.1\<rparr>, setKey (k_parry (ai_keys ai)) True m,
                  aiForceParry npc)
            else (ai, m, npc))
         else (ai, m, npc))"

text \<open>
  Heatmap-aware movement: on the ground, where the next step (48 px ahead at foot
  height) is not solid, the key of the opposite direction is pressed.
\<close>

definition heatmapNudge :: "simpleAi \<Rightarrow> fighter \<Rightarrow> merged \<Rightarrow> merged" where
  "heatmapNudge ai npc m =
     (case isSolidAt ai of
        None \<Rightarrow> m
      | Some solid \<Rightarrow>
          (if truthyKey (k_left (ai_keys ai)) \<or> truthyKey (k_right (ai_keys ai)) then
             (let canStandAheadRight = solid (aheadX npc 48) (footY npc);
                  canStandAheadLeft = solid (aheadX npc (- 48)) (footY npc)
              in if onGround npc then
                   (if truthyKey (k_right (ai_keys ai)) \<and> \<not> canStandAheadRight
                       \<and> truthyKey (k_left (ai_keys ai))
                    then setKey (k_left (ai_keys ai)) True m
                    else if truthyKey (k_left (ai_keys ai)) \<and> \<not> canStandAheadLeft
                       \<and> truthyKey (k_right (ai_keys ai))
                    then setKey (k_right (ai_keys ai)) True m
                    else m)
                 else m)
           else m))"

definition engage :: "simpleAi \<Rightarrow> fighter \<Rightarrow> fighter \<Rightarrow> merged \<Rightarrow> simpleAi \<times> merged" where
  "engage ai npc pl m =
     (let dx = x pl - x npc; dist = \<bar>dx\<bar>;
          highDamage = (damagePercent npc \<ge> 50);
          lowStocks = (stocks npc \<le> 1)
      in if \<not> highDamage \<and> \<not> lowStocks then
           (if dist > 250 then
              (if truthyKey (k_right (ai_keys ai)) \<and> dx > 0
               then (ai, setKey (k_right (ai_keys ai)) True m)
               else if truthyKey (k_left (ai_keys ai)) \<and> dx < 0
               then (ai, setKey (k_left (ai_keys ai)) True m)
               else (ai, m))
            else
              (if attackCooldown ai \<le> 0 \<and> truthyKey (k_attack1 (ai_keys ai))
               then (ai\<lparr>attackCooldown := 0.8\<rparr>, setKey (k_attack1 (ai_keys ai)) True m)
               else (ai, m)))
         else
           (let centerX = (npcCanvasW 800 npc - w npc) * 0.5
            in if x npc < centerX - 10 \<and> truthyKey (k_right (ai_keys ai))
               then (ai, setKey (k_right (ai_keys ai)) True m)
               else if x npc > centerX + 10 \<and> truthyKey (k_left (ai_keys ai))
               then (ai, setKey (k_left (ai_keys ai)) True m)
               else (ai, m)))"

definition fallbackUpdate :: "real \<Rightarrow> simpleAi \<Rightarrow> owner \<Rightarrow> behaviorResult \<Rightarrow> merged \<Rightarrow> fighter
    \<Rightarrow> fighter \<Rightarrow> projectile list \<Rightarrow> simpleAi \<times> merged \<times> fighter" where
  "fallbackUpdate dt ai self br m npc pl prs =
     (let m1 = mergeBehavior ai npc br m;
          ai1 = tickCooldowns dt ai;
          m2 = edgeAvoid ai1 npc (resetKeys ai1 m1)
      in case parryLogic ai1 self npc pl prs m2 of (ai2, m3, npc1) \<Rightarrow>
           (case engage ai2 npc1 pl (heatmapNudge ai2 npc1 m3) of (ai3, m4) \<Rightarrow> (ai3, m4, npc1)))"

text \<open>
  \<^verbatim>\<open>update(dt, mergedInput, p2, p1, projectiles)\<close>: \<open>npc\<close> is the controlled fighter
  (the caller has checked that it exists), \<open>pl\<close> the opponent, which may be missing;
  \<open>self\<close> is the address of the controlled fighter, \<open>br\<close> what the attached behaviour
  returns in this call. The result is the controller, the merged input and the
  controlled fighter after the call.
\<close>

definition aiUpdate :: "real \<Rightarrow> simpleAi \<Rightarrow> owner \<Rightarrow> behaviorResult \<Rightarrow> merged \<Rightarrow> fighter
    \<Rightarrow> fighter option \<Rightarrow> projectile list \<Rightarrow> simpleAi \<times> merged \<times> fighter" where
  "aiUpdate dt ai self br m npc opponent prs =
     (case opponent of
        None \<Rightarrow> (ai, m, npc)
      | Some pl \<Rightarrow>
          (case (simplePatrol ai, spawnX ai) of
             (True, Some sx) \<Rightarrow>
               (case simplePatrolUpdate ai sx m npc pl of (ai1, m1) \<Rightarrow> (ai1, m1, npc))
           | _ \<Rightarrow> fallbackUpdate dt ai self br m npc pl prs))"

text \<open>
  The key \<open>u\<close> is the jump key of the controller and no other key of it.
\<close>

definition jumpKeyOnly :: "simpleAi \<Rightarrow> string \<Rightarrow> bool" where
  "jumpKeyOnly ai u =
     (k_up (ai_keys ai) = Some u \<and> u \<noteq> [] \<and> k_left (ai_keys ai) \<noteq> Some u
      \<and> k_right (ai_keys ai) \<noteq> Some u \<and> k_attack1 (ai_keys ai) \<noteq> Some u
      \<and> k_parry (ai_keys ai) \<noteq> Some u)"

text \<open>The ground sample of the claim: 48 px ahead of the centre, at foot height.\<close>

definition groundAhead :: "simpleAi \<Rightarrow> fighter \<Rightarrow> int \<Rightarrow> bool" where
  "groundAhead ai npc dir =
     (case isSolidAt ai of None \<Rightarrow> True
      | Some solid \<Rightarrow> solid (aheadX npc (of_int dir * 48)) (footY npc))"

section \<open>Sample combatants\<close>

text \<open>
  Concrete fighters for the worked instances below. The key codes stand for the
  bindings of \<^verbatim>\<open>P1_KEYS\<close> and \<^verbatim>\<open>P2_KEYS\<close>; the canvas is 800 by 600.
\<close>

definition keysP1 :: keymap where
  "keysP1 = \<lparr>left = ''KeyA'', right = ''KeyD'', up = ''KeyW'', down = ''KeyS'',
              attack1 = ''KeyE'', attack2 = ''KeyQ'', parry = ''KeyR'', ranged1 = ''KeyT'',
              ranged2 = ''KeyF'', dodge = ''KeyG''\<rparr>"

definition keysP2 :: keymap where
  "keysP2 = \<lparr>left = ''ArrowLeft'', right = ''ArrowRight'', up = ''ArrowUp'',
              down = ''ArrowDown'', attack1 = ''KeyO'', attack2 = ''KeyU'', parry = ''KeyP'',
              ranged1 = ''KeyL'', ranged2 = ''KeyJ'', dodge = ''KeyK''\<rparr>"

definition sampleP1 :: fighter where
  "sampleP1 = newFighter 100 200 ''P1'' keysP1 800 600"

definition sampleP2 :: fighter where
  "sampleP2 = newFighter 250 200 ''P2'' keysP2 800 600"

text \<open>A fighter that has been defeated while standing at 50 percent.\<close>

definition defeatedP2 :: fighter where
  "defeatedP2 = sampleP2\<lparr>state := ''defeat'', hp := 0, maxHp := 0, damagePercent := 50,
                         onGround := True\<rparr>"

text \<open>Inputs: P1 presses attack1, P1 presses attack1 and ranged1, P2 presses parry, no key.\<close>

definition pressAttack1P1 :: input where
  "pressAttack1P1 = (\<lambda>k. k = ''KeyE'')"

definition pressAttackAndRangedP1 :: input where
  "pressAttackAndRangedP1 = (\<lambda>k. k = ''KeyE'' \<or> k = ''KeyT'')"

definition pressParryP2 :: input where
  "pressParryP2 = (\<lambda>k. k = ''KeyP'')"

definition noKeys :: input where
  "noKeys = (\<lambda>k. False)"

text \<open>A stage with no solid pixel near the projectiles.\<close>

definition noGround :: "real \<Rightarrow> real \<Rightarrow> bool" where
  "noGround = (\<lambda>cx cy. False)"

text \<open>
  P1 at x = 100 has just pressed attack1 with P2 inside the hitbox; \<open>sp\<close> says whether
  an NPC controller is present. Then five frames follow (combat pass, both updates)
  with no key pressed.
\<close>

definition attackStarted :: "bool \<Rightarrow> world" where
  "attackStarted sp =
     \<lparr>p1 = update 0.016 pressAttack1P1 0 sampleP1, p2 = sampleP2, others = (\<lambda>i. sampleP2),
      projectiles = [], npcController = sp\<rparr>"

definition fiveTicks :: "event list" where
  "fiveTicks =
     [Combat noGround, UpdateP1 0.016 noKeys 0, UpdateP2 0.016 noKeys 0,
      Combat noGround, UpdateP1 0.016 noKeys 0, UpdateP2 0.016 noKeys 0,
      Combat noGround, UpdateP1 0.016 noKeys 0, UpdateP2 0.016 noKeys 0,
      Combat noGround, UpdateP1 0.016 noKeys 0, UpdateP2 0.016 noKeys 0,
      Combat noGround, UpdateP1 0.016 noKeys 0, UpdateP2 0.016 noKeys 0]"

text \<open>
  P2 has just started a parry while P1 attacks, and a projectile of P1 is already
  inside the hurtbox of P2: two hits reach P2 in the same pass.
\<close>

definition shotOfP1 :: projectile where
  "shotOfP1 = \<lparr>pr_x = 200, pr_y = 150, pr_vx = 600, pr_vy = 0, pr_alive = True, pr_age = 0,
               pr_lifespan = 1, pr_gravity = 0, pr_owner = OwnerP1, displayW = 256,
               displayH = 256, applyKnockbackOnHit = False\<rparr>"

definition parryDuel :: world where
  "parryDuel =
     \<lparr>p1 = update 0.016 pressAttack1P1 0 sampleP1, p2 = update 0.016 pressParryP2 0 sampleP2,
      others = (\<lambda>i. sampleP2), projectiles = [shotOfP1], npcController = False\<rparr>"

text \<open>
  The agent of the game: simple patrol around the spawn point x = 250, on a platform
  whose solid pixels end at x = 400; the opponent is far away.
\<close>

definition npcKeys :: keysMap where
  "npcKeys = \<lparr>k_left = Some ''ArrowLeft'', k_right = Some ''ArrowRight'', k_up = Some ''ArrowUp'',
              k_attack1 = Some ''KeyO'', k_parry = Some ''KeyP''\<rparr>"

definition platformEndsAt400 :: "real \<Rightarrow> real \<Rightarrow> bool" where
  "platformEndsAt400 = (\<lambda>cx cy. cx \<le> 400)"

definition patrolAi :: simpleAi where
  "patrolAi = (defaultAi npcKeys)\<lparr>isSolidAt := Some platformEndsAt400, spawnX := Some 250,
                                  simplePatrol := True\<rparr>"

definition behaviorAi :: simpleAi where
  "behaviorAi = (defaultAi npcKeys)\<lparr>isSolidAt := Some platformEndsAt400\<rparr>"

definition groundedNpc :: fighter where
  "groundedNpc = sampleP2\<lparr>onGround := True\<rparr>"

definition farPlayer :: fighter where
  "farPlayer = sampleP1\<lparr>x := 2000\<rparr>"

text \<open>
  A stage of 800 by 600 whose heatmap is opaque in its lower half. Its context refuses
  a coordinate that is not a finite number with a TypeError, as a context does that
  enforces the range of its arguments.
\<close>

definition lowerHalfSolid :: "jsnum \<Rightarrow> jsnum \<Rightarrow> domError + pixel" where
  "lowerHalfSolid px py =
     (case (px, py) of
        (Num a, Num b) \<Rightarrow>
          Inr \<lparr>red = 0, green = 0, blue = 0, alpha = (if b \<ge> 300 then 255 else 0)\<rparr>
      | _ \<Rightarrow> Inl TypeError)"

definition sampleStage :: stage where
  "sampleStage = \<lparr>heatmapCtx = Some lowerHalfSolid, heatmapCanvas = Some (800, 600),
                  stageImg = Some (800, 600), WIDTH = 800, HEIGHT = 600\<rparr>"

text \<open>The same stage with a heatmap context that refuses to be read.\<close>

definition taintedStage :: stage where
  "taintedStage = sampleStage\<lparr>heatmapCtx := Some (\<lambda>px py. Inl SecurityError)\<rparr>"

text \<open>The same stage in a window of height zero.\<close>

definition zeroHeightStage :: stage where
  "zeroHeightStage = sampleStage\<lparr>HEIGHT := 0\<rparr>"

text \<open>Further inputs: P2 presses attack1, attack1 and parry, the fly key; P1 presses the fly key.\<close>

definition pressAttack1P2 :: input where
  "pressAttack1P2 = (\<lambda>k. k = ''KeyO'')"

definition pressAttackParryP2 :: input where
  "pressAttackParryP2 = (\<lambda>k. k = ''KeyO'' \<or> k = ''KeyP'')"

definition pressDodgeP1 :: input where
  "pressDodgeP1 = (\<lambda>k. k = ''KeyG'')"

definition pressDodgeP2 :: input where
  "pressDodgeP2 = (\<lambda>k. k = ''KeyK'')"

text \<open>
  P2 is driven by the agent controller in its fallback heuristics (no simple patrol),
  with the parry key among its keys. Two projectiles of P1 are in flight: one is
  already inside the hurtbox of P2, the other comes down from above and reaches the
  hurtbox one frame later. A frame is the controller, the two updates, the projectiles
  moving, and the combat pass; the input of P2 in each frame is the merged input the
  controller has left (\<open>aiFrame1\<close> and \<open>aiFrame2\<close> are the two calls of the controller).
\<close>

definition lateShotOfP1 :: projectile where
  "lateShotOfP1 = shotOfP1\<lparr>pr_y := - 10, pr_vx := 0, pr_vy := 600\<rparr>"

definition twoShots :: world where
  "twoShots =
     \<lparr>p1 = sampleP1, p2 = sampleP2, others = (\<lambda>i. sampleP2),
      projectiles = [shotOfP1, lateShotOfP1], npcController = False\<rparr>"

definition parryAi :: simpleAi where
  "parryAi = defaultAi npcKeys"

definition frame1 :: "event list" where
  "frame1 = [AiParryP2, UpdateP1 0.016 noKeys 0, UpdateP2 0.016 pressAttackParryP2 0,
             MoveProjectiles 0.016, Combat noGround]"

definition frame2 :: "event list" where
  "frame2 = [AiParryP2, UpdateP1 0.016 noKeys 16, UpdateP2 0.016 pressParryP2 16,
             MoveProjectiles 0.016, Combat noGround]"




text \<open>
  The agent in its fallback heuristics, with the keys that the NPC controller of the
  game is given (no parry key), on a platform whose solid pixels begin at x = 400: the
  agent stands grounded at x = 300 (centre 428), the sample 48 px to its left is not
  solid, and the opponent is far to the left. \<open>edgeMerged\<close> is the merged input that
  update leaves there.
\<close>

definition controllerKeys :: keysMap where
  "controllerKeys = \<lparr>k_left = Some ''ArrowLeft'', k_right = Some ''ArrowRight'',
                     k_up = Some ''ArrowUp'', k_attack1 = Some ''KeyO'', k_parry = None\<rparr>"

definition platformFrom400 :: "real \<Rightarrow> real \<Rightarrow> bool" where
  "platformFrom400 = (\<lambda>cx cy. cx \<ge> 400)"

definition edgeAi :: simpleAi where
  "edgeAi = (defaultAi controllerKeys)\<lparr>isSolidAt := Some platformFrom400\<rparr>"

definition edgeNpc :: fighter where
  "edgeNpc = sampleP2\<lparr>x := 300, onGround := True\<rparr>"

definition leftPlayer :: fighter where
  "leftPlayer = sampleP1\<lparr>x := 0\<rparr>"

definition edgeMerged :: merged where
  "edgeMerged = fst (snd (aiUpdate 0.016 edgeAi OwnerP2 NoBehavior Map.empty edgeNpc
                            (Some leftPlayer) []))"

section \<open>Properties\<close>

subsection \<open>Which fields each statement of the fighter leaves alone\<close>

lemma setState_frame [simp]:
  "attack1Launched (setState s f) = attack1Launched f"
  "attack2Launched (setState s f) = attack2Launched f"
  "parryConsumed (setState s f) = parryConsumed f"
  "damagePercent (setState s f) = damagePercent f"
  "keys (setState s f) = keys f"
  "attacking1 (setState s f) = attacking1 f"
  "attacking2 (setState s f) = attacking2 f"
  "parrying (setState s f) = parrying f"
  "ranging1 (setState s f) = ranging1 f"
  "ranging2 (setState s f) = ranging2 f"
  "hurt (setState s f) = hurt f"
  "flying (setState s f) = flying f"
  "parryFreezeTimer (setState s f) = parryFreezeTimer f"
  by (simp_all add: setState_def)

lemma restoreState_frame [simp]:
  "attack1Launched (restoreState f) = attack1Launched f"
  "attack2Launched (restoreState f) = attack2Launched f"
  "parryConsumed (restoreState f) = parryConsumed f"
  "damagePercent (restoreState f) = damagePercent f"
  "keys (restoreState f) = keys f"
  "attacking1 (restoreState f) = attacking1 f"
  "attacking2 (restoreState f) = attacking2 f"
  "parrying (restoreState f) = parrying f"
  "ranging1 (restoreState f) = ranging1 f"
  "ranging2 (restoreState f) = ranging2 f"
  "hurt (restoreState f) = hurt f"
  "flying (restoreState f) = flying f"
  "parryFreezeTimer (restoreState f) = parryFreezeTimer f"
  by (simp_all add: restoreState_def)

lemma landReset_frame [simp]:
  "attack1Launched (landReset f) = attack1Launched f"
  "attack2Launched (landReset f) = attack2Launched f"
  "parryConsumed (landReset f) = parryConsumed f"
  "damagePercent (landReset f) = damagePercent f"
  "keys (landReset f) = keys f"
  "attacking1 (landReset f) = attacking1 f"
  "attacking2 (landReset f) = attacking2 f"
  "parrying (landReset f) = parrying f"
  "ranging1 (landReset f) = ranging1 f"
  "ranging2 (landReset f) = ranging2 f"
  "flying (landReset f) = flying f"
  "parryFreezeTimer (landReset f) = parryFreezeTimer f"
  by (simp_all add: landReset_def Let_def)

lemma landAt_frame [simp]:
  "attack1Launched (landAt yTop f) = attack1Launched f"
  "attack2Launched (landAt yTop f) = attack2Launched f"
  "parryConsumed (landAt yTop f) = parryConsumed f"
  "damagePercent (landAt yTop f) = damagePercent f"
  "keys (landAt yTop f) = keys f"
  "attacking1 (landAt yTop f) = attacking1 f"
  "attacking2 (landAt yTop f) = attacking2 f"
  "parrying (landAt yTop f) = parrying f"
  "ranging1 (landAt yTop f) = ranging1 f"
  "ranging2 (landAt yTop f) = ranging2 f"
  "flying (landAt yTop f) = flying f"
  "parryFreezeTimer (landAt yTop f) = parryFreezeTimer f"
  by (simp_all add: landAt_def)

lemma flyStart_frame [simp]:
  "attack1Launched (flyStart inp f) = attack1Launched f"
  "attack2Launched (flyStart inp f) = attack2Launched f"
  "parryConsumed (flyStart inp f) = parryConsumed f"
  "damagePercent (flyStart inp f) = damagePercent f"
  "keys (flyStart inp f) = keys f"
  "attacking1 (flyStart inp f) = attacking1 f"
  "attacking2 (flyStart inp f) = attacking2 f"
  "parrying (flyStart inp f) = parrying f"
  "ranging1 (flyStart inp f) = ranging1 f"
  "ranging2 (flyStart inp f) = ranging2 f"
  "hurt (flyStart inp f) = hurt f"
  "parryFreezeTimer (flyStart inp f) = parryFreezeTimer f"
  by (simp_all add: flyStart_def)

lemma flySteer_frame [simp]:
  "attack1Launched (flySteer inp f) = attack1Launched f"
  "attack2Launched (flySteer inp f) = attack2Launched f"
  "parryConsumed (flySteer inp f) = parryConsumed f"
  "damagePercent (flySteer inp f) = damagePercent f"
  "keys (flySteer inp f) = keys f"
  "attacking1 (flySteer inp f) = attacking1 f"
  "attacking2 (flySteer inp f) = attacking2 f"
  "parrying (flySteer inp f) = parrying f"
  "ranging1 (flySteer inp f) = ranging1 f"
  "ranging2 (flySteer inp f) = ranging2 f"
  "hurt (flySteer inp f) = hurt f"
  "flying (flySteer inp f) = flying f"
  "parryFreezeTimer (flySteer inp f) = parryFreezeTimer f"
  by (simp_all add: flySteer_def Let_def)

lemma flyRelease_frame [simp]:
  "attack1Launched (flyRelease inp f) = attack1Launched f"
  "attack2Launched (flyRelease inp f) = attack2Launched f"
  "parryConsumed (flyRelease inp f) = parryConsumed f"
  "damagePercent (flyRelease inp f) = damagePercent f"
  "keys (flyRelease inp f) = keys f"
  "attacking1 (flyRelease inp f) = attacking1 f"
  "attacking2 (flyRelease inp f) = attacking2 f"
  "parrying (flyRelease inp f) = parrying f"
  "ranging1 (flyRelease inp f) = ranging1 f"
  "ranging2 (flyRelease inp f) = ranging2 f"
  "hurt (flyRelease inp f) = hurt f"
  "parryFreezeTimer (flyRelease inp f) = parryFreezeTimer f"
  by (simp_all add: flyRelease_def)

lemma flyMove_frame [simp]:
  "attack1Launched (flyMove dt inp f) = attack1Launched f"
  "attack2Launched (flyMove dt inp f) = attack2Launched f"
  "parryConsumed (flyMove dt inp f) = parryConsumed f"
  "damagePercent (flyMove dt inp f) = damagePercent f"
  "keys (flyMove dt inp f) = keys f"
  "attacking1 (flyMove dt inp f) = attacking1 f"
  "attacking2 (flyMove dt inp f) = attacking2 f"
  "parrying (flyMove dt inp f) = parrying f"
  "ranging1 (flyMove dt inp f) = ranging1 f"
  "ranging2 (flyMove dt inp f) = ranging2 f"
  "hurt (flyMove dt inp f) = hurt f"
  "parryFreezeTimer (flyMove dt inp f) = parryFreezeTimer f"
  by (simp_all add: flyMove_def Let_def)

lemma walkInput_frame [simp]:
  "attack1Launched (walkInput inp f) = attack1Launched f"
  "attack2Launched (walkInput inp f) = attack2Launched f"
  "parryConsumed (walkInput inp f) = parryConsumed f"
  "damagePercent (walkInput inp f) = damagePercent f"
  "keys (walkInput inp f) = keys f"
  "attacking1 (walkInput inp f) = attacking1 f"
  "attacking2 (walkInput inp f) = attacking2 f"
  "parrying (walkInput inp f) = parrying f"
  "ranging1 (walkInput inp f) = ranging1 f"
  "ranging2 (walkInput inp f) = ranging2 f"
  "hurt (walkInput inp f) = hurt f"
  "flying (walkInput inp f) = flying f"
  "parryFreezeTimer (walkInput inp f) = parryFreezeTimer f"
  by (simp_all add: walkInput_def)

lemma jumpStart_frame [simp]:
  "attack1Launched (jumpStart inp now f) = attack1Launched f"
  "attack2Launched (jumpStart inp now f) = attack2Launched f"
  "parryConsumed (jumpStart inp now f) = parryConsumed f"
  "damagePercent (jumpStart inp now f) = damagePercent f"
  "keys (jumpStart inp now f) = keys f"
  "attacking1 (jumpStart inp now f) = attacking1 f"
  "attacking2 (jumpStart inp now f) = attacking2 f"
  "parrying (jumpStart inp now f) = parrying f"
  "ranging1 (jumpStart inp now f) = ranging1 f"
  "ranging2 (jumpStart inp now f) = ranging2 f"
  "hurt (jumpStart inp now f) = hurt f"
  "flying (jumpStart inp now f) = flying f"
  "parryFreezeTimer (jumpStart inp now f) = parryFreezeTimer f"
  by (simp_all add: jumpStart_def)

lemma jumpRelease_frame [simp]:
  "attack1Launched (jumpRelease inp now f) = attack1Launched f"
  "attack2Launched (jumpRelease inp now f) = attack2Launched f"
  "parryConsumed (jumpRelease inp now f) = parryConsumed f"
  "damagePercent (jumpRelease inp now f) = damagePercent f"
  "keys (jumpRelease inp now f) = keys f"
  "attacking1 (jumpRelease inp now f) = attacking1 f"
  "attacking2 (jumpRelease inp now f) = attacking2 f"
  "parrying (jumpRelease inp now f) = parrying f"
  "ranging1 (jumpRelease inp now f) = ranging1 f"
  "ranging2 (jumpRelease inp now f) = ranging2 f"
  "hurt (jumpRelease inp now f) = hurt f"
  "flying (jumpRelease inp now f) = flying f"
  "parryFreezeTimer (jumpRelease inp now f) = parryFreezeTimer f"
  by (simp_all add: jumpRelease_def Let_def)

lemma integrate_frame [simp]:
  "attack1Launched (integrate dt f) = attack1Launched f"
  "attack2Launched (integrate dt f) = attack2Launched f"
  "parryConsumed (integrate dt f) = parryConsumed f"
  "damagePercent (integrate dt f) = damagePercent f"
  "keys (integrate dt f) = keys f"
  "attacking1 (integrate dt f) = attacking1 f"
  "attacking2 (integrate dt f) = attacking2 f"
  "parrying (integrate dt f) = parrying f"
  "ranging1 (integrate dt f) = ranging1 f"
  "ranging2 (integrate dt f) = ranging2 f"
  "hurt (integrate dt f) = hurt f"
  "flying (integrate dt f) = flying f"
  "parryFreezeTimer (integrate dt f) = parryFreezeTimer f"
  by (simp_all add: integrate_def)

lemma groundMove_frame [simp]:
  "attack1Launched (groundMove dt inp now f) = attack1Launched f"
  "attack2Launched (groundMove dt inp now f) = attack2Launched f"
  "parryConsumed (groundMove dt inp now f) = parryConsumed f"
  "damagePercent (groundMove dt inp now f) = damagePercent f"
  "keys (groundMove dt inp now f) = keys f"
  "attacking1 (groundMove dt inp now f) = attacking1 f"
  "attacking2 (groundMove dt inp now f) = attacking2 f"
  "parrying (groundMove dt inp now f) = parrying f"
  "ranging1 (groundMove dt inp now f) = ranging1 f"
  "ranging2 (groundMove dt inp now f) = ranging2 f"
  "hurt (groundMove dt inp now f) = hurt f"
  "flying (groundMove dt inp now f) = flying f"
  "parryFreezeTimer (groundMove dt inp now f) = parryFreezeTimer f"
  by (simp_all add: groundMove_def)

lemma groundFriction_frame [simp]:
  "attack1Launched (groundFriction dt f) = attack1Launched f"
  "attack2Launched (groundFriction dt f) = attack2Launched f"
  "parryConsumed (groundFriction dt f) = parryConsumed f"
  "damagePercent (groundFriction dt f) = damagePercent f"
  "keys (groundFriction dt f) = keys f"
  "attacking1 (groundFriction dt f) = attacking1 f"
  "attacking2 (groundFriction dt f) = attacking2 f"
  "parrying (groundFriction dt f) = parrying f"
  "ranging1 (groundFriction dt f) = ranging1 f"
  "ranging2 (groundFriction dt f) = ranging2 f"
  "hurt (groundFriction dt f) = hurt f"
  "flying (groundFriction dt f) = flying f"
  "parryFreezeTimer (groundFriction dt f) = parryFreezeTimer f"
  by (simp_all add: groundFriction_def Let_def)

lemma groundCollision_frame [simp]:
  "attack1Launched (groundCollision f) = attack1Launched f"
  "attack2Launched (groundCollision f) = attack2Launched f"
  "parryConsumed (groundCollision f) = parryConsumed f"
  "damagePercent (groundCollision f) = damagePercent f"
  "keys (groundCollision f) = keys f"
  "attacking1 (groundCollision f) = attacking1 f"
  "attacking2 (groundCollision f) = attacking2 f"
  "parrying (groundCollision f) = parrying f"
  "ranging1 (groundCollision f) = ranging1 f"
  "ranging2 (groundCollision f) = ranging2 f"
  "flying (groundCollision f) = flying f"
  "parryFreezeTimer (groundCollision f) = parryFreezeTimer f"
  by (simp_all add: groundCollision_def)

lemma movement_frame [simp]:
  "attack1Launched (movement dt inp now f) = attack1Launched f"
  "attack2Launched (movement dt inp now f) = attack2Launched f"
  "parryConsumed (movement dt inp now f) = parryConsumed f"
  "damagePercent (movement dt inp now f) = damagePercent f"
  "keys (movement dt inp now f) = keys f"
  "attacking1 (movement dt inp now f) = attacking1 f"
  "attacking2 (movement dt inp now f) = attacking2 f"
  "parrying (movement dt inp now f) = parrying f"
  "ranging1 (movement dt inp now f) = ranging1 f"
  "ranging2 (movement dt inp now f) = ranging2 f"
  "parryFreezeTimer (movement dt inp now f) = parryFreezeTimer f"
  by (simp_all add: movement_def Let_def)

lemma parryStart_frame [simp]:
  "attack1Launched (parryStart inp f) = attack1Launched f"
  "attack2Launched (parryStart inp f) = attack2Launched f"
  "damagePercent (parryStart inp f) = damagePercent f"
  "keys (parryStart inp f) = keys f"
  "attacking1 (parryStart inp f) = attacking1 f"
  "attacking2 (parryStart inp f) = attacking2 f"
  "ranging1 (parryStart inp f) = ranging1 f"
  "ranging2 (parryStart inp f) = ranging2 f"
  "hurt (parryStart inp f) = hurt f"
  "flying (parryStart inp f) = flying f"
  "parryFreezeTimer (parryStart inp f) = parryFreezeTimer f"
  by (simp_all add: parryStart_def)

lemma parryTick_frame [simp]:
  "attack1Launched (parryTick dt f) = attack1Launched f"
  "attack2Launched (parryTick dt f) = attack2Launched f"
  "parryConsumed (parryTick dt f) = parryConsumed f"
  "damagePercent (parryTick dt f) = damagePercent f"
  "keys (parryTick dt f) = keys f"
  "attacking1 (parryTick dt f) = attacking1 f"
  "attacking2 (parryTick dt f) = attacking2 f"
  "ranging1 (parryTick dt f) = ranging1 f"
  "ranging2 (parryTick dt f) = ranging2 f"
  "hurt (parryTick dt f) = hurt f"
  "flying (parryTick dt f) = flying f"
  "parryFreezeTimer (parryTick dt f) = parryFreezeTimer f"
  by (simp_all add: parryTick_def)

lemma parryCooldownTick_frame [simp]:
  "attack1Launched (parryCooldownTick dt f) = attack1Launched f"
  "attack2Launched (parryCooldownTick dt f) = attack2Launched f"
  "parryConsumed (parryCooldownTick dt f) = parryConsumed f"
  "damagePercent (parryCooldownTick dt f) = damagePercent f"
  "keys (parryCooldownTick dt f) = keys f"
  "attacking1 (parryCooldownTick dt f) = attacking1 f"
  "attacking2 (parryCooldownTick dt f) = attacking2 f"
  "parrying (parryCooldownTick dt f) = parrying f"
  "ranging1 (parryCooldownTick dt f) = ranging1 f"
  "ranging2 (parryCooldownTick dt f) = ranging2 f"
  "hurt (parryCooldownTick dt f) = hurt f"
  "flying (parryCooldownTick dt f) = flying f"
  "parryFreezeTimer (parryCooldownTick dt f) = parryFreezeTimer f"
  by (simp_all add: parryCooldownTick_def)

lemma parryPhase_frame [simp]:
  "attack1Launched (parryPhase dt inp f) = attack1Launched f"
  "attack2Launched (parryPhase dt inp f) = attack2Launched f"
  "damagePercent (parryPhase dt inp f) = damagePercent f"
  "keys (parryPhase dt inp f) = keys f"
  "attacking1 (parryPhase dt inp f) = attacking1 f"
  "attacking2 (parryPhase dt inp f) = attacking2 f"
  "ranging1 (parryPhase dt inp f) = ranging1 f"
  "ranging2 (parryPhase dt inp f) = ranging2 f"
  "hurt (parryPhase dt inp f) = hurt f"
  "flying (parryPhase dt inp f) = flying f"
  "parryFreezeTimer (parryPhase dt inp f) = parryFreezeTimer f"
  by (simp_all add: parryPhase_def)

lemma attack1Start_frame [simp]:
  "attack2Launched (attack1Start inp f) = attack2Launched f"
  "parryConsumed (attack1Start inp f) = parryConsumed f"
  "damagePercent (attack1Start inp f) = damagePercent f"
  "keys (attack1Start inp f) = keys f"
  "attacking2 (attack1Start inp f) = attacking2 f"
  "parrying (attack1Start inp f) = parrying f"
  "ranging1 (attack1Start inp f) = ranging1 f"
  "ranging2 (attack1Start inp f) = ranging2 f"
  "hurt (attack1Start inp f) = hurt f"
  "flying (attack1Start inp f) = flying f"
  "parryFreezeTimer (attack1Start inp f) = parryFreezeTimer f"
  by (simp_all add: attack1Start_def)

lemma attack1Tick_frame [simp]:
  "attack1Launched (attack1Tick dt f) = attack1Launched f"
  "attack2Launched (attack1Tick dt f) = attack2Launched f"
  "parryConsumed (attack1Tick dt f) = parryConsumed f"
  "damagePercent (attack1Tick dt f) = damagePercent f"
  "keys (attack1Tick dt f) = keys f"
  "attacking2 (attack1Tick dt f) = attacking2 f"
  "parrying (attack1Tick dt f) = parrying f"
  "ranging1 (attack1Tick dt f) = ranging1 f"
  "ranging2 (attack1Tick dt f) = ranging2 f"
  "hurt (attack1Tick dt f) = hurt f"
  "flying (attack1Tick dt f) = flying f"
  "parryFreezeTimer (attack1Tick dt f) = parryFreezeTimer f"
  by (simp_all add: attack1Tick_def)

lemma attack2Start_frame [simp]:
  "attack1Launched (attack2Start inp f) = attack1Launched f"
  "parryConsumed (attack2Start inp f) = parryConsumed f"
  "damagePercent (attack2Start inp f) = damagePercent f"
  "keys (attack2Start inp f) = keys f"
  "attacking1 (attack2Start inp f) = attacking1 f"
  "parrying (attack2Start inp f) = parrying f"
  "ranging1 (attack2Start inp f) = ranging1 f"
  "ranging2 (attack2Start inp f) = ranging2 f"
  "hurt (attack2Start inp f) = hurt f"
  "flying (attack2Start inp f) = flying f"
  "parryFreezeTimer (attack2Start inp f) = parryFreezeTimer f"
  by (simp_all add: attack2Start_def)

lemma attack2Tick_frame [simp]:
  "attack1Launched (attack2Tick dt f) = attack1Launched f"
  "attack2Launched (attack2Tick dt f) = attack2Launched f"
  "parryConsumed (attack2Tick dt f) = parryConsumed f"
  "damagePercent (attack2Tick dt f) = damagePercent f"
  "keys (attack2Tick dt f) = keys f"
  "attacking1 (attack2Tick dt f) = attacking1 f"
  "parrying (attack2Tick dt f) = parrying f"
  "ranging1 (attack2Tick dt f) = ranging1 f"
  "ranging2 (attack2Tick dt f) = ranging2 f"
  "hurt (attack2Tick dt f) = hurt f"
  "flying (attack2Tick dt f) = flying f"
  "parryFreezeTimer (attack2Tick dt f) = parryFreezeTimer f"
  by (simp_all add: attack2Tick_def)

lemma ranged1Start_frame [simp]:
  "attack1Launched (ranged1Start inp f) = attack1Launched f"
  "attack2Launched (ranged1Start inp f) = attack2Launched f"
  "parryConsumed (ranged1Start inp f) = parryConsumed f"
  "damagePercent (ranged1Start inp f) = damagePercent f"
  "keys (ranged1Start inp f) = keys f"
  "attacking1 (ranged1Start inp f) = attacking1 f"
  "attacking2 (ranged1Start inp f) = attacking2 f"
  "parrying (ranged1Start inp f) = parrying f"
  "ranging2 (ranged1Start inp f) = ranging2 f"
  "hurt (ranged1Start inp f) = hurt f"
  "flying (ranged1Start inp f) = flying f"
  "parryFreezeTimer (ranged1Start inp f) = parryFreezeTimer f"
  by (simp_all add: ranged1Start_def)

lemma ranged1Tick_frame [simp]:
  "attack1Launched (ranged1Tick dt f) = attack1Launched f"
  "attack2Launched (ranged1Tick dt f) = attack2Launched f"
  "parryConsumed (ranged1Tick dt f) = parryConsumed f"
  "damagePercent (ranged1Tick dt f) = damagePercent f"
  "keys (ranged1Tick dt f) = keys f"
  "attacking1 (ranged1Tick dt f) = attacking1 f"
  "attacking2 (ranged1Tick dt f) = attacking2 f"
  "parrying (ranged1Tick dt f) = parrying f"
  "ranging2 (ranged1Tick dt f) = ranging2 f"
  "hurt (ranged1Tick dt f) = hurt f"
  "flying (ranged1Tick dt f) = flying f"
  "parryFreezeTimer (ranged1Tick dt f) = parryFreezeTimer f"
  by (simp_all add: ranged1Tick_def)

lemma ranged2Start_frame [simp]:
  "attack1Launched (ranged2Start inp f) = attack1Launched f"
  "attack2Launched (ranged2Start inp f) = attack2Launched f"
  "parryConsumed (ranged2Start inp f) = parryConsumed f"
  "damagePercent (ranged2Start inp f) = damagePercent f"
  "keys (ranged2Start inp f) = keys f"
  "attacking1 (ranged2Start inp f) = attacking1 f"
  "attacking2 (ranged2Start inp f) = attacking2 f"
  "parrying (ranged2Start inp f) = parrying f"
  "ranging1 (ranged2Start inp f) = ranging1 f"
  "hurt (ranged2Start inp f) = hurt f"
  "flying (ranged2Start inp f) = flying f"
  "parryFreezeTimer (ranged2Start inp f) = parryFreezeTimer f"
  by (simp_all add: ranged2Start_def)

lemma ranged2Tick_frame [simp]:
  "attack1Launched (ranged2Tick inp f) = attack1Launched f"
  "attack2Launched (ranged2Tick inp f) = attack2Launched f"
  "parryConsumed (ranged2Tick inp f) = parryConsumed f"
  "damagePercent (ranged2Tick inp f) = damagePercent f"
  "keys (ranged2Tick inp f) = keys f"
  "attacking1 (ranged2Tick inp f) = attacking1 f"
  "attacking2 (ranged2Tick inp f) = attacking2 f"
  "parrying (ranged2Tick inp f) = parrying f"
  "ranging1 (ranged2Tick inp f) = ranging1 f"
  "hurt (ranged2Tick inp f) = hurt f"
  "flying (ranged2Tick inp f) = flying f"
  "parryFreezeTimer (ranged2Tick inp f) = parryFreezeTimer f"
  by (simp_all add: ranged2Tick_def)

lemma actions_frame [simp]:
  "damagePercent (actions dt inp f) = damagePercent f"
  "keys (actions dt inp f) = keys f"
  "hurt (actions dt inp f) = hurt f"
  "flying (actions dt inp f) = flying f"
  "parryFreezeTimer (actions dt inp f) = parryFreezeTimer f"
  by (simp_all add: actions_def)

lemma hurtPhase_frame [simp]:
  "attack1Launched (hurtPhase dt f) = attack1Launched f"
  "attack2Launched (hurtPhase dt f) = attack2Launched f"
  "parryConsumed (hurtPhase dt f) = parryConsumed f"
  "damagePercent (hurtPhase dt f) = damagePercent f"
  "keys (hurtPhase dt f) = keys f"
  "attacking1 (hurtPhase dt f) = attacking1 f"
  "attacking2 (hurtPhase dt f) = attacking2 f"
  "parrying (hurtPhase dt f) = parrying f"
  "ranging1 (hurtPhase dt f) = ranging1 f"
  "ranging2 (hurtPhase dt f) = ranging2 f"
  "flying (hurtPhase dt f) = flying f"
  "parryFreezeTimer (hurtPhase dt f) = parryFreezeTimer f"
  by (simp_all add: hurtPhase_def Let_def)

lemma fallbackPhase_frame [simp]:
  "attack1Launched (fallbackPhase f) = attack1Launched f"
  "attack2Launched (fallbackPhase f) = attack2Launched f"
  "parryConsumed (fallbackPhase f) = parryConsumed f"
  "damagePercent (fallbackPhase f) = damagePercent f"
  "keys (fallbackPhase f) = keys f"
  "attacking1 (fallbackPhase f) = attacking1 f"
  "attacking2 (fallbackPhase f) = attacking2 f"
  "parrying (fallbackPhase f) = parrying f"
  "ranging1 (fallbackPhase f) = ranging1 f"
  "ranging2 (fallbackPhase f) = ranging2 f"
  "hurt (fallbackPhase f) = hurt f"
  "flying (fallbackPhase f) = flying f"
  "parryFreezeTimer (fallbackPhase f) = parryFreezeTimer f"
  by (simp_all add: fallbackPhase_def)

lemma takeDamage_frame [simp]:
  "attack1Launched (takeDamage amount f) = attack1Launched f"
  "attack2Launched (takeDamage amount f) = attack2Launched f"
  "parryConsumed (takeDamage amount f) = parryConsumed f"
  "damagePercent (takeDamage amount f) = damagePercent f"
  "keys (takeDamage amount f) = keys f"
  "attacking1 (takeDamage amount f) = attacking1 f"
  "attacking2 (takeDamage amount f) = attacking2 f"
  "parrying (takeDamage amount f) = parrying f"
  "ranging1 (takeDamage amount f) = ranging1 f"
  "ranging2 (takeDamage amount f) = ranging2 f"
  "flying (takeDamage amount f) = flying f"
  "parryFreezeTimer (takeDamage amount f) = parryFreezeTimer f"
  by (simp_all add: takeDamage_def Let_def)

lemma receiveHit_frame [simp]:
  "attack1Launched (receiveHit pct baseKB strength angleRad f) = attack1Launched f"
  "attack2Launched (receiveHit pct baseKB strength angleRad f) = attack2Launched f"
  "parryConsumed (receiveHit pct baseKB strength angleRad f) = parryConsumed f"
  "keys (receiveHit pct baseKB strength angleRad f) = keys f"
  "attacking1 (receiveHit pct baseKB strength angleRad f) = attacking1 f"
  "attacking2 (receiveHit pct baseKB strength angleRad f) = attacking2 f"
  "parrying (receiveHit pct baseKB strength angleRad f) = parrying f"
  "ranging1 (receiveHit pct baseKB strength angleRad f) = ranging1 f"
  "ranging2 (receiveHit pct baseKB strength angleRad f) = ranging2 f"
  "flying (receiveHit pct baseKB strength angleRad f) = flying f"
  "parryFreezeTimer (receiveHit pct baseKB strength angleRad f) = parryFreezeTimer f"
  by (simp_all add: receiveHit_def Let_def)

lemma autoDefeat_frame [simp]:
  "attack1Launched (autoDefeat f) = attack1Launched f"
  "attack2Launched (autoDefeat f) = attack2Launched f"
  "parryConsumed (autoDefeat f) = parryConsumed f"
  "damagePercent (autoDefeat f) = damagePercent f"
  "keys (autoDefeat f) = keys f"
  "hurt (autoDefeat f) = hurt f"
  "flying (autoDefeat f) = flying f"
  "parryFreezeTimer (autoDefeat f) = parryFreezeTimer f"
  by (simp_all add: autoDefeat_def)

lemma stageWrite_frame [simp]:
  "attack1Launched (stageWrite nx ny nvx nvy grounded f) = attack1Launched f"
  "attack2Launched (stageWrite nx ny nvx nvy grounded f) = attack2Launched f"
  "parryConsumed (stageWrite nx ny nvx nvy grounded f) = parryConsumed f"
  "damagePercent (stageWrite nx ny nvx nvy grounded f) = damagePercent f"
  "keys (stageWrite nx ny nvx nvy grounded f) = keys f"
  "attacking1 (stageWrite nx ny nvx nvy grounded f) = attacking1 f"
  "attacking2 (stageWrite nx ny nvx nvy grounded f) = attacking2 f"
  "parrying (stageWrite nx ny nvx nvy grounded f) = parrying f"
  "ranging1 (stageWrite nx ny nvx nvy grounded f) = ranging1 f"
  "ranging2 (stageWrite nx ny nvx nvy grounded f) = ranging2 f"
  "hurt (stageWrite nx ny nvx nvy grounded f) = hurt f"
  "flying (stageWrite nx ny nvx nvy grounded f) = flying f"
  "parryFreezeTimer (stageWrite nx ny nvx nvy grounded f) = parryFreezeTimer f"
  by (simp_all add: stageWrite_def)

subsection \<open>receiveHit and takeDamage\<close>

lemma receiveHit_defeat: "state f = ''defeat'' \<Longrightarrow> receiveHit pct baseKB strength angleRad f = f"
  by (simp add: receiveHit_def)

lemma receiveHit_nudge:
  assumes "state f \<noteq> ''defeat''" and "damagePercent f + pct < 30"
  shows "receiveHit pct baseKB strength angleRad f =
         f\<lparr>damagePercent := damagePercent f + pct,
           vx := vx f + cos (case angleRad of Some a \<Rightarrow> a
                             | None \<Rightarrow> (if facing f > 0 then pi else 0))
                        * knockbackKB baseKB strength (damagePercent f + pct)
                        * (0.12 * strength) * 0.2,
           vy := vy f + - sin (case angleRad of Some a \<Rightarrow> a
                               | None \<Rightarrow> (if facing f > 0 then pi else 0))
                        * knockbackKB baseKB strength (damagePercent f + pct)
                        * (0.12 * strength) * 0.2,
           stunTimer := max (stunTimer f) (0.25 * strength), hurt := True, hurtTimer := 0.3\<rparr>"
  using assms by (simp add: receiveHit_def Let_def globalKnockbackMultiplier_def)

lemma receiveHit_launch:
  assumes "state f \<noteq> ''defeat''" and "\<not> damagePercent f + pct < 30"
  shows "receiveHit pct baseKB strength angleRad f =
         f\<lparr>damagePercent := damagePercent f + pct,
           vx := 150 * (1 + min (max ((damagePercent f + pct - 30) / 70) 0) 1 * 2)
                 * (if (case angleRad of Some a \<Rightarrow> cos a < 0 | None \<Rightarrow> False) then 1 else - 1)
                 * 0.2,
           vy := - 350 * (1 + min (max ((damagePercent f + pct - 30) / 70) 0) 1 * 2) * 0.2,
           onGround := False, launchedFromHit := True, hurt := True, hurtTimer := 0.45,
           stunTimer := max (stunTimer f) (0.5 * strength)\<rparr>"
  using assms by (simp add: receiveHit_def Let_def globalKnockbackMultiplier_def)

lemma receiveHit_damagePercent:
  "damagePercent (receiveHit pct baseKB strength angleRad f) =
     (if state f = ''defeat'' then damagePercent f else damagePercent f + pct)"
  by (simp add: receiveHit_def Let_def)

lemma impulse_bound:
  fixes c k s :: real
  assumes "\<bar>c\<bar> \<le> 1"
  shows "\<bar>c * k * (0.12 * s) * 0.2\<bar> \<le> 0.024 * \<bar>k\<bar> * \<bar>s\<bar>"
proof -
  have "\<bar>c * k * (0.12 * s) * 0.2\<bar> = \<bar>c\<bar> * (0.024 * \<bar>k\<bar> * \<bar>s\<bar>)"
    by (simp add: abs_mult)
  also have "\<dots> \<le> 1 * (0.024 * \<bar>k\<bar> * \<bar>s\<bar>)"
    by (rule mult_right_mono [OF assms]) simp
  finally show ?thesis by simp
qed

subsection \<open>The combatants of a world\<close>

lemma aiForceParry_frame [simp]:
  "attack1Launched (aiForceParry f) = attack1Launched f"
  "attack2Launched (aiForceParry f) = attack2Launched f"
  "damagePercent (aiForceParry f) = damagePercent f"
  "keys (aiForceParry f) = keys f"
  "attacking1 (aiForceParry f) = attacking1 f"
  "attacking2 (aiForceParry f) = attacking2 f"
  "ranging1 (aiForceParry f) = ranging1 f"
  "ranging2 (aiForceParry f) = ranging2 f"
  "hurt (aiForceParry f) = hurt f"
  "flying (aiForceParry f) = flying f"
  "parryFreezeTimer (aiForceParry f) = parryFreezeTimer f"
  by (simp_all add: aiForceParry_def)

lemma fallOutP1_frame [simp]:
  "attack1Launched (fallOutP1 sx sy f) = attack1Launched f"
  "attack2Launched (fallOutP1 sx sy f) = attack2Launched f"
  "parryConsumed (fallOutP1 sx sy f) = parryConsumed f"
  "keys (fallOutP1 sx sy f) = keys f"
  "flying (fallOutP1 sx sy f) = flying f"
  "parryFreezeTimer (fallOutP1 sx sy f) = parryFreezeTimer f"
  by (simp_all add: fallOutP1_def Let_def)

lemma getFighter_setFighter [simp]:
  "getFighter (setFighter wd a f) b = (if a = b then f else getFighter wd b)"
  by (cases a; cases b) (auto simp: getFighter_def setFighter_def)

lemma setFighter_rest [simp]:
  "npcController (setFighter wd a f) = npcController wd"
  "projectiles (setFighter wd a f) = projectiles wd"
  by (cases a; simp add: setFighter_def)+

lemma getFighter_p1: "p1 wd = getFighter wd OwnerP1"
  by (simp add: getFighter_def)

lemma getFighter_p2: "p2 wd = getFighter wd OwnerP2"
  by (simp add: getFighter_def)

lemma fighterOf_getFighter: "fighterOf sd wd = getFighter wd (ownerOf sd)"
  by (cases sd) (simp_all add: fighterOf_def ownerOf_def getFighter_def)

lemma getFighter_world_update [simp]:
  "getFighter (wd\<lparr>projectiles := prs\<rparr>) who = getFighter wd who"
  by (cases who) (simp_all add: getFighter_def)

lemma projectileVs_attack1Launched [simp]:
  "attack1Launched (getFighter (snd (projectileVs who pr wd)) who') = attack1Launched (getFighter wd who')"
  by (simp add: projectileVs_def Let_def)

lemma projectileStep_attack1Launched [simp]:
  "attack1Launched (getFighter (snd (projectileStep solid pr wd)) who') = attack1Launched (getFighter wd who')"
  by (simp add: projectileStep_def Let_def split_beta)

lemma projectileLoop_attack1Launched [simp]:
  "attack1Launched (getFighter (snd (projectileLoop solid prs wd)) who') = attack1Launched (getFighter wd who')"
proof (induction prs arbitrary: wd)
  case Nil
  show ?case by simp
next
  case (Cons pr prs)
  have "snd (projectileLoop solid (pr # prs) wd)
        = snd (projectileLoop solid prs (snd (projectileStep solid pr wd)))"
    by (simp add: split_beta)
  then show ?case by (simp add: Cons.IH)
qed

lemma projectilePass_attack1Launched [simp]:
  "attack1Launched (getFighter (projectilePass solid wd) who') = attack1Launched (getFighter wd who')"
  by (simp add: projectilePass_def split_beta)

lemma projectileVs_attack2Launched [simp]:
  "attack2Launched (getFighter (snd (projectileVs who pr wd)) who') = attack2Launched (getFighter wd who')"
  by (simp add: projectileVs_def Let_def)

lemma projectileStep_attack2Launched [simp]:
  "attack2Launched (getFighter (snd (projectileStep solid pr wd)) who') = attack2Launched (getFighter wd who')"
  by (simp add: projectileStep_def Let_def split_beta)

lemma projectileLoop_attack2Launched [simp]:
  "attack2Launched (getFighter (snd (projectileLoop solid prs wd)) who') = attack2Launched (getFighter wd who')"
proof (induction prs arbitrary: wd)
  case Nil
  show ?case by simp
next
  case (Cons pr prs)
  have "snd (projectileLoop solid (pr # prs) wd)
        = snd (projectileLoop solid prs (snd (projectileStep solid pr wd)))"
    by (simp add: split_beta)
  then show ?case by (simp add: Cons.IH)
qed

lemma projectilePass_attack2Launched [simp]:
  "attack2Launched (getFighter (projectilePass solid wd) who') = attack2Launched (getFighter wd who')"
  by (simp add: projectilePass_def split_beta)

lemma projectileVs_attacking1 [simp]:
  "attacking1 (getFighter (snd (projectileVs who pr wd)) who') = attacking1 (getFighter wd who')"
  by (simp add: projectileVs_def Let_def)

lemma projectileStep_attacking1 [simp]:
  "attacking1 (getFighter (snd (projectileStep solid pr wd)) who') = attacking1 (getFighter wd who')"
  by (simp add: projectileStep_def Let_def split_beta)

lemma projectileLoop_attacking1 [simp]:
  "attacking1 (getFighter (snd (projectileLoop solid prs wd)) who') = attacking1 (getFighter wd who')"
proof (induction prs arbitrary: wd)
  case Nil
  show ?case by simp
next
  case (Cons pr prs)
  have "snd (projectileLoop solid (pr # prs) wd)
        = snd (projectileLoop solid prs (snd (projectileStep solid pr wd)))"
    by (simp add: split_beta)
  then show ?case by (simp add: Cons.IH)
qed

lemma projectilePass_attacking1 [simp]:
  "attacking1 (getFighter (projectilePass solid wd) who') = attacking1 (getFighter wd who')"
  by (simp add: projectilePass_def split_beta)

lemma projectileVs_attacking2 [simp]:
  "attacking2 (getFighter (snd (projectileVs who pr wd)) who') = attacking2 (getFighter wd who')"
  by (simp add: projectileVs_def Let_def)

lemma projectileStep_attacking2 [simp]:
  "attacking2 (getFighter (snd (projectileStep solid pr wd)) who') = attacking2 (getFighter wd who')"
  by (simp add: projectileStep_def Let_def split_beta)

lemma projectileLoop_attacking2 [simp]:
  "attacking2 (getFighter (snd (projectileLoop solid prs wd)) who') = attacking2 (getFighter wd who')"
proof (induction prs arbitrary: wd)
  case Nil
  show ?case by simp
next
  case (Cons pr prs)
  have "snd (projectileLoop solid (pr # prs) wd)
        = snd (projectileLoop solid prs (snd (projectileStep solid pr wd)))"
    by (simp add: split_beta)
  then show ?case by (simp add: Cons.IH)
qed

lemma projectilePass_attacking2 [simp]:
  "attacking2 (getFighter (projectilePass solid wd) who') = attacking2 (getFighter wd who')"
  by (simp add: projectilePass_def split_beta)

lemma projectileVs_parrying [simp]:
  "parrying (getFighter (snd (projectileVs who pr wd)) who') = parrying (getFighter wd who')"
  by (simp add: projectileVs_def Let_def)

lemma projectileStep_parrying [simp]:
  "parrying (getFighter (snd (projectileStep solid pr wd)) who') = parrying (getFighter wd who')"
  by (simp add: projectileStep_def Let_def split_beta)

lemma projectileLoop_parrying [simp]:
  "parrying (getFighter (snd (projectileLoop solid prs wd)) who') = parrying (getFighter wd who')"
proof (induction prs arbitrary: wd)
  case Nil
  show ?case by simp
next
  case (Cons pr prs)
  have "snd (projectileLoop solid (pr # prs) wd)
        = snd (projectileLoop solid prs (snd (projectileStep solid pr wd)))"
    by (simp add: split_beta)
  then show ?case by (simp add: Cons.IH)
qed

lemma projectilePass_parrying [simp]:
  "parrying (getFighter (projectilePass solid wd) who') = parrying (getFighter wd who')"
  by (simp add: projectilePass_def split_beta)

lemma projectileVs_keys [simp]:
  "keys (getFighter (snd (projectileVs who pr wd)) who') = keys (getFighter wd who')"
  by (simp add: projectileVs_def Let_def)

lemma projectileStep_keys [simp]:
  "keys (getFighter (snd (projectileStep solid pr wd)) who') = keys (getFighter wd who')"
  by (simp add: projectileStep_def Let_def split_beta)

lemma projectileLoop_keys [simp]:
  "keys (getFighter (snd (projectileLoop solid prs wd)) who') = keys (getFighter wd who')"
proof (induction prs arbitrary: wd)
  case Nil
  show ?case by simp
next
  case (Cons pr prs)
  have "snd (projectileLoop solid (pr # prs) wd)
        = snd (projectileLoop solid prs (snd (projectileStep solid pr wd)))"
    by (simp add: split_beta)
  then show ?case by (simp add: Cons.IH)
qed

lemma projectilePass_keys [simp]:
  "keys (getFighter (projectilePass solid wd) who') = keys (getFighter wd who')"
  by (simp add: projectilePass_def split_beta)

subsection \<open>Launched flags: set by the combat pass, cleared only by a new attack\<close>







lemma meleeBlock_unresolved: "\<not> meleeResolves hb a d \<Longrightarrow> meleeBlock sp hb a d = (a, d)"
  by (simp add: meleeBlock_def)


lemma setLaunchFlag_frame [simp]:
  "attacking1 (setLaunchFlag a) = attacking1 a"
  "attacking2 (setLaunchFlag a) = attacking2 a"
  "parrying (setLaunchFlag a) = parrying a"
  "parryConsumed (setLaunchFlag a) = parryConsumed a"
  "damagePercent (setLaunchFlag a) = damagePercent a"
  "parryFreezeTimer (setLaunchFlag a) = parryFreezeTimer a"
  "ranging1 (setLaunchFlag a) = ranging1 a"
  "ranging2 (setLaunchFlag a) = ranging2 a"
  "state (setLaunchFlag a) = state a"
  "keys (setLaunchFlag a) = keys a"
  "x (setLaunchFlag a) = x a"
  by (simp_all add: setLaunchFlag_def)




lemma meleeBlock_attacking1 [simp]:
  "attacking1 (fst (meleeBlock sp hb a d)) = attacking1 a"
  "attacking1 (snd (meleeBlock sp hb a d)) = attacking1 d"
  by (simp_all add: meleeBlock_def Let_def)

lemma meleeP1_fields:
  "p1 (meleeP1 wd) = fst (meleeBlock (npcController wd) (hitbox (p1 wd)) (p1 wd) (p2 wd))"
  "p2 (meleeP1 wd) = snd (meleeBlock (npcController wd) (hitbox (p1 wd)) (p1 wd) (p2 wd))"
  "npcController (meleeP1 wd) = npcController wd"
  "projectiles (meleeP1 wd) = projectiles wd"
  "others (meleeP1 wd) = others wd"
  by (simp_all add: meleeP1_def split_beta)

lemma meleePass_fields:
  "p1 (meleePass wd)
     = snd (meleeBlock (npcController wd) (hitbox (p2 wd)) (p2 (meleeP1 wd)) (p1 (meleeP1 wd)))"
  "p2 (meleePass wd)
     = fst (meleeBlock (npcController wd) (hitbox (p2 wd)) (p2 (meleeP1 wd)) (p1 (meleeP1 wd)))"
  "npcController (meleePass wd) = npcController wd"
  "projectiles (meleePass wd) = projectiles wd"
  "others (meleePass wd) = others wd"
  by (simp_all add: meleePass_def meleeP1_def split_beta Let_def)




lemma combatPass_fighterOf:
  "fighterOf sd (combatPass solid wd)
     = autoDefeat (getFighter (projectilePass solid (meleePass wd)) (ownerOf sd))"
  by (cases sd) (simp_all add: combatPass_def Let_def fighterOf_def ownerOf_def getFighter_def)





subsection \<open>parryConsumed: set by a parried hit, cleared only by a new parry\<close>

lemma parryStart_consumed:
  "parryConsumed (parryStart inp f) = (\<not> parryGuard inp f \<and> parryConsumed f)"
  by (simp add: parryStart_def)

lemma parryPhase_consumed:
  "parryConsumed (parryPhase dt inp f) = (\<not> parryGuard inp f \<and> parryConsumed f)"
  by (simp add: parryPhase_def parryStart_consumed)

lemma update_parryConsumed:
  "parryConsumed (update dt inp now f) = (\<not> startsParry dt inp now f \<and> parryConsumed f)"
  by (simp add: update_def actions_def startsParry_def Let_def parryPhase_consumed)

lemma meleeBlock_defender_consumed:
  "parryConsumed (snd (meleeBlock sp hb a d))
     = (parryConsumed d \<or> (meleeResolves hb a d \<and> parryReady d))"
  by (auto simp: meleeBlock_def Let_def parryReady_def)

lemma meleeBlock_attacker_consumed:
  "parryConsumed (fst (meleeBlock sp hb a d)) = parryConsumed a"
  by (simp add: meleeBlock_def Let_def)

lemma meleePass_consumed:
  "parryConsumed (fighterOf sd (meleePass wd))
     = (parryConsumed (fighterOf sd wd) \<or> meleeParried sd wd)"
proof (cases sd)
  case SideP1
  then show ?thesis
    by (simp add: fighterOf_def meleePass_fields meleeP1_fields meleeBlock_defender_consumed
        meleeBlock_attacker_consumed meleeParried_def meleeView_def otherSide_def)
next
  case SideP2
  then show ?thesis
    by (simp add: fighterOf_def meleePass_fields meleeP1_fields meleeBlock_defender_consumed
        meleeBlock_attacker_consumed meleeParried_def meleeView_def otherSide_def)
qed

lemma meleeParried_not_consumed:
  "meleeParried sd wd \<Longrightarrow> \<not> parryConsumed (fighterOf sd wd)"
  by (cases sd)
     (auto simp: meleeParried_def meleeView_def otherSide_def parryReady_def fighterOf_def
        meleeP1_fields meleeBlock_attacker_consumed)

lemma projectileVs_consumed:
  "parryConsumed (getFighter (snd (projectileVs who pr wd)) who')
     = (parryConsumed (getFighter wd who') \<or> (who' = who \<and> projParried who pr wd))"
  by (auto simp: projectileVs_def Let_def projParried_def parryReady_def)

lemma ownerOf_simps [simp]:
  "ownerOf SideP1 = OwnerP1" "ownerOf SideP2 = OwnerP2"
  by (simp_all add: ownerOf_def)

lemma projectileStep_consumed:
  "parryConsumed (getFighter (snd (projectileStep solid pr wd)) (ownerOf sd))
     = (parryConsumed (getFighter wd (ownerOf sd)) \<or> 0 < stepParries sd solid pr wd)"
  by (cases sd)
     (auto simp: projectileStep_def stepParries_def Let_def split_beta projectileVs_consumed
        projRect_def)

lemma stepParries_le: "stepParries sd solid pr wd \<le> 1"
  by (cases sd) (simp_all add: stepParries_def split_beta)

lemma projParried_not_consumed:
  "projParried who pr wd \<Longrightarrow> \<not> parryConsumed (getFighter wd who)"
  by (simp add: projParried_def parryReady_def)

lemma stepParries_consumed:
  "parryConsumed (getFighter wd (ownerOf sd)) \<Longrightarrow> stepParries sd solid pr wd = 0"
  by (cases sd)
     (auto simp: stepParries_def split_beta projParried_def parryReady_def
        projectileVs_consumed)

lemma loopParries_props:
  "loopParries sd solid prs wd \<le> 1
   \<and> (parryConsumed (getFighter (snd (projectileLoop solid prs wd)) (ownerOf sd))
        = (parryConsumed (getFighter wd (ownerOf sd)) \<or> 0 < loopParries sd solid prs wd))
   \<and> (parryConsumed (getFighter wd (ownerOf sd)) \<longrightarrow> loopParries sd solid prs wd = 0)"
proof (induction prs arbitrary: wd)
  case Nil
  show ?case by simp
next
  case (Cons pr prs)
  let ?w1 = "snd (projectileStep solid pr wd)"
  note ih = Cons.IH [of ?w1]
  have loop: "snd (projectileLoop solid (pr # prs) wd) = snd (projectileLoop solid prs ?w1)"
    by (simp add: split_beta)
  have c1: "parryConsumed (getFighter ?w1 (ownerOf sd))
            = (parryConsumed (getFighter wd (ownerOf sd)) \<or> 0 < stepParries sd solid pr wd)"
    by (rule projectileStep_consumed)
  have s0: "parryConsumed (getFighter wd (ownerOf sd)) \<Longrightarrow> stepParries sd solid pr wd = 0"
    by (rule stepParries_consumed)
  have s1: "stepParries sd solid pr wd \<le> 1" by (rule stepParries_le)
  show ?case
  proof (cases "0 < stepParries sd solid pr wd")
    case True
    then have "parryConsumed (getFighter ?w1 (ownerOf sd))" using c1 by simp
    then have "loopParries sd solid prs ?w1 = 0" using ih by simp
    then show ?thesis using True s1 s0 ih c1 loop by auto
  next
    case False
    then show ?thesis using ih c1 loop by auto
  qed
qed

text \<open>The parried hits of one combat pass on a side.\<close>

lemma combat_parries:
  fixes sd solid wd
  defines "c \<equiv> (if meleeParried sd wd then 1 else 0)
               + loopParries sd solid (projectiles (meleePass wd)) (meleePass wd)"
  shows "c \<le> 1"
    and "parryConsumed (fighterOf sd (combatPass solid wd))
           = (parryConsumed (fighterOf sd wd) \<or> 0 < c)"
    and "parryConsumed (fighterOf sd wd) \<Longrightarrow> c = 0"
proof -
  let ?m = "meleePass wd"
  note lp = loopParries_props [of sd solid "projectiles ?m" ?m]
  have m: "parryConsumed (getFighter ?m (ownerOf sd))
           = (parryConsumed (fighterOf sd wd) \<or> meleeParried sd wd)"
    using meleePass_consumed [of sd wd] by (simp add: fighterOf_getFighter)
  have after: "parryConsumed (fighterOf sd (combatPass solid wd))
               = parryConsumed (getFighter (snd (projectileLoop solid (projectiles ?m) ?m)) (ownerOf sd))"
    by (simp add: combatPass_fighterOf projectilePass_def split_beta)
  show "c \<le> 1"
  proof (cases "meleeParried sd wd")
    case True
    then have "loopParries sd solid (projectiles ?m) ?m = 0" using lp m by simp
    then show ?thesis using True by (simp add: c_def)
  next
    case False
    then show ?thesis using lp by (simp add: c_def)
  qed
  show "parryConsumed (fighterOf sd (combatPass solid wd))
           = (parryConsumed (fighterOf sd wd) \<or> 0 < c)"
    using after lp m by (auto simp: c_def)
  show "parryConsumed (fighterOf sd wd) \<Longrightarrow> c = 0"
    using lp m meleeParried_not_consumed [of sd wd] by (auto simp: c_def)
qed

lemma step_keeps_consumed:
  assumes "parryConsumed (fighterOf sd wd)" and "sameParry sd (e # es) wd"
  shows "parryConsumed (fighterOf sd (step e wd))"
proof (cases e)
  case (UpdateP1 dt inp now)
  then show ?thesis using assms
    by (cases sd) (simp_all add: fighterOf_def update_parryConsumed)
next
  case (UpdateP2 dt inp now)
  then show ?thesis using assms
    by (cases sd) (simp_all add: fighterOf_def update_parryConsumed)
next
  case (Combat solid)
  then show ?thesis using assms combat_parries(2) [of sd solid wd] by simp
next
  case (FallOutP1 sx sy npcSpawn)
  then show ?thesis using assms
    by (cases sd) (auto simp: fighterOf_def Let_def split: option.splits)
next
  case AiParryP2
  then show ?thesis using assms by (cases sd) (simp_all add: fighterOf_def)
qed (use assms in \<open>cases sd; simp add: fighterOf_def\<close>)+

lemma consumed_no_parry:
  "parryConsumed (fighterOf sd wd) \<Longrightarrow> sameParry sd es wd \<Longrightarrow> neutralised sd es wd = 0"
proof (induction es arbitrary: wd)
  case Nil
  show ?case by simp
next
  case (Cons e es)
  have keep: "parryConsumed (fighterOf sd (step e wd))"
    using step_keeps_consumed [OF Cons.prems] .
  have rest: "neutralised sd es (step e wd) = 0"
    using Cons.IH [OF keep] Cons.prems(2) by simp
  show ?case
  proof (cases e)
    case (Combat solid)
    then show ?thesis using rest combat_parries(3) [OF Cons.prems(1), of solid] by simp
  qed (use rest in simp_all)
qed

lemma neutralised_at_most_once:
  "sameParry sd es wd \<Longrightarrow> neutralised sd es wd \<le> 1"
proof (induction es arbitrary: wd)
  case Nil
  show ?case by simp
next
  case (Cons e es)
  have same: "sameParry sd es (step e wd)" using Cons.prems by simp
  show ?case
  proof (cases e)
    case (Combat solid)
    let ?c = "(if meleeParried sd wd then 1 else 0)
               + loopParries sd solid (projectiles (meleePass wd)) (meleePass wd)"
    have le: "?c \<le> 1" by (rule combat_parries(1))
    show ?thesis
    proof (cases "0 < ?c")
      case True
      then have "parryConsumed (fighterOf sd (step e wd))"
        using Combat combat_parries(2) [of sd solid wd] by simp
      then have "neutralised sd es (step e wd) = 0"
        using consumed_no_parry same by blast
      then show ?thesis using Combat le by simp
    next
      case False
      then show ?thesis using Combat Cons.IH [OF same] by simp
    qed
  qed (use Cons.IH [OF same] in simp_all)
qed

subsection \<open>damagePercent never goes down outside a respawn\<close>

lemma receiveHit_mono:
  "0 \<le> pct \<Longrightarrow> damagePercent f \<le> damagePercent (receiveHit pct baseKB strength angleRad f)"
  by (simp add: receiveHit_damagePercent)

lemma update_damagePercent: "damagePercent (update dt inp now f) = damagePercent f"
  by (simp add: update_def)

lemma meleeBlock_damage_mono:
  "damagePercent a \<le> damagePercent (fst (meleeBlock sp hb a d))"
  "damagePercent d \<le> damagePercent (snd (meleeBlock sp hb a d))"
  by (simp_all add: meleeBlock_def Let_def receiveHit_damagePercent)

lemma meleePass_damage_mono:
  "damagePercent (fighterOf sd wd) \<le> damagePercent (fighterOf sd (meleePass wd))"
proof (cases sd)
  case SideP1
  have "damagePercent (p1 wd) \<le> damagePercent (p1 (meleeP1 wd))"
    by (simp add: meleeP1_fields meleeBlock_damage_mono)
  also have "\<dots> \<le> damagePercent (p1 (meleePass wd))"
    by (simp add: meleePass_fields meleeBlock_damage_mono)
  finally show ?thesis using SideP1 by (simp add: fighterOf_def)
next
  case SideP2
  have "damagePercent (p2 wd) \<le> damagePercent (p2 (meleeP1 wd))"
    by (simp add: meleeP1_fields meleeBlock_damage_mono)
  also have "\<dots> \<le> damagePercent (p2 (meleePass wd))"
    by (simp add: meleePass_fields meleeBlock_damage_mono)
  finally show ?thesis using SideP2 by (simp add: fighterOf_def)
qed

lemma projectileVs_damage_mono:
  "damagePercent (getFighter wd who') \<le> damagePercent (getFighter (snd (projectileVs who pr wd)) who')"
  by (simp add: projectileVs_def Let_def receiveHit_damagePercent)

lemma projectileStep_damage_mono:
  "damagePercent (getFighter wd who') \<le> damagePercent (getFighter (snd (projectileStep solid pr wd)) who')"
proof -
  have "damagePercent (getFighter wd who')
        \<le> damagePercent (getFighter (snd (projectileVs OwnerP1 pr wd)) who')"
    by (rule projectileVs_damage_mono)
  also have "\<dots> \<le> damagePercent (getFighter (snd (projectileVs OwnerP2
                (fst (projectileVs OwnerP1 pr wd)) (snd (projectileVs OwnerP1 pr wd)))) who')"
    by (rule projectileVs_damage_mono)
  finally show ?thesis by (simp add: projectileStep_def Let_def split_beta)
qed

lemma projectileLoop_damage_mono:
  "damagePercent (getFighter wd who') \<le> damagePercent (getFighter (snd (projectileLoop solid prs wd)) who')"
proof (induction prs arbitrary: wd)
  case Nil
  show ?case by simp
next
  case (Cons pr prs)
  have "damagePercent (getFighter wd who')
        \<le> damagePercent (getFighter (snd (projectileStep solid pr wd)) who')"
    by (rule projectileStep_damage_mono)
  also have "\<dots> \<le> damagePercent (getFighter (snd (projectileLoop solid prs
                (snd (projectileStep solid pr wd)))) who')"
    by (rule Cons.IH)
  finally show ?case by (simp add: split_beta)
qed

lemma combatPass_damage_mono:
  "damagePercent (fighterOf sd wd) \<le> damagePercent (fighterOf sd (combatPass solid wd))"
proof -
  have "damagePercent (fighterOf sd wd) \<le> damagePercent (getFighter (meleePass wd) (ownerOf sd))"
    using meleePass_damage_mono [of sd wd] by (simp add: fighterOf_getFighter)
  also have "\<dots> \<le> damagePercent (getFighter (snd (projectileLoop solid (projectiles (meleePass wd))
                (meleePass wd))) (ownerOf sd))"
    by (rule projectileLoop_damage_mono)
  finally show ?thesis
    by (simp add: combatPass_fighterOf projectilePass_def split_beta)
qed

lemma step_damage_mono:
  assumes "\<not> (sd = SideP1 \<and> (\<exists>sx sy npc. e = FallOutP1 sx sy npc))"
  shows "damagePercent (fighterOf sd wd) \<le> damagePercent (fighterOf sd (step e wd))"
proof (cases e)
  case (Combat solid)
  then show ?thesis by (simp add: combatPass_damage_mono)
next
  case (FallOutP1 sx sy npcSpawn)
  then show ?thesis using assms
    by (cases sd) (auto simp: fighterOf_def Let_def split: option.splits)
qed (cases sd; simp add: fighterOf_def update_damagePercent)+

lemma run_damage_mono:
  "sd = SideP2 \<or> noFallOut es \<Longrightarrow>
   damagePercent (fighterOf sd wd) \<le> damagePercent (fighterOf sd (run es wd))"
proof (induction es arbitrary: wd)
  case Nil
  show ?case by simp
next
  case (Cons e es)
  have ok: "\<not> (sd = SideP1 \<and> (\<exists>sx sy npc. e = FallOutP1 sx sy npc))"
    using Cons.prems by (cases sd) auto
  have rest: "sd = SideP2 \<or> noFallOut es"
    using Cons.prems by (auto split: event.splits)
  have "damagePercent (fighterOf sd wd) \<le> damagePercent (fighterOf sd (step e wd))"
    by (rule step_damage_mono [OF ok])
  also have "\<dots> \<le> damagePercent (fighterOf sd (run es (step e wd)))"
    by (rule Cons.IH [OF rest])
  finally show ?case by simp
qed

lemma receiveHits_mono:
  "\<forall>hit \<in> set hits. 0 \<le> fst hit \<Longrightarrow> damagePercent f \<le> damagePercent (receiveHits hits f)"
proof (induction hits arbitrary: f)
  case Nil
  show ?case by simp
next
  case (Cons hit hits)
  obtain pct baseKB strength angleRad where hit: "hit = (pct, baseKB, strength, angleRad)"
    by (cases hit)
  have "damagePercent f \<le> damagePercent (receiveHit pct baseKB strength angleRad f)"
    using Cons.prems hit by (simp add: receiveHit_mono)
  also have "\<dots> \<le> damagePercent (receiveHits hits (receiveHit pct baseKB strength angleRad f))"
    using Cons.prems by (intro Cons.IH) simp
  finally show ?case using hit by simp
qed

subsection \<open>Worked instances\<close>

lemmas sample_defs =
  update_def movement_def flyStart_def flyMove_def flySteer_def flyRelease_def groundMove_def
  walkInput_def jumpStart_def jumpRelease_def integrate_def groundFriction_def
  groundCollision_def landReset_def actions_def parryPhase_def parryStart_def parryGuard_def
  parryTick_def parryCooldownTick_def attack1Start_def attack1Guard_def attack1Tick_def
  attack2Start_def attack2Guard_def attack2Tick_def ranged1Start_def ranged1Tick_def
  ranged2Start_def ranged2Tick_def hurtPhase_def fallbackPhase_def restoreState_def
  setState_def jumpTimeUnset_def sampleP1_def sampleP2_def newFighter_def keysP1_def
  keysP2_def pressAttack1P1_def pressAttackAndRangedP1_def pressParryP2_def noKeys_def
  noGround_def

lemmas combat_defs =
  combatPass_def meleePass_def meleeP1_def meleeBlock_def meleeResolves_def hitbox_def
  hurtbox_def aabb_def launchFlag_def setLaunchFlag_def receiveHit_def takeDamage_def
  projectilePass_def projectileStep_def projectileVs_def projRect_def getFighter_def
  setFighter_def autoDefeat_def isDefeated_def knockbackKB_def globalKnockbackMultiplier_def
  maxHpOr1_def




subsection \<open>A parry excludes an attack in every state a fighter reaches by its own methods\<close>

lemma actions_chain_exclusive:
  assumes "parryExclusive p"
  shows "parryExclusive (ranged2Tick inp (ranged2Start inp (ranged1Tick dt (ranged1Start inp
           (attack2Tick dt (attack2Start inp (attack1Tick dt (attack1Start inp p))))))))"
proof (cases "parrying p")
  case True
  with assms have "\<not> attacking1 p" "\<not> attacking2 p" "\<not> ranging1 p" "\<not> ranging2 p"
    by (simp_all add: parryExclusive_def)
  with True have "ranged2Tick inp (ranged2Start inp (ranged1Tick dt (ranged1Start inp
           (attack2Tick dt (attack2Start inp (attack1Tick dt (attack1Start inp p))))))) = p"
    by (simp add: attack1Start_def attack1Guard_def attack1Tick_def attack2Start_def
        attack2Guard_def attack2Tick_def ranged1Start_def ranged1Tick_def ranged2Start_def
        ranged2Tick_def)
  with assms show ?thesis by simp
next
  case False
  then show ?thesis by (simp add: parryExclusive_def)
qed

lemma parryPhase_exclusive:
  assumes "parryExclusive g"
  shows "parryExclusive (parryPhase dt inp g)"
proof (cases "parryGuard inp g")
  case True
  then show ?thesis by (simp add: parryExclusive_def parryGuard_def)
next
  case False
  then have "parryStart inp g = g" by (simp add: parryStart_def)
  then have "parrying (parryPhase dt inp g) \<longrightarrow> parrying g"
    by (simp add: parryPhase_def parryTick_def)
  with assms show ?thesis by (auto simp: parryExclusive_def)
qed

lemma update_exclusive:
  assumes "parryExclusive f"
  shows "parryExclusive (update dt inp now f)"
proof -
  let ?g = "movement dt inp now f"
  have g: "parryExclusive ?g" using assms by (simp add: parryExclusive_def)
  have "parryExclusive (actions dt inp ?g)"
    using g actions_chain_exclusive [OF parryPhase_exclusive [OF g]]
    by (simp add: actions_def)
  then show ?thesis by (simp add: update_def parryExclusive_def)
qed

lemma stageWrite_exclusive:
  "parryExclusive (stageWrite nx ny nvx nvy grounded f) = parryExclusive f"
  by (simp add: parryExclusive_def)

lemma invoke_exclusive: "parryExclusive f \<Longrightarrow> parryExclusive (invoke c f)"
  by (cases c) (simp_all add: update_exclusive, simp_all add: parryExclusive_def)

lemma invokeAll_exclusive: "parryExclusive f \<Longrightarrow> parryExclusive (invokeAll cs f)"
  by (induction cs arbitrary: f) (simp_all add: invoke_exclusive)

text \<open>
  The frame loop keeps the exclusion too: receiveHit, takeDamage, the melee and
  projectile blocks, the automatic defeat, the landing, the writes of the stage
  collision and the fall-out change no action flag except to clear all of them.
\<close>

lemma receiveHit_exclusive [simp]:
  "parryExclusive (receiveHit pct baseKB strength angleRad f) = parryExclusive f"
  by (simp add: parryExclusive_def)

lemma takeDamage_exclusive [simp]: "parryExclusive (takeDamage amount f) = parryExclusive f"
  by (simp add: parryExclusive_def)

lemma setLaunchFlag_exclusive [simp]: "parryExclusive (setLaunchFlag f) = parryExclusive f"
  by (simp add: parryExclusive_def setLaunchFlag_def)

lemma landAt_exclusive [simp]: "parryExclusive (landAt yTop f) = parryExclusive f"
  by (simp add: parryExclusive_def)

lemma meleeBlock_exclusive:
  "parryExclusive (fst (meleeBlock sp hb a d)) = parryExclusive a"
  "parryExclusive (snd (meleeBlock sp hb a d)) = parryExclusive d"
proof -
  have e: "\<And>f c t. parryExclusive (f\<lparr>parryConsumed := c, parryFreezeTimer := t\<rparr>) = parryExclusive f"
    by (simp add: parryExclusive_def)
  show "parryExclusive (fst (meleeBlock sp hb a d)) = parryExclusive a"
    by (simp add: meleeBlock_def Let_def)
  show "parryExclusive (snd (meleeBlock sp hb a d)) = parryExclusive d"
    by (simp add: meleeBlock_def Let_def e)
qed

lemma meleePass_exclusive:
  "parryExclusive (p1 (meleePass wd)) = parryExclusive (p1 wd)"
  "parryExclusive (p2 (meleePass wd)) = parryExclusive (p2 wd)"
  by (simp_all add: meleePass_fields meleeP1_fields meleeBlock_exclusive)

lemma projectileVs_exclusive:
  "parryExclusive (getFighter (snd (projectileVs who pr wd)) who')
     = parryExclusive (getFighter wd who')"
proof -
  have e: "\<And>f c t. parryExclusive (f\<lparr>parryConsumed := c, parryFreezeTimer := t\<rparr>) = parryExclusive f"
          "\<And>f t. parryExclusive (f\<lparr>stunTimer := t\<rparr>) = parryExclusive f"
          "\<And>f t. parryExclusive (f\<lparr>damagePercent := t\<rparr>) = parryExclusive f"
    by (simp_all add: parryExclusive_def)
  show ?thesis by (simp add: projectileVs_def Let_def e)
qed

lemma projectileStep_exclusive:
  "parryExclusive (getFighter (snd (projectileStep solid pr wd)) who')
     = parryExclusive (getFighter wd who')"
  by (simp add: projectileStep_def Let_def split_beta projectileVs_exclusive)

lemma projectileLoop_exclusive:
  "parryExclusive (getFighter (snd (projectileLoop solid prs wd)) who')
     = parryExclusive (getFighter wd who')"
proof (induction prs arbitrary: wd)
  case Nil
  show ?case by simp
next
  case (Cons pr prs)
  have "snd (projectileLoop solid (pr # prs) wd)
        = snd (projectileLoop solid prs (snd (projectileStep solid pr wd)))"
    by (simp add: split_beta)
  then show ?case by (simp add: Cons.IH projectileStep_exclusive)
qed

lemma projectilePass_exclusive:
  "parryExclusive (getFighter (projectilePass solid wd) who')
     = parryExclusive (getFighter wd who')"
  by (simp add: projectilePass_def split_beta projectileLoop_exclusive)

lemma autoDefeat_exclusive: "parryExclusive f \<Longrightarrow> parryExclusive (autoDefeat f)"
  by (simp add: autoDefeat_def parryExclusive_def)

lemma combatPass_exclusive:
  assumes "parryExclusive (fighterOf sd wd)"
  shows "parryExclusive (fighterOf sd (combatPass solid wd))"
proof -
  have "parryExclusive (fighterOf sd (meleePass wd))"
    using assms by (cases sd) (simp_all add: fighterOf_def meleePass_exclusive)
  then have "parryExclusive (getFighter (projectilePass solid (meleePass wd)) (ownerOf sd))"
    by (simp add: projectilePass_exclusive fighterOf_getFighter)
  then show ?thesis by (simp add: combatPass_fighterOf autoDefeat_exclusive)
qed

lemma fallOutP1_exclusive: "parryExclusive f \<Longrightarrow> parryExclusive (fallOutP1 sx sy f)"
  by (simp add: fallOutP1_def Let_def parryExclusive_def)

lemma step_exclusive:
  assumes "parryExclusive (fighterOf sd wd)" and "sd = SideP1 \<or> e \<noteq> AiParryP2"
  shows "parryExclusive (fighterOf sd (step e wd))"
proof (cases e)
  case (UpdateP1 dt inp now)
  then show ?thesis using assms by (cases sd) (simp_all add: fighterOf_def update_exclusive)
next
  case (UpdateP2 dt inp now)
  then show ?thesis using assms by (cases sd) (simp_all add: fighterOf_def update_exclusive)
next
  case (Combat solid)
  then show ?thesis using assms combatPass_exclusive by simp
next
  case (FallOutP1 sx sy npcSpawn)
  have e: "\<And>f a b c d g. parryExclusive (f\<lparr>x := a, y := b, vx := c, vy := d, facing := g\<rparr>) = parryExclusive f"
    by (simp add: parryExclusive_def)
  show ?thesis using assms FallOutP1
    by (cases sd) (auto simp: fighterOf_def Let_def fallOutP1_exclusive e split: option.splits)
next
  case AiParryP2
  then show ?thesis using assms by (cases sd) (simp_all add: fighterOf_def)
qed (use assms in \<open>cases sd; simp add: fighterOf_def stageWrite_exclusive\<close>)+

lemma run_exclusive:
  "parryExclusive (fighterOf sd wd) \<Longrightarrow> sd = SideP1 \<or> noForcedParry es
   \<Longrightarrow> parryExclusive (fighterOf sd (run es wd))"
proof (induction es arbitrary: wd)
  case Nil
  then show ?case by simp
next
  case (Cons e es)
  have ok: "sd = SideP1 \<or> e \<noteq> AiParryP2" using Cons.prems(2) by auto
  have rest: "sd = SideP1 \<or> noForcedParry es" using Cons.prems(2) by auto
  show ?case using Cons.IH [OF step_exclusive [OF Cons.prems(1) ok] rest] by simp
qed

text \<open>
  The action flags that the methods of a fighter leave set together: attack, ranged
  attack, hurt and flying at once; parry and flying at once.
\<close>

lemma flags_together:
  "attacking1 (invokeAll [CallUpdate 0.016 pressAttackAndRangedP1 0, CallReceiveHit 8 90 0.9 (Some 0),
                          CallUpdate 0.016 pressDodgeP1 16] sampleP1)
   \<and> ranging1 (invokeAll [CallUpdate 0.016 pressAttackAndRangedP1 0, CallReceiveHit 8 90 0.9 (Some 0),
                          CallUpdate 0.016 pressDodgeP1 16] sampleP1)
   \<and> hurt (invokeAll [CallUpdate 0.016 pressAttackAndRangedP1 0, CallReceiveHit 8 90 0.9 (Some 0),
                          CallUpdate 0.016 pressDodgeP1 16] sampleP1)
   \<and> flying (invokeAll [CallUpdate 0.016 pressAttackAndRangedP1 0, CallReceiveHit 8 90 0.9 (Some 0),
                          CallUpdate 0.016 pressDodgeP1 16] sampleP1)
   \<and> parrying (invokeAll [CallUpdate 0.016 pressParryP2 0, CallUpdate 0.016 pressDodgeP2 16] sampleP2)
   \<and> flying (invokeAll [CallUpdate 0.016 pressParryP2 0, CallUpdate 0.016 pressDodgeP2 16] sampleP2)"
  by (simp add: sample_defs pressDodgeP1_def pressDodgeP2_def receiveHit_def
      knockbackKB_def globalKnockbackMultiplier_def Let_def)

subsection \<open>The collision surface\<close>

lemmas js_defs =
  jsOfNat_def jsNeg_def jsAdd_def jsSub_def jsSignedInf_def jsMul_def jsDiv_def jsFloor_def
  jsRound_def jsMin_def jsMax_def jsGt_def

text \<open>In a window of positive width and height every number of the crop window is finite.\<close>

lemma cropWindow_finite:
  assumes "0 < cvW" and "0 < cvH"
  shows "\<exists>sx sy sw sh. cropWindow cvW cvH imgW imgH = (Num sx, Num sy, Num sw, Num sh)"
  using assms
  by (cases "imgH = 0") (simp_all add: cropWindow_def js_defs Let_def)

lemma safeCanvas_finite:
  assumes "c \<noteq> NaN"
  shows "\<exists>s. jsMax (Num 0) (jsMin (jsSub (jsOfNat n) (Num 1)) (jsFloor c)) = Num s"
  using assms by (cases c) (simp_all add: js_defs)

lemma src_finite:
  assumes "0 < n"
  shows "\<exists>r. jsAdd (Num s0) (jsMul (jsDiv (Num s) (jsOfNat n)) (Num k)) = Num r"
  using assms by (simp add: js_defs)

lemma clamp_index:
  "pixelIndex n (jsMax (Num 0) (jsMin (jsSub (jsOfNat n) (Num 1)) (jsFloor (Num r))))"
proof -
  have v: "jsMax (Num 0) (jsMin (jsSub (jsOfNat n) (Num 1)) (jsFloor (Num r)))
           = Num (of_int (max 0 (min (int n - 1) \<lfloor>r\<rfloor>)))"
    by (simp add: js_defs max_def min_def)
  have le: "max 0 (min (int n - 1) \<lfloor>r\<rfloor>) \<le> max 0 (int n - 1)"
    by linarith
  have "max 0 (real n - 1) = real_of_int (max 0 (int n - 1))"
    by (simp add: max_def)
  then have "real_of_int (max 0 (min (int n - 1) \<lfloor>r\<rfloor>)) \<le> max 0 (real n - 1)"
    using le by (simp only: of_int_le_iff)
  then show ?thesis unfolding v by (simp add: pixelIndex_def)
qed

lemma sampleCoords_bounds:
  assumes "0 < WIDTH st" and "0 < HEIGHT st" and "canvasX \<noteq> NaN" and "canvasY \<noteq> NaN"
  shows "pixelIndex cw (fst (sampleCoords st (cw, ch) (imgW, imgH) canvasX canvasY))"
    and "pixelIndex ch (snd (sampleCoords st (cw, ch) (imgW, imgH) canvasX canvasY))"
proof -
  obtain sx sy sw sh
    where crop: "cropWindow (WIDTH st) (HEIGHT st) imgW imgH = (Num sx, Num sy, Num sw, Num sh)"
    using cropWindow_finite [OF assms(1,2)] by blast
  obtain ax where ax: "jsMax (Num 0) (jsMin (jsSub (jsOfNat (WIDTH st)) (Num 1)) (jsFloor canvasX)) = Num ax"
    using safeCanvas_finite [OF assms(3)] by blast
  obtain ay where ay: "jsMax (Num 0) (jsMin (jsSub (jsOfNat (HEIGHT st)) (Num 1)) (jsFloor canvasY)) = Num ay"
    using safeCanvas_finite [OF assms(4)] by blast
  obtain rx where rx: "jsAdd (Num sx) (jsMul (jsDiv (Num ax) (jsOfNat (WIDTH st))) (Num sw)) = Num rx"
    using src_finite [OF assms(1)] by blast
  obtain ry where ry: "jsAdd (Num sy) (jsMul (jsDiv (Num ay) (jsOfNat (HEIGHT st))) (Num sh)) = Num ry"
    using src_finite [OF assms(2)] by blast
  show "pixelIndex cw (fst (sampleCoords st (cw, ch) (imgW, imgH) canvasX canvasY))"
    using clamp_index [of cw rx] by (simp add: sampleCoords_def Let_def crop ax rx)
  show "pixelIndex ch (snd (sampleCoords st (cw, ch) (imgW, imgH) canvasX canvasY))"
    using clamp_index [of ch ry] by (simp add: sampleCoords_def Let_def crop ay ry)
qed

lemma isSolid_not_ready: "\<not> heatmapReady st \<Longrightarrow> isSolidAtCanvasPoint st canvasX canvasY = False"
  by (auto simp: isSolidAtCanvasPoint_def isSolidBody_def heatmapReady_def
      split: option.splits prod.splits sum.splits)

lemma isSolid_throws: "isSolidBody st canvasX canvasY = Inl e \<Longrightarrow> isSolidAtCanvasPoint st canvasX canvasY = False"
  by (simp add: isSolidAtCanvasPoint_def)

lemma isSolid_ready:
  assumes "heatmapCtx st = Some getImageData" and "heatmapCanvas st = Some (cw, ch)"
    and "stageImg st = Some (imgW, imgH)" and "0 < cw" and "0 < imgW"
  shows "isSolidAtCanvasPoint st canvasX canvasY
         = (case getImageData (fst (sampleCoords st (cw, ch) (imgW, imgH) canvasX canvasY))
                              (snd (sampleCoords st (cw, ch) (imgW, imgH) canvasX canvasY)) of
              Inl e \<Rightarrow> False | Inr d \<Rightarrow> alpha d > 128)"
  using assms
  by (simp add: isSolidAtCanvasPoint_def isSolidBody_def split: prod.splits sum.splits)

text \<open>The crop window and the sampled coordinates of the sample stages.\<close>

lemma cropWindow_zero_height:
  "cropWindow 800 0 1920 1080 = (Num 0, Num 540, Num 1920, Num 0)"
  by (simp add: cropWindow_def js_defs Let_def)

lemma sampleStage_coords:
  "sampleCoords sampleStage (800, 600) (800, 600) (Num (- 50)) (Num 10000) = (Num 0, Num 599)
   \<and> sampleCoords sampleStage (800, 600) (800, 600) (Num 900) (Num (- 7)) = (Num 799, Num 0)
   \<and> sampleCoords sampleStage (800, 600) (800, 600) PosInf NegInf = (Num 799, Num 0)
   \<and> sampleCoords sampleStage (800, 600) (800, 600) (Num 240) (Num 500) = (Num 240, Num 500)
   \<and> sampleCoords sampleStage (800, 600) (800, 600) NaN (Num 500) = (NaN, Num 500)
   \<and> sampleCoords zeroHeightStage (800, 600) (800, 600) (Num 240) (Num 500) = (Num 240, NaN)"
  by (simp add: sampleCoords_def cropWindow_def js_defs Let_def zeroHeightStage_def
      sampleStage_def)

subsection \<open>The agent controller\<close>

lemma filterMove_other: "k \<noteq> key \<Longrightarrow> filterMove ai npc key dir m k = m k"
  by (simp add: filterMove_def split: option.splits)

lemma filterMove_not_pressed: "\<not> pressed m k \<Longrightarrow> \<not> pressed (filterMove ai npc key dir m) k"
  by (auto simp: filterMove_def pressed_def split: option.splits if_splits)

lemma filterMove_blocks:
  assumes "isSolidAt ai = Some solid" and "onGround npc"
    and "\<not> solid (aheadX npc (of_int dir * edgeLookahead ai)) (footY npc)"
  shows "\<not> pressed (filterMove ai npc key dir m) key"
  using assms by (simp add: filterMove_def pressed_def)

lemma filterIntent_blocks:
  "(isSolidAt ai = Some solid \<and> onGround npc
      \<and> \<not> solid (aheadX npc (- edgeLookahead ai)) (footY npc)
      \<longrightarrow> \<not> pressed (filterIntent ai npc intent) (leftKey ai))
   \<and> (isSolidAt ai = Some solid \<and> onGround npc
      \<and> \<not> solid (aheadX npc (edgeLookahead ai)) (footY npc)
      \<longrightarrow> \<not> pressed (filterIntent ai npc intent) (rightKey ai))"
proof (intro conjI impI)
  assume a: "isSolidAt ai = Some solid \<and> onGround npc
      \<and> \<not> solid (aheadX npc (- edgeLookahead ai)) (footY npc)"
  then have "\<not> pressed (filterMove ai npc (leftKey ai) (- 1) intent) (leftKey ai)"
    using filterMove_blocks [of ai solid npc "- 1" "leftKey ai" intent] by simp
  then show "\<not> pressed (filterIntent ai npc intent) (leftKey ai)"
    unfolding filterIntent_def by (rule filterMove_not_pressed)
next
  assume a: "isSolidAt ai = Some solid \<and> onGround npc
      \<and> \<not> solid (aheadX npc (edgeLookahead ai)) (footY npc)"
  then show "\<not> pressed (filterIntent ai npc intent) (rightKey ai)"
    unfolding filterIntent_def
    using filterMove_blocks [of ai solid npc 1 "rightKey ai"] by simp
qed

lemma setKey_other: "k \<noteq> Some u \<Longrightarrow> setKey k v m u = m u"
  by (auto simp: setKey_def split: option.splits)

lemma setKey_same: "u \<noteq> [] \<Longrightarrow> setKey (Some u) v m u = Some v"
  by (simp add: setKey_def)

lemma resetKeys_jump: "jumpKeyOnly ai u \<Longrightarrow> resetKeys ai m u = Some False"
  by (simp add: resetKeys_def jumpKeyOnly_def setKey_other setKey_same)

lemma chase_jump: "jumpKeyOnly ai u \<Longrightarrow> chase ai cur goal m u = m u"
  by (simp add: chase_def jumpKeyOnly_def setKey_other)

lemma aggroMode_jump: "jumpKeyOnly ai u \<Longrightarrow> snd (aggroMode ai m npc pl) u = m u"
  by (simp add: aggroMode_def Let_def chase_def jumpKeyOnly_def setKey_other)

lemma patrolMode_jump: "jumpKeyOnly ai u \<Longrightarrow> snd (patrolMode ai sx m npc) u = m u"
  by (simp add: patrolMode_def Let_def chase_def jumpKeyOnly_def setKey_other
      split: option.splits)

lemma simplePatrolUpdate_jump:
  "jumpKeyOnly ai u \<Longrightarrow> snd (simplePatrolUpdate ai sx m npc pl) u = Some False"
  by (simp add: simplePatrolUpdate_def Let_def aggroMode_jump patrolMode_jump resetKeys_jump)

lemma tickCooldowns_keys [simp]: "ai_keys (tickCooldowns dt ai) = ai_keys ai"
  by (simp add: tickCooldowns_def Let_def)

lemma jumpKeyOnly_tick [simp]: "jumpKeyOnly (tickCooldowns dt ai) u = jumpKeyOnly ai u"
  by (simp add: jumpKeyOnly_def)

lemma edgeAvoid_jump: "jumpKeyOnly ai u \<Longrightarrow> edgeAvoid ai npc m u = m u"
  by (simp add: edgeAvoid_def Let_def jumpKeyOnly_def setKey_other)

lemma parryLogic_jump:
  "jumpKeyOnly ai u \<Longrightarrow> fst (snd (parryLogic ai self npc pl prs m)) u = m u"
  by (simp add: parryLogic_def Let_def jumpKeyOnly_def setKey_other)

lemma parryLogic_keys [simp]: "ai_keys (fst (parryLogic ai self npc pl prs m)) = ai_keys ai"
  by (simp add: parryLogic_def Let_def)

lemma jumpKeyOnly_parryLogic [simp]:
  "jumpKeyOnly (fst (parryLogic ai self npc pl prs m)) u = jumpKeyOnly ai u"
  by (simp add: jumpKeyOnly_def)

lemma heatmapNudge_jump: "jumpKeyOnly ai u \<Longrightarrow> heatmapNudge ai npc m u = m u"
  by (simp add: heatmapNudge_def Let_def jumpKeyOnly_def setKey_other split: option.splits)

lemma engage_jump: "jumpKeyOnly ai u \<Longrightarrow> snd (engage ai npc pl m) u = m u"
  by (simp add: engage_def Let_def jumpKeyOnly_def setKey_other)

lemma fallbackUpdate_jump:
  assumes "jumpKeyOnly ai u"
  shows "fst (snd (fallbackUpdate dt ai self br m npc pl prs)) u = Some False"
proof -
  let ?ai1 = "tickCooldowns dt ai"
  let ?m2 = "edgeAvoid ?ai1 npc (resetKeys ?ai1 (mergeBehavior ai npc br m))"
  let ?pl = "parryLogic ?ai1 self npc pl prs ?m2"
  have j1: "jumpKeyOnly ?ai1 u" using assms by simp
  have j2: "jumpKeyOnly (fst ?pl) u" using j1 by simp
  have m2: "?m2 u = Some False" using j1 by (simp add: edgeAvoid_jump resetKeys_jump)
  have m3: "fst (snd ?pl) u = Some False" using j1 m2 by (simp add: parryLogic_jump)
  have "snd (engage (fst ?pl) (snd (snd ?pl)) pl (heatmapNudge (fst ?pl) (snd (snd ?pl)) (fst (snd ?pl)))) u
        = Some False"
    using j2 m3 by (simp add: engage_jump heatmapNudge_jump)
  then show ?thesis by (simp add: fallbackUpdate_def Let_def split_beta)
qed

lemma aiUpdate_jump:
  assumes "jumpKeyOnly ai u"
  shows "fst (snd (aiUpdate dt ai self br m npc (Some pl) prs)) u = Some False"
proof (cases "simplePatrol ai")
  case True
  show ?thesis
  proof (cases "spawnX ai")
    case None
    then show ?thesis using True assms by (simp add: aiUpdate_def fallbackUpdate_jump)
  next
    case (Some sx)
    then show ?thesis using True assms
      by (simp add: aiUpdate_def split_beta simplePatrolUpdate_jump)
  qed
next
  case False
  then show ?thesis using assms by (simp add: aiUpdate_def fallbackUpdate_jump)
qed


text \<open>
  The fallback heuristics on the same platform: the edge check presses the left key
  because the step to the right is not solid, and the approach to a distant opponent
  then presses the right key all the same.
\<close>

lemma fallback_chase_after_nudge:
  "onGround groundedNpc
   \<and> \<not> groundAhead behaviorAi groundedNpc 1
   \<and> pressed (fst (snd (aiUpdate 0.016 behaviorAi OwnerP2 NoBehavior Map.empty groundedNpc
                           (Some farPlayer) []))) ''ArrowLeft''
   \<and> pressed (fst (snd (aiUpdate 0.016 behaviorAi OwnerP2 NoBehavior Map.empty groundedNpc
                           (Some farPlayer) []))) ''ArrowRight''"
  by (simp add: aiUpdate_def fallbackUpdate_def mergeBehavior_def tickCooldowns_def
      edgeAvoid_def npcCanvasW_def parryLogic_def threatNear_def heatmapNudge_def engage_def
      resetKeys_def setKey_def truthyKey_def groundAhead_def aheadX_def footY_def pressed_def
      behaviorAi_def defaultAi_def npcKeys_def platformEndsAt400_def groundedNpc_def
      farPlayer_def sampleP1_def sampleP2_def newFighter_def Let_def)

subsection \<open>The fallback heuristics of the agent controller at sample inputs\<close>

lemmas ai_defs =
  aiUpdate_def fallbackUpdate_def mergeBehavior_def tickCooldowns_def edgeAvoid_def
  npcCanvasW_def parryLogic_def threatNear_def heatmapNudge_def engage_def resetKeys_def
  setKey_def truthyKey_def pressed_def defaultAi_def npcKeys_def aiForceParry_def

text \<open>
  The simple patrol mode, the mode the game configures, samples no ground for its
  movement keys: grounded at x = 250 on a platform that ends at x = 400, with no solid
  sample 48 px ahead to the right, update presses the right key.
\<close>

lemma patrol_walks_to_pit:
  "onGround groundedNpc
   \<and> \<not> groundAhead patrolAi groundedNpc 1
   \<and> pressed (fst (snd (aiUpdate 0.016 patrolAi OwnerP2 NoBehavior Map.empty groundedNpc
                           (Some farPlayer) []))) ''ArrowRight''"
  by (simp add: aiUpdate_def simplePatrolUpdate_def patrolMode_def aggroMode_def chase_def
      resetKeys_def setKey_def isPlayerInSight_def groundAhead_def aheadX_def footY_def
      pressed_def patrolAi_def defaultAi_def npcKeys_def platformEndsAt400_def groundedNpc_def
      farPlayer_def sampleP1_def sampleP2_def newFighter_def Let_def)

text \<open>The platform that begins at x = 400, with the opponent far to the left.\<close>

lemma edge_ground:
  "onGround edgeNpc \<and> \<not> groundAhead edgeAi edgeNpc (- 1) \<and> groundAhead edgeAi edgeNpc 1"
  by (simp add: groundAhead_def edgeAi_def edgeNpc_def platformFrom400_def defaultAi_def
      aheadX_def footY_def sampleP2_def newFighter_def)

lemma edgeMerged_eval:
  "(\<forall>k. pressed edgeMerged k = (k = ''ArrowLeft'' \<or> k = ''ArrowRight''))
   \<and> snd (snd (aiUpdate 0.016 edgeAi OwnerP2 NoBehavior Map.empty edgeNpc (Some leftPlayer) [])) = edgeNpc"
  by (simp add: edgeMerged_def ai_defs controllerKeys_def edgeAi_def edgeNpc_def leftPlayer_def platformFrom400_def
      aheadX_def footY_def sampleP1_def sampleP2_def newFighter_def Let_def)

lemma edge_behaviour:
  "\<not> pressed (filterIntent edgeAi edgeNpc [''ArrowLeft'' \<mapsto> True]) ''ArrowLeft''
   \<and> pressed (fst (snd (aiUpdate 0.016 edgeAi OwnerP2 (BehaviorIntent [''ArrowLeft'' \<mapsto> True])
                           Map.empty edgeNpc (Some leftPlayer) []))) ''ArrowLeft''"
  by (simp add: ai_defs filterIntent_def filterMove_def leftKey_def rightKey_def keyOr_def
      disallowMoveBeyondSpawn_def controllerKeys_def edgeAi_def edgeNpc_def leftPlayer_def
      platformFrom400_def
      aheadX_def footY_def sampleP1_def sampleP2_def newFighter_def Let_def)

lemma edge_walk:
  "x (update 0.016 (pressed edgeMerged) 0 edgeNpc) = 297.6
   \<and> vx (update 0.016 (pressed edgeMerged) 0 edgeNpc) = - 130.8
   \<and> facing (update 0.016 (pressed edgeMerged) 0 edgeNpc) = - 1"
proof -
  have k: "\<And>k. pressed edgeMerged k = (k = ''ArrowLeft'' \<or> k = ''ArrowRight'')"
    using edgeMerged_eval by blast
  show ?thesis
    by (simp add: k edgeNpc_def sample_defs)
qed

text \<open>
  The forced parry. In the fallback heuristics, with a parry key configured, a
  projectile of another fighter within 140 px and the parry cooldown of the fighter
  not running, update writes the parry into the fighter it controls.
\<close>

lemma aiUpdate_forces_parry:
  assumes "\<not> simplePatrol ai" and "truthyKey (k_parry (ai_keys ai))"
    and "threatNear self npc prs" and "parryCooldown npc \<le> 0"
  shows "snd (snd (aiUpdate dt ai self br m npc (Some pl) prs)) = aiForceParry npc"
  using assms
  by (simp add: aiUpdate_def fallbackUpdate_def parryLogic_def Let_def split_beta)






text \<open>
  The forced parry on a fighter that is attacking: parry and attack hold together.
\<close>

lemma forced_parry_while_attacking:
  "snd (snd (aiUpdate 0.016 parryAi OwnerP2 NoBehavior Map.empty
               (update 0.016 pressAttack1P2 0 sampleP2) (Some sampleP1) [shotOfP1]))
     = aiForceParry (update 0.016 pressAttack1P2 0 sampleP2)
   \<and> parrying (aiForceParry (update 0.016 pressAttack1P2 0 sampleP2))
   \<and> attacking1 (aiForceParry (update 0.016 pressAttack1P2 0 sampleP2))
   \<and> \<not> parryExclusive (p2 (run [UpdateP2 0.016 pressAttack1P2 0, AiParryP2] twoShots))"
proof -
  have u: "x (update 0.016 pressAttack1P2 0 sampleP2) = 250
           \<and> parryCooldown (update 0.016 pressAttack1P2 0 sampleP2) = 0
           \<and> attacking1 (update 0.016 pressAttack1P2 0 sampleP2)"
    by (simp add: sample_defs pressAttack1P2_def)
  have t: "threatNear OwnerP2 (update 0.016 pressAttack1P2 0 sampleP2) [shotOfP1]"
    using u by (simp add: threatNear_def shotOfP1_def)
  have m: "\<not> simplePatrol parryAi" and k: "truthyKey (k_parry (ai_keys parryAi))"
    by (simp_all add: parryAi_def defaultAi_def npcKeys_def truthyKey_def)
  have c: "parryCooldown (update 0.016 pressAttack1P2 0 sampleP2) \<le> 0" using u by simp
  have a: "snd (snd (aiUpdate 0.016 parryAi OwnerP2 NoBehavior Map.empty
               (update 0.016 pressAttack1P2 0 sampleP2) (Some sampleP1) [shotOfP1]))
           = aiForceParry (update 0.016 pressAttack1P2 0 sampleP2)"
    by (rule aiUpdate_forces_parry [OF m k t c])
  have f: "parrying (aiForceParry (update 0.016 pressAttack1P2 0 sampleP2))
           \<and> attacking1 (aiForceParry (update 0.016 pressAttack1P2 0 sampleP2))"
    using u by (simp add: aiForceParry_def)
  have "p2 (run [UpdateP2 0.016 pressAttack1P2 0, AiParryP2] twoShots)
        = aiForceParry (update 0.016 pressAttack1P2 0 sampleP2)"
    by (simp add: twoShots_def)
  then have "\<not> parryExclusive (p2 (run [UpdateP2 0.016 pressAttack1P2 0, AiParryP2] twoShots))"
    using f by (simp add: parryExclusive_def)
  then show ?thesis using a f by blast
qed

section \<open>The claims\<close>

subsection \<open>The claims about receiveHit and takeDamage\<close>

text \<open>
  Claim C10. A fighter that is already defeated ignores damage: receiveHit returns at
  once when the state is defeat, and takeDamage returns at once when hp is not positive
  or the state is defeat. Every field (hp, percent, velocity, timers, flags) is as before.
\<close>

theorem defeated_noop:
  "(state f = ''defeat'' \<longrightarrow> receiveHit pct baseKB strength angleRad f = f)
   \<and> (hp f \<le> 0 \<or> state f = ''defeat'' \<longrightarrow> takeDamage amount f = f)"
  by (simp add: receiveHit_def takeDamage_def)

theorem defeated_noop_witness:
  "state defeatedP2 = ''defeat'' \<and> hp defeatedP2 \<le> 0
   \<and> receiveHit 30 140 0.6 (Some pi) defeatedP2 = defeatedP2
   \<and> takeDamage 1 defeatedP2 = defeatedP2"
  using defeated_noop [of defeatedP2 30 140 "0.6" "Some pi" 1]
  by (simp add: defeatedP2_def sampleP2_def newFighter_def)

text \<open>
  Claim C5. The knockback magnitude that receiveHit computes is the formula of the
  specification with scale = 6 * strength and k = 30, taken at the percent after the
  hit has been added; it is this magnitude that scales the impulse of a low-percent hit.
\<close>

theorem knockback_formula:
  "knockbackKB baseKB strength dp = KB_spec baseKB (6 * strength) 30 dp
   \<and> (state f \<noteq> ''defeat'' \<and> damagePercent f + pct < 30 \<longrightarrow>
        vx (receiveHit pct baseKB strength (Some a) f)
          = vx f + cos a * KB_spec baseKB (6 * strength) 30 (damagePercent f + pct)
                   * (0.12 * strength) * globalKnockbackMultiplier
      \<and> vy (receiveHit pct baseKB strength (Some a) f)
          = vy f + - sin a * KB_spec baseKB (6 * strength) 30 (damagePercent f + pct)
                   * (0.12 * strength) * globalKnockbackMultiplier)"
  by (simp add: receiveHit_nudge knockbackKB_def KB_spec_def power2_eq_square
        globalKnockbackMultiplier_def)

theorem knockback_formula_witness:
  "knockbackKB 90 0.9 8 = 90 + 8 * (6 * 0.9) + 8\<^sup>2 / (30 + 8)
   \<and> state sampleP1 \<noteq> ''defeat'' \<and> damagePercent sampleP1 + 8 < 30
   \<and> vx (receiveHit 8 90 0.9 (Some 0) sampleP1)
       = (90 + 8 * (6 * 0.9) + 8\<^sup>2 / (30 + 8)) * (0.12 * 0.9) * 0.2"
  using knockback_formula [of 90 "0.9" 8 sampleP1 8 0]
  by (simp add: KB_spec_def sampleP1_def newFighter_def globalKnockbackMultiplier_def)

text \<open>
  Claim C1, as stated, fails on a defeated fighter: receiveHit returns at once, so a
  fighter defeated at 50 percent on the ground keeps its 50 percent, stays grounded and
  is not launched.
\<close>

theorem receiveHit_defeated_counterexample:
  "damagePercent (receiveHit 30 140 0.6 (Some pi) defeatedP2) \<ge> 30
   \<and> onGround (receiveHit 30 140 0.6 (Some pi) defeatedP2)
   \<and> \<not> launchedFromHit (receiveHit 30 140 0.6 (Some pi) defeatedP2)"
  by (simp add: receiveHit_def defeatedP2_def sampleP2_def newFighter_def)

text \<open>
  Claim C1, amended. For every call of receiveHit on a fighter that is not in the defeat
  state: if the resulting percent is at least 30 the fighter leaves the ground and is
  marked as launched; if it is below 30 the call changes nothing but the percent, the
  velocity, the stun timer (raised to at least 0.25 * strength) and the hurt state
  (0.3 s), so grounded and launched are as before, and the velocity impulse is bounded
  in each axis by 0.024 * |KB| * |strength|.
\<close>

theorem receiveHit_regimes:
  assumes "state f \<noteq> ''defeat''"
  shows "(damagePercent (receiveHit pct baseKB strength angleRad f) \<ge> 30 \<longrightarrow>
            \<not> onGround (receiveHit pct baseKB strength angleRad f)
            \<and> launchedFromHit (receiveHit pct baseKB strength angleRad f))
       \<and> (damagePercent (receiveHit pct baseKB strength angleRad f) < 30 \<longrightarrow>
            receiveHit pct baseKB strength angleRad f
              = f\<lparr>damagePercent := damagePercent f + pct,
                  vx := vx (receiveHit pct baseKB strength angleRad f),
                  vy := vy (receiveHit pct baseKB strength angleRad f),
                  stunTimer := max (stunTimer f) (0.25 * strength),
                  hurt := True, hurtTimer := 0.3\<rparr>
            \<and> \<bar>vx (receiveHit pct baseKB strength angleRad f) - vx f\<bar>
                 \<le> 0.024 * \<bar>knockbackKB baseKB strength (damagePercent f + pct)\<bar> * \<bar>strength\<bar>
            \<and> \<bar>vy (receiveHit pct baseKB strength angleRad f) - vy f\<bar>
                 \<le> 0.024 * \<bar>knockbackKB baseKB strength (damagePercent f + pct)\<bar> * \<bar>strength\<bar>)"
proof (cases "damagePercent f + pct < 30")
  case True
  note eq = receiveHit_nudge [OF assms True, of baseKB strength angleRad]
  have dp: "damagePercent (receiveHit pct baseKB strength angleRad f) = damagePercent f + pct"
    using assms by (simp add: receiveHit_damagePercent)
  have bx: "\<bar>vx (receiveHit pct baseKB strength angleRad f) - vx f\<bar>
              \<le> 0.024 * \<bar>knockbackKB baseKB strength (damagePercent f + pct)\<bar> * \<bar>strength\<bar>"
    unfolding eq using impulse_bound [OF abs_cos_le_one] by simp
  have sn: "\<bar>- sin t\<bar> \<le> 1" for t :: real by simp
  have bv: "\<bar>vy (receiveHit pct baseKB strength angleRad f) - vy f\<bar>
              \<le> 0.024 * \<bar>knockbackKB baseKB strength (damagePercent f + pct)\<bar> * \<bar>strength\<bar>"
    unfolding eq using impulse_bound [OF sn] by simp
  have shape: "receiveHit pct baseKB strength angleRad f
              = f\<lparr>damagePercent := damagePercent f + pct,
                  vx := vx (receiveHit pct baseKB strength angleRad f),
                  vy := vy (receiveHit pct baseKB strength angleRad f),
                  stunTimer := max (stunTimer f) (0.25 * strength),
                  hurt := True, hurtTimer := 0.3\<rparr>"
    by (simp add: eq)
  show ?thesis using True dp bx bv shape by simp
next
  case False
  note eq = receiveHit_launch [OF assms False, of baseKB strength angleRad]
  show ?thesis using False by (simp add: eq)
qed

theorem receiveHit_regimes_witness:
  "state sampleP2 \<noteq> ''defeat''
   \<and> damagePercent (receiveHit 30 140 0.6 (Some pi) sampleP2) = 30
   \<and> \<not> onGround (receiveHit 30 140 0.6 (Some pi) sampleP2)
   \<and> launchedFromHit (receiveHit 30 140 0.6 (Some pi) sampleP2)
   \<and> damagePercent (receiveHit 8 90 0.9 (Some 0) sampleP2) = 8
   \<and> onGround (receiveHit 8 90 0.9 (Some 0) sampleP2) = onGround sampleP2
   \<and> launchedFromHit (receiveHit 8 90 0.9 (Some 0) sampleP2) = launchedFromHit sampleP2"
proof -
  have ok: "state sampleP2 \<noteq> ''defeat''"
    by (simp add: sampleP2_def newFighter_def)
  have d1: "damagePercent (receiveHit 30 140 0.6 (Some pi) sampleP2) = 30"
    by (simp add: receiveHit_damagePercent sampleP2_def newFighter_def)
  have d2: "damagePercent (receiveHit 8 90 0.9 (Some 0) sampleP2) = 8"
    by (simp add: receiveHit_damagePercent sampleP2_def newFighter_def)
  from receiveHit_regimes [OF ok, of 30 140 "0.6" "Some pi"] d1
  have launch: "\<not> onGround (receiveHit 30 140 0.6 (Some pi) sampleP2)
                \<and> launchedFromHit (receiveHit 30 140 0.6 (Some pi) sampleP2)"
    by simp
  from receiveHit_regimes [OF ok, of 8 90 "0.9" "Some 0"] d2
  have nudge: "receiveHit 8 90 0.9 (Some 0) sampleP2
              = sampleP2\<lparr>damagePercent := damagePercent sampleP2 + 8,
                  vx := vx (receiveHit 8 90 0.9 (Some 0) sampleP2),
                  vy := vy (receiveHit 8 90 0.9 (Some 0) sampleP2),
                  stunTimer := max (stunTimer sampleP2) (0.25 * 0.9),
                  hurt := True, hurtTimer := 0.3\<rparr>"
    by simp
  have g: "onGround (receiveHit 8 90 0.9 (Some 0) sampleP2) = onGround sampleP2"
    by (subst nudge) simp
  have l: "launchedFromHit (receiveHit 8 90 0.9 (Some 0) sampleP2) = launchedFromHit sampleP2"
    by (subst nudge) simp
  show ?thesis using ok d1 d2 launch g l by simp
qed

subsection \<open>The claims about the combat pass\<close>





text \<open>
  Without the forced parry the single use holds (lemma \<open>neutralised_at_most_once\<close>): a
  parried melee attack and a projectile in the same pass, then a second pass.
\<close>

lemma parryDuel_run:
  "sameParry SideP2 [Combat noGround, UpdateP2 0.016 noKeys 0, Combat noGround] parryDuel
   \<and> neutralised SideP2 [Combat noGround, UpdateP2 0.016 noKeys 0, Combat noGround] parryDuel = 1
   \<and> damagePercent (p2 (run [Combat noGround, UpdateP2 0.016 noKeys 0, Combat noGround] parryDuel)) = 8
   \<and> hp (p2 (run [Combat noGround, UpdateP2 0.016 noKeys 0, Combat noGround] parryDuel)) = 2
   \<and> damagePercent (p1 (run [Combat noGround, UpdateP2 0.016 noKeys 0, Combat noGround] parryDuel)) = 20"
  by (simp add: parryDuel_def shotOfP1_def sample_defs combat_defs Let_def startsParry_def
      meleeParried_def meleeView_def otherSide_def parryReady_def stepParries_def
      projParried_def)

text \<open>
  Claim C4. The percent of a fighter never goes down: not over any sequence of
  receiveHit calls with non-negative increase, and not over any trace of the frame loop
  (updates, projectiles, combat passes, landings, forced parries) unless P1 falls out
  of the stage and respawns.
\<close>

theorem damagePercent_monotone:
  "((\<forall>hit \<in> set hits. 0 \<le> fst hit) \<longrightarrow> damagePercent f \<le> damagePercent (receiveHits hits f))
   \<and> (sd = SideP2 \<or> noFallOut es \<longrightarrow>
        damagePercent (fighterOf sd wd) \<le> damagePercent (fighterOf sd (run es wd)))"
  using receiveHits_mono [of hits f] run_damage_mono [of sd es wd] by blast

theorem damagePercent_monotone_witness:
  "(0::real) \<le> 30 \<and> (0::real) \<le> 8
   \<and> damagePercent sampleP2
       \<le> damagePercent (receiveHits [(30, 140, 0.6, Some pi), (8, 90, 0.9, Some 0)] sampleP2)
   \<and> noFallOut fiveTicks
   \<and> damagePercent (fighterOf SideP1 (attackStarted False))
       \<le> damagePercent (fighterOf SideP1 (run fiveTicks (attackStarted False)))"
  using damagePercent_monotone [of "[(30, 140, 0.6, Some pi), (8, 90, 0.9, Some 0)]" sampleP2
      SideP1 fiveTicks "attackStarted False"]
  by (simp add: fiveTicks_def)

text \<open>
  Claim C6, as stated, fails for the attacker: a parried melee attack sets the freeze
  timer of the parrying defender only. Here P2 parries the attack of P1; P2 gets
  parryFreezeTimer = 0.15 and P1 keeps 0 (P1 is pushed and stunned by receiveHit).
\<close>

theorem parry_freeze_counterexample:
  "meleeResolves (hitbox (p1 parryDuel)) (p1 parryDuel) (p2 parryDuel)
   \<and> parrying (p2 parryDuel) \<and> \<not> parryConsumed (p2 parryDuel)
   \<and> parryFreezeTimer (p2 (meleePass parryDuel)) = 0.15
   \<and> parryFreezeTimer (p1 (meleePass parryDuel)) = 0
   \<and> damagePercent (p1 (meleePass parryDuel)) = 20
   \<and> damagePercent (p2 (meleePass parryDuel)) = 0"
  by (simp add: parryDuel_def shotOfP1_def sample_defs combat_defs Let_def)

text \<open>
  Claim C6, amended. When a melee attack resolves against a defender whose parry is
  active and not consumed, the defender only gets parryConsumed and a freeze timer of
  0.15 s, so its percent does not rise; the attacker gets the launched flag and, unless
  it is also in a ranged attack (then nothing is reflected), receiveHit(20, 120, 1.0):
  +20 percent and knockback. The freeze timer of the attacker is not touched. A
  projectile taken by a parry dies, leaves hp and percent of the defender alone, sets
  the defender's freeze timer to 0.15 s and stuns the owner of the projectile for 1.2 s.
\<close>

theorem parry_resolution:
  "(meleeResolves hb a d \<and> parrying d \<and> \<not> parryConsumed d \<longrightarrow>
      snd (meleeBlock sp hb a d) = d\<lparr>parryConsumed := True, parryFreezeTimer := 0.15\<rparr>
      \<and> damagePercent (snd (meleeBlock sp hb a d)) = damagePercent d
      \<and> fst (meleeBlock sp hb a d)
          = (if ranging1 a \<or> ranging2 a then setLaunchFlag a
             else receiveHit 20 120 1.0 (Some (if x d < x a then pi else 0)) (setLaunchFlag a))
      \<and> parryFreezeTimer (fst (meleeBlock sp hb a d)) = parryFreezeTimer a
      \<and> damagePercent (fst (meleeBlock sp hb a d))
          = (if ranging1 a \<or> ranging2 a \<or> state a = ''defeat'' then damagePercent a
             else damagePercent a + 20))
   \<and> (projParried who pr wd \<longrightarrow>
        \<not> pr_alive (fst (projectileVs who pr wd))
        \<and> getFighter (snd (projectileVs who pr wd)) who
            = (getFighter wd who)\<lparr>parryConsumed := True, parryFreezeTimer := 0.15\<rparr>
        \<and> stunTimer (getFighter (snd (projectileVs who pr wd)) (pr_owner pr)) = 1.2)"
  by (simp add: meleeBlock_def projectileVs_def projParried_def parryReady_def Let_def
      receiveHit_damagePercent)

theorem parry_resolution_witness:
  "meleeResolves (hitbox (p1 parryDuel)) (p1 parryDuel) (p2 parryDuel)
   \<and> parrying (p2 parryDuel) \<and> \<not> parryConsumed (p2 parryDuel)
   \<and> damagePercent (snd (meleeBlock False (hitbox (p1 parryDuel)) (p1 parryDuel) (p2 parryDuel)))
       = damagePercent (p2 parryDuel)
   \<and> parryFreezeTimer (fst (meleeBlock False (hitbox (p1 parryDuel)) (p1 parryDuel) (p2 parryDuel)))
       = parryFreezeTimer (p1 parryDuel)
   \<and> projParried OwnerP2 shotOfP1 parryDuel
   \<and> \<not> pr_alive (fst (projectileVs OwnerP2 shotOfP1 parryDuel))
   \<and> stunTimer (getFighter (snd (projectileVs OwnerP2 shotOfP1 parryDuel)) OwnerP1) = 1.2"
proof -
  have pre: "meleeResolves (hitbox (p1 parryDuel)) (p1 parryDuel) (p2 parryDuel)
             \<and> parrying (p2 parryDuel) \<and> \<not> parryConsumed (p2 parryDuel)
             \<and> projParried OwnerP2 shotOfP1 parryDuel"
    by (simp add: parryDuel_def shotOfP1_def sample_defs combat_defs projParried_def
        parryReady_def Let_def)
  show ?thesis
    using parry_resolution [of "hitbox (p1 parryDuel)" "p1 parryDuel" "p2 parryDuel" False
        OwnerP2 shotOfP1 parryDuel] pre
    by (simp add: shotOfP1_def)
qed

text \<open>
  Claim C9, as stated, fails: the action flags are independent booleans. By its own
  methods a fighter is attacking, in a ranged attack, hurt and flying at once (one
  update with attack1 and ranged1 pressed, a hit, one update with the fly key pressed),
  and parrying and flying at once. And the one exclusion that the methods keep, of a
  parry with an attack, is broken by the agent controller, whose fallback heuristics
  write parrying = true into a fighter that is attacking.
\<close>

theorem action_flags_counterexample:
  "attacking1 (invokeAll [CallUpdate 0.016 pressAttackAndRangedP1 0, CallReceiveHit 8 90 0.9 (Some 0),
                          CallUpdate 0.016 pressDodgeP1 16] sampleP1)
   \<and> ranging1 (invokeAll [CallUpdate 0.016 pressAttackAndRangedP1 0, CallReceiveHit 8 90 0.9 (Some 0),
                          CallUpdate 0.016 pressDodgeP1 16] sampleP1)
   \<and> hurt (invokeAll [CallUpdate 0.016 pressAttackAndRangedP1 0, CallReceiveHit 8 90 0.9 (Some 0),
                          CallUpdate 0.016 pressDodgeP1 16] sampleP1)
   \<and> flying (invokeAll [CallUpdate 0.016 pressAttackAndRangedP1 0, CallReceiveHit 8 90 0.9 (Some 0),
                          CallUpdate 0.016 pressDodgeP1 16] sampleP1)
   \<and> parrying (invokeAll [CallUpdate 0.016 pressParryP2 0, CallUpdate 0.016 pressDodgeP2 16] sampleP2)
   \<and> flying (invokeAll [CallUpdate 0.016 pressParryP2 0, CallUpdate 0.016 pressDodgeP2 16] sampleP2)
   \<and> snd (snd (aiUpdate 0.016 parryAi OwnerP2 NoBehavior Map.empty
               (update 0.016 pressAttack1P2 0 sampleP2) (Some sampleP1) [shotOfP1]))
       = aiForceParry (update 0.016 pressAttack1P2 0 sampleP2)
   \<and> parrying (aiForceParry (update 0.016 pressAttack1P2 0 sampleP2))
   \<and> attacking1 (aiForceParry (update 0.016 pressAttack1P2 0 sampleP2))
   \<and> \<not> parryExclusive (p2 (run [UpdateP2 0.016 pressAttack1P2 0, AiParryP2] twoShots))"
  using flags_together forced_parry_while_attacking by blast

text \<open>
  Claim C9, amended. A parry excludes a melee attack and a ranged attack (parrying is
  never true together with attacking1, attacking2, ranging1 or ranging2) in every
  state that a fighter reaches from its constructor by its own methods (update,
  receiveHit, takeDamage, landAt), and the frame loop keeps it so: over every trace of
  updates, projectiles, combat passes, landings, writes of the stage collision and
  fall-outs, a combatant for which the exclusion holds keeps it, as long as the agent
  controller forces no parry on it (the controller only ever drives P2). Attack,
  ranged attack, hurt and flying exclude neither one another nor, for hurt and flying,
  a parry.
\<close>

theorem parry_excludes_attacks:
  "parryExclusive (invokeAll cs (newFighter x0 y0 nm ks canvasWidth canvasHeight))
   \<and> (parryExclusive (fighterOf sd wd) \<and> (sd = SideP1 \<or> noForcedParry es)
        \<longrightarrow> parryExclusive (fighterOf sd (run es wd)))"
proof -
  have own: "parryExclusive (invokeAll cs (newFighter x0 y0 nm ks canvasWidth canvasHeight))"
    by (rule invokeAll_exclusive) (simp add: parryExclusive_def newFighter_def)
  have loop: "parryExclusive (fighterOf sd wd) \<and> (sd = SideP1 \<or> noForcedParry es)
        \<longrightarrow> parryExclusive (fighterOf sd (run es wd))"
    using run_exclusive [of sd wd es] by blast
  show ?thesis using own loop by blast
qed

theorem parry_excludes_attacks_witness:
  "parryExclusive (invokeAll [CallUpdate 0.016 pressParryP2 0, CallReceiveHit 8 90 0.9 (Some 0),
                              CallUpdate 0.016 noKeys 0] sampleP2)
   \<and> parrying (invokeAll [CallUpdate 0.016 pressParryP2 0, CallReceiveHit 8 90 0.9 (Some 0),
                           CallUpdate 0.016 noKeys 0] sampleP2)
   \<and> hurt (invokeAll [CallUpdate 0.016 pressParryP2 0, CallReceiveHit 8 90 0.9 (Some 0),
                       CallUpdate 0.016 noKeys 0] sampleP2)
   \<and> parryExclusive (fighterOf SideP2 parryDuel)
   \<and> noForcedParry [Combat noGround, UpdateP2 0.016 noKeys 0, Combat noGround]
   \<and> parryExclusive (fighterOf SideP2
         (run [Combat noGround, UpdateP2 0.016 noKeys 0, Combat noGround] parryDuel))
   \<and> parrying (fighterOf SideP2 parryDuel)
   \<and> parryExclusive (fighterOf SideP1 twoShots)
   \<and> parryExclusive (fighterOf SideP1 (run (frame1 @ frame2) twoShots))"
proof -
  have e: "parrying (invokeAll [CallUpdate 0.016 pressParryP2 0, CallReceiveHit 8 90 0.9 (Some 0),
                                CallUpdate 0.016 noKeys 0] sampleP2)
           \<and> hurt (invokeAll [CallUpdate 0.016 pressParryP2 0, CallReceiveHit 8 90 0.9 (Some 0),
                               CallUpdate 0.016 noKeys 0] sampleP2)"
    by (simp add: sample_defs receiveHit_def knockbackKB_def globalKnockbackMultiplier_def
        Let_def)
  have own: "parryExclusive (invokeAll [CallUpdate 0.016 pressParryP2 0,
               CallReceiveHit 8 90 0.9 (Some 0), CallUpdate 0.016 noKeys 0] sampleP2)"
    using parry_excludes_attacks [of "[CallUpdate 0.016 pressParryP2 0,
        CallReceiveHit 8 90 0.9 (Some 0), CallUpdate 0.016 noKeys 0]" 250 200 "''P2''" keysP2 800 600]
    by (simp add: sampleP2_def)
  have d: "parryExclusive (fighterOf SideP2 parryDuel) \<and> parrying (fighterOf SideP2 parryDuel)"
    by (simp add: parryExclusive_def fighterOf_def parryDuel_def sample_defs)
  have n: "noForcedParry [Combat noGround, UpdateP2 0.016 noKeys 0, Combat noGround]"
    by simp
  have l2: "parryExclusive (fighterOf SideP2
              (run [Combat noGround, UpdateP2 0.016 noKeys 0, Combat noGround] parryDuel))"
    using parry_excludes_attacks [where sd = SideP2 and wd = parryDuel
        and es = "[Combat noGround, UpdateP2 0.016 noKeys 0, Combat noGround]"] d n
    by blast
  have s: "parryExclusive (fighterOf SideP1 twoShots)"
    by (simp add: parryExclusive_def fighterOf_def twoShots_def sampleP1_def newFighter_def)
  have l1: "parryExclusive (fighterOf SideP1 (run (frame1 @ frame2) twoShots))"
    using parry_excludes_attacks [where sd = SideP1 and wd = twoShots
        and es = "frame1 @ frame2"] s
    by blast
  show ?thesis using e own d n l2 s l1 by blast
qed

subsection \<open>The claims about the stage and the agent\<close>

text \<open>
  Claim C7, as stated, fails in its clamping: the coordinates asked for are not always
  brought into the bounds of the image. In a window of height zero the body divides
  zero by zero and passes NaN to the pixel read as the vertical coordinate; a NaN
  asked for is passed on as NaN. With a context that refuses such a coordinate the
  exception is caught and the answer is false, also where the heatmap is opaque.
\<close>

theorem zero_height_sample_counterexample:
  "heatmapReady zeroHeightStage
   \<and> sampleCoords zeroHeightStage (800, 600) (800, 600) (Num 240) (Num 500) = (Num 240, NaN)
   \<and> \<not> pixelIndex 600 (snd (sampleCoords zeroHeightStage (800, 600) (800, 600) (Num 240) (Num 500)))
   \<and> isSolidBody zeroHeightStage (Num 240) (Num 500) = Inl TypeError
   \<and> isSolidAtCanvasPoint zeroHeightStage (Num 240) (Num 500) = False
   \<and> isSolidAtCanvasPoint sampleStage (Num 240) (Num 500) = True
   \<and> sampleCoords sampleStage (800, 600) (800, 600) NaN (Num 500) = (NaN, Num 500)
   \<and> isSolidAtCanvasPoint sampleStage NaN (Num 500) = False"
  using sampleStage_coords
  by (simp add: isSolidAtCanvasPoint_def isSolidBody_def heatmapReady_def pixelIndex_def
      zeroHeightStage_def sampleStage_def lowerHalfSolid_def)

text \<open>
  Claim C7, amended. The solidity query never throws and answers with a boolean: an
  exception of the pixel read is caught and gives false, and so does a heatmap that is
  not ready (no context, no canvas, a canvas of width zero, no image, an image of width
  zero). When the heatmap is ready, the answer is whether the alpha of the pixel read
  is above 128 (false if the read throws), and the pixel read is the one at the
  coordinates the body computes. In a window of positive width and height, and for
  coordinates that are not NaN (out of range and infinite ones included), these are
  the indices of a pixel of the heatmap: they are clamped, not treated as empty.
\<close>

theorem isSolid_fails_closed:
  "(\<not> heatmapReady st \<longrightarrow> isSolidAtCanvasPoint st canvasX canvasY = False)
   \<and> (isSolidBody st canvasX canvasY = Inl e \<longrightarrow> isSolidAtCanvasPoint st canvasX canvasY = False)
   \<and> (isSolidBody st canvasX canvasY = Inr b \<longrightarrow> isSolidAtCanvasPoint st canvasX canvasY = b)
   \<and> (heatmapCtx st = Some getImageData \<and> heatmapCanvas st = Some (cw, ch)
        \<and> stageImg st = Some (imgW, imgH) \<and> 0 < cw \<and> 0 < imgW \<longrightarrow>
        isSolidAtCanvasPoint st canvasX canvasY
          = (case getImageData (fst (sampleCoords st (cw, ch) (imgW, imgH) canvasX canvasY))
                               (snd (sampleCoords st (cw, ch) (imgW, imgH) canvasX canvasY)) of
               Inl e \<Rightarrow> False | Inr d \<Rightarrow> alpha d > 128))
   \<and> (0 < WIDTH st \<and> 0 < HEIGHT st \<and> canvasX \<noteq> NaN \<and> canvasY \<noteq> NaN \<longrightarrow>
        pixelIndex cw (fst (sampleCoords st (cw, ch) (imgW, imgH) canvasX canvasY))
        \<and> pixelIndex ch (snd (sampleCoords st (cw, ch) (imgW, imgH) canvasX canvasY)))"
proof -
  have a: "\<not> heatmapReady st \<longrightarrow> isSolidAtCanvasPoint st canvasX canvasY = False"
    using isSolid_not_ready by blast
  have b: "(isSolidBody st canvasX canvasY = Inl e \<longrightarrow> isSolidAtCanvasPoint st canvasX canvasY = False)
           \<and> (isSolidBody st canvasX canvasY = Inr b \<longrightarrow> isSolidAtCanvasPoint st canvasX canvasY = b)"
    by (simp add: isSolidAtCanvasPoint_def)
  have c: "heatmapCtx st = Some getImageData \<and> heatmapCanvas st = Some (cw, ch)
        \<and> stageImg st = Some (imgW, imgH) \<and> 0 < cw \<and> 0 < imgW \<longrightarrow>
        isSolidAtCanvasPoint st canvasX canvasY
          = (case getImageData (fst (sampleCoords st (cw, ch) (imgW, imgH) canvasX canvasY))
                               (snd (sampleCoords st (cw, ch) (imgW, imgH) canvasX canvasY)) of
               Inl e \<Rightarrow> False | Inr d \<Rightarrow> alpha d > 128)"
    using isSolid_ready [where st = st and getImageData = getImageData and cw = cw and ch = ch
        and imgW = imgW and imgH = imgH and canvasX = canvasX and canvasY = canvasY]
    by blast
  have d: "0 < WIDTH st \<and> 0 < HEIGHT st \<and> canvasX \<noteq> NaN \<and> canvasY \<noteq> NaN \<longrightarrow>
        pixelIndex cw (fst (sampleCoords st (cw, ch) (imgW, imgH) canvasX canvasY))
        \<and> pixelIndex ch (snd (sampleCoords st (cw, ch) (imgW, imgH) canvasX canvasY))"
    using sampleCoords_bounds [where st = st and cw = cw and ch = ch and imgW = imgW
        and imgH = imgH and canvasX = canvasX and canvasY = canvasY]
    by blast
  show ?thesis using a b c d by blast
qed

theorem isSolid_fails_closed_witness:
  "heatmapReady sampleStage
   \<and> 0 < WIDTH sampleStage \<and> 0 < HEIGHT sampleStage
   \<and> sampleCoords sampleStage (800, 600) (800, 600) (Num (- 50)) (Num 10000) = (Num 0, Num 599)
   \<and> pixelIndex 800 (fst (sampleCoords sampleStage (800, 600) (800, 600) (Num (- 50)) (Num 10000)))
   \<and> pixelIndex 600 (snd (sampleCoords sampleStage (800, 600) (800, 600) (Num (- 50)) (Num 10000)))
   \<and> pixelIndex 800 (fst (sampleCoords sampleStage (800, 600) (800, 600) PosInf NegInf))
   \<and> pixelIndex 600 (snd (sampleCoords sampleStage (800, 600) (800, 600) PosInf NegInf))
   \<and> isSolidAtCanvasPoint sampleStage (Num (- 50)) (Num 10000) = True
   \<and> isSolidAtCanvasPoint sampleStage (Num 900) (Num (- 7)) = False
   \<and> isSolidBody taintedStage (Num 100) (Num 500) = Inl SecurityError
   \<and> isSolidAtCanvasPoint taintedStage (Num 100) (Num 500) = False
   \<and> isSolidAtCanvasPoint (sampleStage\<lparr>heatmapCanvas := Some (0, 0)\<rparr>) (Num 100) (Num 500) = False
   \<and> isSolidAtCanvasPoint (sampleStage\<lparr>stageImg := None\<rparr>) (Num 100) (Num 500) = False"
proof -
  have r: "heatmapReady sampleStage \<and> 0 < WIDTH sampleStage \<and> 0 < HEIGHT sampleStage"
    by (simp add: heatmapReady_def sampleStage_def)
  have c1: "sampleCoords sampleStage (800, 600) (800, 600) (Num (- 50)) (Num 10000) = (Num 0, Num 599)"
    and c2: "sampleCoords sampleStage (800, 600) (800, 600) (Num 900) (Num (- 7)) = (Num 799, Num 0)"
    using sampleStage_coords by blast+
  have t: "isSolidBody taintedStage (Num 100) (Num 500) = Inl SecurityError"
    by (simp add: isSolidBody_def taintedStage_def sampleStage_def split: prod.splits)
  have n1: "\<not> heatmapReady (sampleStage\<lparr>heatmapCanvas := Some (0, 0)\<rparr>)"
    by (simp add: heatmapReady_def sampleStage_def)
  have n2: "\<not> heatmapReady (sampleStage\<lparr>stageImg := None\<rparr>)"
    by (simp add: heatmapReady_def sampleStage_def)
  have ctx: "heatmapCtx sampleStage = Some lowerHalfSolid \<and> heatmapCanvas sampleStage = Some (800, 600)
             \<and> stageImg sampleStage = Some (800, 600)"
    by (simp add: sampleStage_def)
  have nn: "Num (- 50) \<noteq> NaN \<and> Num 10000 \<noteq> NaN \<and> PosInf \<noteq> NaN \<and> NegInf \<noteq> NaN"
    by simp
  have p1: "pixelIndex 800 (fst (sampleCoords sampleStage (800, 600) (800, 600) (Num (- 50)) (Num 10000)))
            \<and> pixelIndex 600 (snd (sampleCoords sampleStage (800, 600) (800, 600) (Num (- 50)) (Num 10000)))"
    using isSolid_fails_closed [where st = sampleStage and canvasX = "Num (- 50)"
        and canvasY = "Num 10000" and cw = 800 and ch = 600 and imgW = 800 and imgH = 600] r nn
    by blast
  have p2: "pixelIndex 800 (fst (sampleCoords sampleStage (800, 600) (800, 600) PosInf NegInf))
            \<and> pixelIndex 600 (snd (sampleCoords sampleStage (800, 600) (800, 600) PosInf NegInf))"
    using isSolid_fails_closed [where st = sampleStage and canvasX = PosInf
        and canvasY = NegInf and cw = 800 and ch = 600 and imgW = 800 and imgH = 600] r nn
    by blast
  have s1: "isSolidAtCanvasPoint sampleStage (Num (- 50)) (Num 10000) = True"
    using isSolid_fails_closed [where st = sampleStage and canvasX = "Num (- 50)"
        and canvasY = "Num 10000" and getImageData = lowerHalfSolid and cw = 800 and ch = 600
        and imgW = 800 and imgH = 600]
      ctx c1
    by (simp add: lowerHalfSolid_def)
  have s2: "isSolidAtCanvasPoint sampleStage (Num 900) (Num (- 7)) = False"
    using isSolid_fails_closed [where st = sampleStage and canvasX = "Num 900"
        and canvasY = "Num (- 7)" and getImageData = lowerHalfSolid and cw = 800 and ch = 600
        and imgW = 800 and imgH = 600]
      ctx c2
    by (simp add: lowerHalfSolid_def)
  have s3: "isSolidAtCanvasPoint taintedStage (Num 100) (Num 500) = False"
    using isSolid_fails_closed [where st = taintedStage and canvasX = "Num 100"
        and canvasY = "Num 500" and e = SecurityError] t by blast
  have s4: "isSolidAtCanvasPoint (sampleStage\<lparr>heatmapCanvas := Some (0, 0)\<rparr>) (Num 100) (Num 500) = False"
    using isSolid_fails_closed [where st = "sampleStage\<lparr>heatmapCanvas := Some (0, 0)\<rparr>"
        and canvasX = "Num 100" and canvasY = "Num 500"] n1 by blast
  have s5: "isSolidAtCanvasPoint (sampleStage\<lparr>stageImg := None\<rparr>) (Num 100) (Num 500) = False"
    using isSolid_fails_closed [where st = "sampleStage\<lparr>stageImg := None\<rparr>"
        and canvasX = "Num 100" and canvasY = "Num 500"] n2 by blast
  show ?thesis using r c1 t p1 p2 s1 s2 s3 s4 s5 by blast
qed

text \<open>
  Claim C8 does not hold of the code: update leaves a movement key pressed towards
  missing ground. The edge check of the fallback heuristics does not clear the key of
  the direction without ground; it presses the key of the opposite direction, and the
  approach to the opponent that follows presses the key towards the opponent without
  sampling the ground. The safety filter over the intent of an attached behaviour does
  clear the key, but only in a local copy: update resets the movement keys after the
  merge and the same heuristics press them again. Here the agent stands grounded at
  x = 300 on a platform whose solid pixels begin at x = 400, the sample 48 px to the
  left of its centre is not solid, and the opponent is far to the left. Update leaves
  the left key pressed (with and without a behaviour whose intent to walk left the
  filter has cleared), together with the right key; it does not change the fighter;
  and with that input Fighter.update, which reads the left key first, turns the
  fighter to the left and moves it from x = 300 to x = 297.6, towards the pit.
\<close>

theorem agent_walks_to_pit:
  "onGround edgeNpc \<and> \<not> groundAhead edgeAi edgeNpc (- 1) \<and> groundAhead edgeAi edgeNpc 1
   \<and> pressed edgeMerged ''ArrowLeft'' \<and> pressed edgeMerged ''ArrowRight''
   \<and> \<not> pressed (filterIntent edgeAi edgeNpc [''ArrowLeft'' \<mapsto> True]) ''ArrowLeft''
   \<and> pressed (fst (snd (aiUpdate 0.016 edgeAi OwnerP2 (BehaviorIntent [''ArrowLeft'' \<mapsto> True])
                           Map.empty edgeNpc (Some leftPlayer) []))) ''ArrowLeft''
   \<and> snd (snd (aiUpdate 0.016 edgeAi OwnerP2 NoBehavior Map.empty edgeNpc (Some leftPlayer) []))
       = edgeNpc
   \<and> x edgeNpc = 300
   \<and> x (update 0.016 (pressed edgeMerged) 0 edgeNpc) = 297.6
   \<and> facing (update 0.016 (pressed edgeMerged) 0 edgeNpc) = - 1"
proof -
  have m: "pressed edgeMerged ''ArrowLeft'' \<and> pressed edgeMerged ''ArrowRight''
           \<and> snd (snd (aiUpdate 0.016 edgeAi OwnerP2 NoBehavior Map.empty edgeNpc
                          (Some leftPlayer) [])) = edgeNpc"
    using edgeMerged_eval by simp
  have x0: "x edgeNpc = 300" by (simp add: edgeNpc_def)
  show ?thesis using edge_ground m edge_behaviour x0 edge_walk by blast
qed

end
